theory Spec2Isabelle
  imports Complex_Main "HOL-Library.Char_ord" "HOL-Library.List_Lexorder"
begin

section \<open>Python values, dictionaries, errors and rounding\<close>

text \<open>
  A value stored in a stats dictionary is a number or \<open>None\<close> (the data layer stores
  a float for every statistic it reads and \<open>None\<close> for a missing percentage).
\<close>

datatype pyval = PyNone | PyNum real

datatype error = TypeError | ValueError | ZeroDivisionError

text \<open>A raised exception is the left summand; \<open>bind_e\<close> sequences two computations.\<close>

fun bind_e :: "error + 'a \<Rightarrow> ('a \<Rightarrow> error + 'b) \<Rightarrow> error + 'b" where
  "bind_e (Inl e) f = Inl e"
| "bind_e (Inr x) f = f x"

text \<open>A dictionary is an association list; \<open>d.get(k, default)\<close>:\<close>

definition dict_get :: "('k \<times> 'v) list \<Rightarrow> 'k \<Rightarrow> 'v \<Rightarrow> 'v" where
  "dict_get d k dflt = (case map_of d k of None \<Rightarrow> dflt | Some v \<Rightarrow> v)"

text \<open>Arithmetic on a stored value raises \<open>TypeError\<close> when the value is \<open>None\<close>.\<close>

fun num :: "pyval \<Rightarrow> error + real" where
  "num PyNone = Inl TypeError"
| "num (PyNum x) = Inr x"

text \<open>Truthiness of a stored value: \<open>None\<close> and zero are falsy.\<close>

fun truthy :: "pyval \<Rightarrow> bool" where
  "truthy PyNone = False"
| "truthy (PyNum x) = (x \<noteq> 0)"

text \<open>Python 3 \<open>round(x)\<close>: the nearest integer, ties go to the even one.\<close>

definition py_round :: "real \<Rightarrow> int" where
  "py_round x =
     (let f = \<lfloor>x\<rfloor>; d = x - of_int f
      in if d < 1 / 2 then f else if 1 / 2 < d then f + 1
         else if even f then f else f + 1)"

section \<open>Floats\<close>

text \<open>
  A Python float is an IEEE 754 double: a real \<open>m * 2 ^ e\<close> with an integer mantissa
  \<open>\<bar>m\<bar> < 2 ^ 53\<close> and \<open>- 1074 \<le> e\<close>. An arithmetic operation on floats returns
  the double nearest to the exact result, ties going to the even mantissa; \<open>fl\<close> is that
  rounding, so that the float sum of \<open>x\<close> and \<open>y\<close> is \<open>fl (x + y)\<close>, a decimal literal
  \<open>0.45\<close> of the program is \<open>fl 0.45\<close>, and \<open>float(v)\<close> is \<open>fl v\<close>. A literal that is a
  double already (\<open>0.5\<close>, \<open>10.0\<close>) is written as it stands.

  \<open>scale_up\<close> counts the doublings that bring a positive number to \<open>2 ^ 52\<close> or above,
  at most 1074 of them (below that the doubles are equally spaced, \<open>2 ^ - 1074\<close> apart);
  \<open>scale_down\<close> counts the halvings that bring it below \<open>2 ^ 53\<close>. Infinity and NaN are
  not modelled: beyond the largest double, where the program would compute with \<open>inf\<close>,
  \<open>fl\<close> goes on rounding to 53 bits.
\<close>

fun scale_up :: "nat \<Rightarrow> real \<Rightarrow> nat" where
  "scale_up 0 m = 0"
| "scale_up (Suc fuel) m = (if m < 2 ^ 52 then Suc (scale_up fuel (2 * m)) else 0)"

fun scale_down :: "nat \<Rightarrow> real \<Rightarrow> nat" where
  "scale_down 0 m = 0"
| "scale_down (Suc fuel) m = (if 2 ^ 53 \<le> m then Suc (scale_down fuel (m / 2)) else 0)"

definition fl_pos :: "real \<Rightarrow> real" where
  "fl_pos x =
     (if x < 2 ^ 53
      then let k = scale_up 1074 x in of_int (py_round (x * 2 ^ k)) / 2 ^ k
      else let k = scale_down 971 x in of_int (py_round (x / 2 ^ k)) * 2 ^ k)"

definition fl :: "real \<Rightarrow> real" where
  "fl x = (if x = 0 then 0 else if 0 < x then fl_pos x else - fl_pos (- x))"

text \<open>
  \<open>round(x, n)\<close> on a float \<open>x\<close>: the decimal with \<open>n\<close> digits nearest to the exact value
  of \<open>x\<close> (ties to the even digit), and then the double nearest to that decimal.
\<close>

definition round_decimal :: "real \<Rightarrow> nat \<Rightarrow> real" where
  "round_decimal x n = of_int (py_round (x * 10 ^ n)) / 10 ^ n"

definition py_round_nd :: "real \<Rightarrow> nat \<Rightarrow> real" where
  "py_round_nd x n = fl (round_decimal x n)"

section \<open>Players\<close>

text \<open>
  A player dictionary: \<open>name\<close> is always present, \<open>position\<close> may be absent, \<open>stats\<close>
  is the stats mapping (an absent key is the empty mapping, as \<open>player.get('stats', {})\<close>
  reads it). Team and fantasy-team tags are copied through by the code and not modelled.
\<close>

record player =
  name :: string
  position :: "string option"
  stats :: "(string \<times> pyval) list"

section \<open>simulation.py: MatchupSimulator\<close>

definition stat_volatility :: "(string \<times> real) list" where
  "stat_volatility =
     [(''points'', 0.25), (''rebounds'', fl 0.30), (''assists'', fl 0.35), (''steals'', 0.50),
      (''blocks'', fl 0.60), (''three_pointers_made'', fl 0.40), (''fg_percentage'', fl 0.15),
      (''ft_percentage'', fl 0.10), (''turnovers'', fl 0.30)]"

text \<open>
  The nine keys of a team projection, in the insertion order of \<open>team_projections\<close>.
  Every team projection carries exactly these keys, so it is modelled as a function
  read at these keys only.
\<close>

definition stat_categories :: "string list" where
  "stat_categories =
     [''points'', ''rebounds'', ''assists'', ''steals'', ''blocks'',
      ''three_pointers_made'', ''fg_percentage'', ''ft_percentage'', ''turnovers'']"

definition counting_stats :: "string list" where
  "counting_stats =
     [''points'', ''rebounds'', ''assists'', ''steals'', ''blocks'',
      ''three_pointers_made'', ''turnovers'']"

subsection \<open>\<open>_get_sample_player_projections\<close>\<close>

text \<open>\<open>safe_get\<close>: the default for a stored \<open>None\<close>, and \<open>float(value)\<close> otherwise.\<close>

definition safe_get :: "(string \<times> pyval) list \<Rightarrow> string \<Rightarrow> real \<Rightarrow> real" where
  "safe_get st key dflt =
     (case dict_get st key (PyNum dflt) of PyNone \<Rightarrow> dflt | PyNum v \<Rightarrow> fl v)"

definition default_projections :: "(string \<times> real) list" where
  "default_projections =
     [(''points'', 10.0), (''rebounds'', 4.0), (''assists'', 3.0), (''steals'', fl 0.8),
      (''blocks'', 0.5), (''three_pointers_made'', 1.0), (''fg_percentage'', fl 0.45),
      (''ft_percentage'', 0.75), (''turnovers'', 1.5), (''fg_attempts'', 8.0),
      (''ft_attempts'', 3.0)]"

definition get_sample_player_projections :: "player \<Rightarrow> (string \<times> real) list" where
  "get_sample_player_projections p =
     (let st = stats p in
      if st = [] then default_projections
      else
        [(''points'', safe_get st ''points'' 0.0),
         (''rebounds'', safe_get st ''rebounds'' 0.0),
         (''assists'', safe_get st ''assists'' 0.0),
         (''steals'', safe_get st ''steals'' 0.0),
         (''blocks'', safe_get st ''blocks'' 0.0),
         (''three_pointers_made'', safe_get st ''three_pointers_made'' 0.0),
         (''fg_percentage'', safe_get st ''fg_percentage'' (fl 0.45)),
         (''ft_percentage'', safe_get st ''ft_percentage'' 0.75),
         (''turnovers'', safe_get st ''turnovers'' 0.0),
         (''fg_attempts'', safe_get st ''field_goals_attempted'' 10.0),
         (''ft_attempts'', safe_get st ''free_throws_attempted'' 3.0)])"

subsection \<open>\<open>_get_team_projections\<close>\<close>

record team_acc =
  team_projections :: "string \<Rightarrow> real"
  active_players :: nat
  fg_makes :: real
  fg_attempts :: real
  ft_makes :: real
  ft_attempts :: real

definition team_acc_init :: team_acc where
  "team_acc_init =
     \<lparr>team_projections = (\<lambda>_. 0), active_players = 0,
      fg_makes = 0, fg_attempts = 0, ft_makes = 0, ft_attempts = 0\<rparr>"

text \<open>
  The body of the loop over the roster. Every value of a player's projection is a float
  already, so the \<open>float(...)\<close> calls of the loop leave it unchanged; the sums and the
  products are float operations.
\<close>

definition aggregate_player :: "team_acc \<Rightarrow> player \<Rightarrow> team_acc" where
  "aggregate_player acc p =
     (let player_stats = get_sample_player_projections p in
      if player_stats = [] then acc
      else
        let acc1 = acc\<lparr>active_players := active_players acc + 1,
                       team_projections :=
                         foldl (\<lambda>tp stat. tp(stat := fl (tp stat + dict_get player_stats stat 0)))
                           (team_projections acc) counting_stats\<rparr>;
            acc2 =
              (case (map_of player_stats ''fg_percentage'', map_of player_stats ''fg_attempts'') of
                 (Some fg_pct, Some fg_att) \<Rightarrow>
                   if fg_pct > 0 \<and> fg_att > 0
                   then acc1\<lparr>fg_makes := fl (fg_makes acc1 + fl (fg_pct * fg_att)),
                             fg_attempts := fl (fg_attempts acc1 + fg_att)\<rparr>
                   else acc1
               | _ \<Rightarrow> acc1)
        in
          (case (map_of player_stats ''ft_percentage'', map_of player_stats ''ft_attempts'') of
             (Some ft_pct, Some ft_att) \<Rightarrow>
               if ft_pct > 0 \<and> ft_att > 0
               then acc2\<lparr>ft_makes := fl (ft_makes acc2 + fl (ft_pct * ft_att)),
                         ft_attempts := fl (ft_attempts acc2 + ft_att)\<rparr>
               else acc2
           | _ \<Rightarrow> acc2))"

definition get_team_projections :: "player list \<Rightarrow> string \<Rightarrow> real" where
  "get_team_projections roster =
     (let acc = foldl aggregate_player team_acc_init roster;
          tp = team_projections acc;
          tp1 = (if fg_attempts acc > 0
                 then tp(''fg_percentage'' := fl (fg_makes acc / fg_attempts acc)) else tp)
      in if ft_attempts acc > 0
         then tp1(''ft_percentage'' := fl (ft_makes acc / ft_attempts acc)) else tp1)"

subsection \<open>\<open>_simulate_team_performance\<close>\<close>

text \<open>
  \<open>np.random.normal(loc, scale)\<close> raises \<open>ValueError\<close> for a negative scale and
  otherwise returns a sample; the sample it returns is an input of the model.
\<close>

definition np_random_normal :: "real \<Rightarrow> real \<Rightarrow> real \<Rightarrow> error + real" where
  "np_random_normal sample loc scale = (if scale < 0 then Inl ValueError else Inr sample)"

text \<open>The body of the loop over \<open>projections.items()\<close>, for one stat.\<close>

definition simulate_stat :: "(string \<Rightarrow> real) \<Rightarrow> string \<Rightarrow> real \<Rightarrow> error + real" where
  "simulate_stat draw stat projection =
     (if projection = 0 then Inr 0
      else
        let volatility = dict_get stat_volatility stat 0.25;
            std_dev = fl (projection * volatility)
        in if stat \<in> set [''fg_percentage'', ''ft_percentage'']
           then bind_e (np_random_normal (draw stat) projection std_dev)
                  (\<lambda>simulated_value. Inr (max (fl 0.2) (min 1.0 simulated_value)))
           else bind_e (np_random_normal (draw stat) projection std_dev)
                  (\<lambda>simulated_value. Inr (max 0 simulated_value)))"

fun simulate_loop ::
  "(string \<Rightarrow> real) \<Rightarrow> (string \<Rightarrow> real) \<Rightarrow> string list \<Rightarrow> (string \<Rightarrow> real)
     \<Rightarrow> error + (string \<Rightarrow> real)" where
  "simulate_loop draw projections [] simulated_stats = Inr simulated_stats"
| "simulate_loop draw projections (stat # rest) simulated_stats =
     bind_e (simulate_stat draw stat (projections stat))
       (\<lambda>v. simulate_loop draw projections rest (simulated_stats(stat := v)))"

definition simulate_team_performance ::
  "(string \<Rightarrow> real) \<Rightarrow> (string \<Rightarrow> real) \<Rightarrow> error + (string \<Rightarrow> real)" where
  "simulate_team_performance draw projections =
     simulate_loop draw projections stat_categories (\<lambda>_. 0)"

subsection \<open>\<open>_run_simulations\<close>\<close>

text \<open>
  The detail kept for each of the first 100 trials, without the two rounded sample values
  it also holds per category.
\<close>

record sim_detail =
  simulation :: nat
  detail_categories_won :: nat
  detail_categories_lost :: nat
  winner :: string

record sim_state =
  my_wins :: real
  category_wins :: "string \<Rightarrow> nat"
  category_losses :: "string \<Rightarrow> nat"
  category_ties :: "string \<Rightarrow> nat"
  simulation_details :: "sim_detail list"

record trial_acc =
  categories_won :: nat
  categories_lost :: nat
  tally :: sim_state

definition sim_state_init :: sim_state where
  "sim_state_init =
     \<lparr>my_wins = 0, category_wins = (\<lambda>_. 0), category_losses = (\<lambda>_. 0),
      category_ties = (\<lambda>_. 0), simulation_details = []\<rparr>"

definition record_win :: "string \<Rightarrow> trial_acc \<Rightarrow> trial_acc" where
  "record_win category a =
     a\<lparr>categories_won := categories_won a + 1,
       tally := (tally a)\<lparr>category_wins :=
         (category_wins (tally a))(category := category_wins (tally a) category + 1)\<rparr>\<rparr>"

definition record_loss :: "string \<Rightarrow> trial_acc \<Rightarrow> trial_acc" where
  "record_loss category a =
     a\<lparr>categories_lost := categories_lost a + 1,
       tally := (tally a)\<lparr>category_losses :=
         (category_losses (tally a))(category := category_losses (tally a) category + 1)\<rparr>\<rparr>"

definition record_tie :: "string \<Rightarrow> trial_acc \<Rightarrow> trial_acc" where
  "record_tie category a =
     a\<lparr>tally := (tally a)\<lparr>category_ties :=
         (category_ties (tally a))(category := category_ties (tally a) category + 1)\<rparr>\<rparr>"

text \<open>The body of the loop over the categories of one trial.\<close>

definition compare_category ::
  "(string \<Rightarrow> real) \<Rightarrow> (string \<Rightarrow> real) \<Rightarrow> trial_acc \<Rightarrow> string \<Rightarrow> trial_acc" where
  "compare_category my_sim_stats opp_sim_stats a category =
     (let my_value = my_sim_stats category; opp_value = opp_sim_stats category in
      if category = ''turnovers'' then
        (if my_value < opp_value then record_win category a
         else if my_value > opp_value then record_loss category a
         else record_tie category a)
      else
        (if my_value > opp_value then record_win category a
         else if my_value < opp_value then record_loss category a
         else record_tie category a))"

text \<open>
  One trial (the body of the loop over \<open>range(num_simulations)\<close>); \<open>rng sim\<close> gives the
  normal samples drawn for my team and for the opponent in trial \<open>sim\<close>. The counters are
  Python integers. The win tally is a multiple of one half, so its float additions are exact
  below \<open>2 ^ 52\<close> trials, and it is kept as the exact sum.
\<close>

definition run_trial ::
  "(nat \<Rightarrow> (string \<Rightarrow> real) \<times> (string \<Rightarrow> real)) \<Rightarrow> (string \<Rightarrow> real) \<Rightarrow> (string \<Rightarrow> real)
     \<Rightarrow> sim_state \<Rightarrow> nat \<Rightarrow> error + sim_state" where
  "run_trial rng my_projections opponent_projections s sim =
     bind_e (simulate_team_performance (fst (rng sim)) my_projections) (\<lambda>my_sim_stats.
     bind_e (simulate_team_performance (snd (rng sim)) opponent_projections) (\<lambda>opp_sim_stats.
       let a = foldl (compare_category my_sim_stats opp_sim_stats)
                 \<lparr>categories_won = 0, categories_lost = 0, tally = s\<rparr> stat_categories;
           s1 = tally a;
           s2 = (if categories_won a > categories_lost a then s1\<lparr>my_wins := my_wins s1 + 1\<rparr>
                 else if categories_lost a > categories_won a then s1
                 else s1\<lparr>my_wins := my_wins s1 + 0.5\<rparr>);
           sim_detail =
             \<lparr>simulation = sim + 1,
              detail_categories_won = categories_won a,
              detail_categories_lost = categories_lost a,
              winner = (if categories_won a > categories_lost a then ''me''
                        else if categories_lost a > categories_won a then ''opponent''
                        else ''tie'')\<rparr>
       in Inr (if sim < 100
               then s2\<lparr>simulation_details := simulation_details s2 @ [sim_detail]\<rparr>
               else s2)))"

fun run_trials ::
  "(nat \<Rightarrow> (string \<Rightarrow> real) \<times> (string \<Rightarrow> real)) \<Rightarrow> (string \<Rightarrow> real) \<Rightarrow> (string \<Rightarrow> real)
     \<Rightarrow> nat list \<Rightarrow> sim_state \<Rightarrow> error + sim_state" where
  "run_trials rng my_projections opponent_projections [] s = Inr s"
| "run_trials rng my_projections opponent_projections (sim # rest) s =
     bind_e (run_trial rng my_projections opponent_projections s sim)
       (run_trials rng my_projections opponent_projections rest)"

record cat_report =
  win_pct :: real
  loss_pct :: real
  tie_pct :: real
  strength :: string

record sim_report =
  win_probability :: real
  category_breakdown :: "(string \<times> cat_report) list"
  expected_categories_won :: nat
  expected_categories_lost :: nat
  expected_categories_tied :: nat
  details :: "sim_detail list"

text \<open>
  Dividing by \<open>num_simulations = 0\<close> raises \<open>ZeroDivisionError\<close>. The quotient of two
  integers, and of the tally by the trial count, is the double nearest to the exact quotient;
  the product with 100 and the rounding to one decimal are float operations.
\<close>

definition category_report :: "nat \<Rightarrow> sim_state \<Rightarrow> string \<Rightarrow> string \<times> cat_report" where
  "category_report num_simulations s category =
     (let w = fl (fl (real (category_wins s category) / real num_simulations) * 100);
          l = fl (fl (real (category_losses s category) / real num_simulations) * 100);
          t = fl (fl (real (category_ties s category) / real num_simulations) * 100)
      in (category,
          \<lparr>win_pct = py_round_nd w 1, loss_pct = py_round_nd l 1, tie_pct = py_round_nd t 1,
           strength = (if w > 60 then ''strong'' else if w < 40 then ''weak'' else ''even'')\<rparr>))"

definition run_simulations ::
  "nat \<Rightarrow> (nat \<Rightarrow> (string \<Rightarrow> real) \<times> (string \<Rightarrow> real)) \<Rightarrow> (string \<Rightarrow> real) \<Rightarrow> (string \<Rightarrow> real)
     \<Rightarrow> error + sim_report" where
  "run_simulations num_simulations rng my_projections opponent_projections =
     bind_e (run_trials rng my_projections opponent_projections [0..<num_simulations]
               sim_state_init) (\<lambda>s.
       if num_simulations = 0 then Inl ZeroDivisionError
       else
         let win_prob = fl (fl (my_wins s / real num_simulations) * 100);
             breakdown = map (category_report num_simulations s) stat_categories
         in Inr \<lparr>win_probability = py_round_nd win_prob 1,
                 category_breakdown = breakdown,
                 expected_categories_won =
                   length (filter (\<lambda>(cat, data). win_pct data > 50) breakdown),
                 expected_categories_lost =
                   length (filter (\<lambda>(cat, data). win_pct data < 50) breakdown),
                 expected_categories_tied =
                   length (filter (\<lambda>(cat, data). win_pct data = 50) breakdown),
                 details = simulation_details s\<rparr>)"

subsection \<open>\<open>_generate_matchup_recommendations\<close> and \<open>simulate_matchup\<close>\<close>

text \<open>A strategic recommendation, without its message text.\<close>

record matchup_rec =
  mr_type :: string
  mr_categories :: "string list"
  mr_priority :: string

definition generate_matchup_recommendations :: "sim_report \<Rightarrow> matchup_rec list" where
  "generate_matchup_recommendations simulation_results =
     (let breakdown = category_breakdown simulation_results;
          weak_categories = map fst (filter (\<lambda>(cat, data). win_pct data < 40) breakdown);
          strong_categories = map fst (filter (\<lambda>(cat, data). win_pct data > 60) breakdown)
      in (if weak_categories \<noteq> []
          then [\<lparr>mr_type = ''improve_weakness'', mr_categories = weak_categories,
                 mr_priority = ''high''\<rparr>] else [])
         @ (if strong_categories \<noteq> []
            then [\<lparr>mr_type = ''leverage_strength'', mr_categories = strong_categories,
                   mr_priority = ''medium''\<rparr>] else []))"

record matchup_report =
  results :: sim_report
  my_team_projections :: "string \<Rightarrow> real"
  opponent_projections :: "string \<Rightarrow> real"
  recommendations :: "matchup_rec list"

definition simulate_matchup ::
  "nat \<Rightarrow> (nat \<Rightarrow> (string \<Rightarrow> real) \<times> (string \<Rightarrow> real)) \<Rightarrow> player list \<Rightarrow> player list
     \<Rightarrow> error + matchup_report" where
  "simulate_matchup num_simulations rng my_roster opponent_roster =
     (let my_projections = get_team_projections my_roster;
          opponent_projections = get_team_projections opponent_roster
      in bind_e (run_simulations num_simulations rng my_projections opponent_projections)
           (\<lambda>simulation_results.
              Inr \<lparr>results = simulation_results,
                   my_team_projections = my_projections,
                   opponent_projections = opponent_projections,
                   recommendations = generate_matchup_recommendations simulation_results\<rparr>))"

section \<open>draft.py: DraftAssistant.calculate_player_credit\<close>

text \<open>
  The composite score (the statements from the reads of the stats to the turnover penalty).
  Every arithmetic operation and comparison on a stored \<open>None\<close> raises \<open>TypeError\<close>; on
  numbers every operation is a float operation.
\<close>

definition composite_score :: "(string \<times> pyval) list \<Rightarrow> error + real" where
  "composite_score st =
     (let pts = dict_get st ''points'' (PyNum 0);
          reb = dict_get st ''rebounds'' (PyNum 0);
          ast = dict_get st ''assists'' (PyNum 0);
          stl = dict_get st ''steals'' (PyNum 0);
          blk = dict_get st ''blocks'' (PyNum 0);
          fg3m = dict_get st ''three_pointers_made'' (PyNum 0);
          to = dict_get st ''turnovers'' (PyNum 0);
          fg_pct = dict_get st ''fg_percentage'' (PyNum 0);
          ft_pct = dict_get st ''ft_percentage'' (PyNum 0);
          score = 0
      in bind_e (num pts) (\<lambda>pts. let score = fl (score + fl (pts * 1.0)) in
         bind_e (num reb) (\<lambda>reb. let score = fl (score + fl (reb * fl 1.2)) in
         bind_e (num ast) (\<lambda>ast. let score = fl (score + fl (ast * 1.5)) in
         bind_e (num stl) (\<lambda>stl. let score = fl (score + fl (stl * 3.0)) in
         bind_e (num blk) (\<lambda>blk. let score = fl (score + fl (blk * 3.0)) in
         bind_e (num fg3m) (\<lambda>fg3m. let score = fl (score + fl (fg3m * 0.5)) in
         bind_e (num fg_pct) (\<lambda>fg_pct.
           let score = (if fg_pct > 0 then fl (score + fl (fl (fg_pct - fl 0.46) * 50))
                        else score) in
         bind_e (num ft_pct) (\<lambda>ft_pct.
           let score = (if ft_pct > 0 then fl (score + fl (fl (ft_pct - fl 0.78) * 30))
                        else score) in
         bind_e (num to) (\<lambda>to. Inr (fl (score - fl (to * 1.0)))))))))))))"

text \<open>The cascade from the composite score to the auction value.\<close>

definition tier_credit :: "real \<Rightarrow> real" where
  "tier_credit score =
     (if score \<ge> 55 then fl (50 + min 20 (fl (fl (score - 55) * 1.5)))
      else if score \<ge> 45 then fl (35 + fl (fl (score - 45) * fl 1.4))
      else if score \<ge> 35 then fl (25 + fl (fl (score - 35) * 1.0))
      else if score \<ge> 25 then fl (15 + fl (fl (score - 25) * 1.0))
      else if score \<ge> 15 then fl (8 + fl (fl (score - 15) * fl 0.7))
      else if score \<ge> 5 then fl (3 + fl (fl (score - 5) * fl 0.4))
      else max 1 (fl (score * fl 0.4)))"

definition calculate_player_credit :: "(string \<times> pyval) list \<Rightarrow> real \<Rightarrow> error + int" where
  "calculate_player_credit st minutes =
     (if st = [] then Inr 1
      else if minutes < 10 then Inr 1
      else bind_e (composite_score st) (\<lambda>score.
             let credit = tier_credit score;
                 credit1 = (if minutes < 28
                            then let minutes_factor = fl (fl 0.6 + fl (fl (minutes / 28) * fl 0.4))
                                 in fl (credit * minutes_factor)
                            else credit)
             in Inr (max 1 (min 70 (py_round credit1)))))"

section \<open>recommendation.py: RecommendationEngine\<close>

text \<open>
  The numbers of a stats mapping are floats, as the data layer stores them, and every
  arithmetic operation of the engine on them is a float operation.
\<close>

subsection \<open>Loops that may raise\<close>

text \<open>A \<open>for\<close> loop whose body may raise, threading the loop state.\<close>

fun fold_e :: "('a \<Rightarrow> 's \<Rightarrow> error + 's) \<Rightarrow> 'a list \<Rightarrow> 's \<Rightarrow> error + 's" where
  "fold_e f [] s = Inr s"
| "fold_e f (x # xs) s = bind_e (f x s) (fold_e f xs)"

text \<open>Evaluating a function on every element of a list, in order, until one raises.\<close>

fun map_e :: "('a \<Rightarrow> error + 'b) \<Rightarrow> 'a list \<Rightarrow> error + 'b list" where
  "map_e f [] = Inr []"
| "map_e f (x # xs) = bind_e (f x) (\<lambda>y. bind_e (map_e f xs) (\<lambda>ys. Inr (y # ys)))"

text \<open>\<open>itertools.combinations(xs, k)\<close>, in its order.\<close>

fun combinations :: "'a list \<Rightarrow> nat \<Rightarrow> 'a list list" where
  "combinations xs 0 = [[]]"
| "combinations [] (Suc k) = []"
| "combinations (x # xs) (Suc k) = map ((#) x) (combinations xs k) @ combinations xs (Suc k)"

text \<open>
  \<open>xs[:m]\<close> for an integer \<open>m\<close>: the first \<open>m\<close> elements, and for a negative \<open>m\<close> all but
  the last \<open>- m\<close>.
\<close>

definition slice_to :: "'a list \<Rightarrow> int \<Rightarrow> 'a list" where
  "slice_to xs m = (if 0 \<le> m then take (nat m) xs else take (nat (int (length xs) + m)) xs)"

text \<open>
  \<open>sorted(xs, key=...)\<close> on keys already computed: a stable sort, ascending, and with
  \<open>reverse=True\<close> descending with equal keys kept in their order.
\<close>

definition sorted_by_key :: "real list \<Rightarrow> 'a list \<Rightarrow> 'a list" where
  "sorted_by_key keys xs = map snd (sort_key fst (zip keys xs))"

definition sorted_by_key_reverse :: "real list \<Rightarrow> 'a list \<Rightarrow> 'a list" where
  "sorted_by_key_reverse keys xs = map snd (sort_key (\<lambda>kx. - fst kx) (zip keys xs))"

subsection \<open>Recommendation records\<close>

text \<open>
  A formatted category string, as the template that builds it and the rounded amount put
  into it: \<open>Plus n x\<close> is \<open>"n +x"\<close>, \<open>Signed n x\<close> is \<open>"n x"\<close> (a negative amount),
  \<open>PlusPct\<close> and \<open>SignedPct\<close> end in a percent sign, \<open>Down n x\<close> and \<open>Up n x\<close> hold a down
  and an up arrow, \<open>NoChange n\<close> is the name and a dash.
\<close>

datatype category_str =
    Plus string real
  | Signed string real
  | PlusPct string real
  | SignedPct string real
  | Down string real
  | Up string real
  | NoChange string

text \<open>A player as listed in a recommendation (its team, stats and fantasy team are copies).\<close>

record rec_player =
  rp_name :: string
  rp_position :: string
  rp_value :: "real option"

text \<open>
  A recommendation dictionary, without its reasoning text. \<open>all_categories\<close> is \<open>None\<close>
  when the dictionary has no such key.
\<close>

record recommendation =
  rec_type :: string
  swap_type :: "string option"
  trade_partner :: "string option"
  drop_players :: "rec_player list"
  add_players :: "rec_player list"
  impact_score :: real
  all_categories :: "category_str list option"
  category_improvements :: "category_str list"
  category_declines :: "category_str list"
  priority :: string

record category_changes =
  cc_all_categories :: "category_str list"
  cc_improvements :: "category_str list"
  cc_declines :: "category_str list"

record team =
  team_name :: string
  team_roster :: "player list"

definition position_or :: "string \<Rightarrow> player \<Rightarrow> string" where
  "position_or dflt p = (case position p of None \<Rightarrow> dflt | Some pos \<Rightarrow> pos)"

subsection \<open>\<open>_get_recommendation_key\<close> and \<open>_get_sample_recommendations\<close>\<close>

definition get_recommendation_key :: "recommendation \<Rightarrow> string list \<times> string list" where
  "get_recommendation_key r =
     (let drop_names = sort (map rp_name (drop_players r));
          add_names = sort (map rp_name (add_players r))
      in (drop_names, add_names))"

text \<open>The fallback has no \<open>drop_players\<close> and no \<open>add_players\<close> key.\<close>

definition get_sample_recommendations :: "recommendation list" where
  "get_sample_recommendations =
     [\<lparr>rec_type = ''add_drop'', swap_type = None, trade_partner = None,
       drop_players = [], add_players = [], impact_score = 12.5,
       all_categories = None, category_improvements = [], category_declines = [],
       priority = ''high''\<rparr>]"

subsection \<open>\<open>_calculate_player_value\<close>\<close>

definition percentage_value :: "pyval \<Rightarrow> real \<Rightarrow> real \<Rightarrow> real" where
  "percentage_value v average scale =
     (case v of PyNone \<Rightarrow> 0
      | PyNum x \<Rightarrow> if truthy v then fl (fl (x - average) * scale) else 0)"

definition calculate_player_value :: "player \<Rightarrow> error + real" where
  "calculate_player_value p =
     (let st = stats p in
      bind_e (num (dict_get st ''points'' (PyNum 0))) (\<lambda>v. let pts = fl (v * 1.0) in
      bind_e (num (dict_get st ''rebounds'' (PyNum 0))) (\<lambda>v. let reb = fl (v * fl 1.3) in
      bind_e (num (dict_get st ''assists'' (PyNum 0))) (\<lambda>v. let ast = fl (v * 1.5) in
      bind_e (num (dict_get st ''steals'' (PyNum 0))) (\<lambda>v. let stl = fl (v * 3.5) in
      bind_e (num (dict_get st ''blocks'' (PyNum 0))) (\<lambda>v. let blk = fl (v * 3.5) in
      bind_e (num (dict_get st ''three_pointers_made'' (PyNum 0))) (\<lambda>v.
        let threes = fl (v * 1.5) in
      bind_e (num (dict_get st ''turnovers'' (PyNum 0))) (\<lambda>v. let to = fl (v * (- 2.0)) in
        let fg_pct = dict_get st ''fg_percentage'' (PyNum 0);
            fg_value = percentage_value fg_pct (fl 0.45) 100;
            ft_pct = dict_get st ''ft_percentage'' (PyNum 0);
            ft_value = percentage_value ft_pct 0.75 80
        in Inr (fl (fl (fl (fl (fl (fl (fl (fl (pts + reb) + ast) + stl) + blk) + threes)
                  + to) + fg_value) + ft_value))))))))))"

text \<open>\<open>sum(self._calculate_player_value(p) for p in combo)\<close>\<close>

definition sum_values :: "player list \<Rightarrow> error + real" where
  "sum_values combo =
     fold_e (\<lambda>p total. bind_e (calculate_player_value p) (\<lambda>v. Inr (fl (total + v)))) combo 0"

subsection \<open>\<open>_check_position_compatibility\<close> and \<open>_check_multi_position_balance\<close>\<close>

definition check_position_compatibility :: "string \<Rightarrow> string \<Rightarrow> bool" where
  "check_position_compatibility pos1 pos2 =
     (if pos1 = [] \<or> pos2 = [] then True
      else
        let guards = [''PG'', ''SG'', ''G''];
            forwards = [''SF'', ''PF'', ''F''];
            wing = [''SG'', ''SF'', ''G'', ''F''];
            big = [''PF'', ''C'', ''F'']
        in if pos1 = pos2 then True
           else if pos1 \<in> set guards \<and> pos2 \<in> set guards then True
           else if pos1 \<in> set forwards \<and> pos2 \<in> set forwards then True
           else if pos1 \<in> set wing \<and> pos2 \<in> set wing then True
           else if pos1 \<in> set big \<and> pos2 \<in> set big then True
           else False)"

definition count_position_types :: "string list \<Rightarrow> nat \<times> nat \<times> nat" where
  "count_position_types positions =
     (let guards = length (filter (\<lambda>p. p \<in> set [''PG'', ''SG'', ''G'']) positions);
          forwards = length (filter (\<lambda>p. p \<in> set [''SF'', ''PF'', ''F'']) positions);
          centers = length (filter (\<lambda>p. p \<in> set [''C'']) positions)
      in (guards, forwards, centers))"

definition check_multi_position_balance :: "string list \<Rightarrow> string list \<Rightarrow> bool" where
  "check_multi_position_balance drop_positions add_positions =
     (case (count_position_types drop_positions, count_position_types add_positions) of
        ((drop_g, drop_f, drop_c), (add_g, add_f, add_c)) \<Rightarrow>
          \<bar>int drop_g - int add_g\<bar> \<le> 1 \<and> \<bar>int drop_f - int add_f\<bar> \<le> 1
          \<and> \<bar>int drop_c - int add_c\<bar> \<le> 1)"

subsection \<open>\<open>_analyze_category_improvements\<close>\<close>

definition rec_categories :: "(string \<times> string \<times> real \<times> bool) list" where
  "rec_categories =
     [(''points'', ''PTS'', 1.0, False), (''rebounds'', ''REB'', 1.0, False),
      (''assists'', ''AST'', 1.0, False), (''steals'', ''STL'', 1.0, False),
      (''blocks'', ''BLK'', 1.0, False), (''three_pointers_made'', ''3PM'', 1.0, False),
      (''fg_percentage'', ''FG%'', 100, True), (''ft_percentage'', ''FT%'', 100, True),
      (''turnovers'', ''TO'', 1.0, False)]"

definition add_improvement :: "category_str \<Rightarrow> category_changes \<Rightarrow> category_changes" where
  "add_improvement category_str cc =
     cc\<lparr>cc_all_categories := cc_all_categories cc @ [category_str],
        cc_improvements := cc_improvements cc @ [category_str]\<rparr>"

definition add_decline :: "category_str \<Rightarrow> category_changes \<Rightarrow> category_changes" where
  "add_decline category_str cc =
     cc\<lparr>cc_all_categories := cc_all_categories cc @ [category_str],
        cc_declines := cc_declines cc @ [category_str]\<rparr>"

definition add_no_change :: "string \<Rightarrow> category_changes \<Rightarrow> category_changes" where
  "add_no_change stat_name cc =
     cc\<lparr>cc_all_categories := cc_all_categories cc @ [NoChange stat_name]\<rparr>"

text \<open>
  The comparison of one category, from the two values already read: shared by the loop
  bodies of \<open>_analyze_category_improvements\<close> and \<open>_compare_stat_totals\<close>, which are the
  same text. \<open>drop_val\<close> is the dropped side, \<open>add_val\<close> the added side.
\<close>

definition compare_values ::
  "string \<Rightarrow> string \<Rightarrow> bool \<Rightarrow> real \<Rightarrow> real \<Rightarrow> category_changes \<Rightarrow> category_changes" where
  "compare_values stat_key stat_name is_percentage drop_val add_val cc =
     (if stat_key = ''turnovers'' then
        let diff = fl (drop_val - add_val) in
        if \<bar>diff\<bar> > fl 0.01 then
          (if diff > 0 then add_improvement (Down stat_name (py_round_nd \<bar>diff\<bar> 1)) cc
           else add_decline (Up stat_name (py_round_nd \<bar>diff\<bar> 1)) cc)
        else add_no_change stat_name cc
      else
        let diff = fl (add_val - drop_val) in
        if is_percentage then
          let pct_diff = fl (diff * 100) in
          if \<bar>pct_diff\<bar> > fl 0.01 then
            (if pct_diff > 0 then add_improvement (PlusPct stat_name (py_round_nd pct_diff 1)) cc
             else add_decline (SignedPct stat_name (py_round_nd pct_diff 1)) cc)
          else add_no_change stat_name cc
        else
          if \<bar>diff\<bar> > fl 0.01 then
            (if diff > 0 then add_improvement (Plus stat_name (py_round_nd diff 1)) cc
             else add_decline (Signed stat_name (py_round_nd diff 1)) cc)
          else add_no_change stat_name cc)"

definition category_changes_init :: category_changes where
  "category_changes_init = \<lparr>cc_all_categories = [], cc_improvements = [], cc_declines = []\<rparr>"

text \<open>The subtraction raises \<open>TypeError\<close> when either stored value is \<open>None\<close>.\<close>

definition analyze_category_improvements :: "player \<Rightarrow> player \<Rightarrow> error + category_changes" where
  "analyze_category_improvements drop_player add_player =
     (let drop_stats = stats drop_player; add_stats = stats add_player in
      fold_e (\<lambda>(stat_key, stat_name, multiplier, is_percentage) cc.
                bind_e (num (dict_get drop_stats stat_key (PyNum 0))) (\<lambda>drop_val.
                bind_e (num (dict_get add_stats stat_key (PyNum 0))) (\<lambda>add_val.
                  Inr (compare_values stat_key stat_name is_percentage drop_val add_val cc))))
        rec_categories category_changes_init)"

definition listed_player :: "player \<Rightarrow> real option \<Rightarrow> rec_player" where
  "listed_player p v = \<lparr>rp_name = name p, rp_position = position_or ''-'' p, rp_value = v\<rparr>"

subsection \<open>\<open>_analyze_single_swaps\<close>\<close>

text \<open>
  The loop over the free agents, for one roster player; the flag tells that the function
  returned from inside the loop (at 60 recommendations).
\<close>

fun single_swaps_inner ::
  "player \<Rightarrow> real \<Rightarrow> player list \<Rightarrow> recommendation list
     \<Rightarrow> error + bool \<times> recommendation list" where
  "single_swaps_inner roster_player roster_value [] recs = Inr (False, recs)"
| "single_swaps_inner roster_player roster_value (fa # fas) recs =
     bind_e (calculate_player_value fa) (\<lambda>fa_value.
       let position_compatible =
             check_position_compatibility (position_or [] roster_player) (position_or [] fa)
       in if fa_value > roster_value \<and> position_compatible then
            let improvement = fl (fa_value - roster_value) in
            bind_e (analyze_category_improvements roster_player fa) (\<lambda>category_changes.
              if improvement > 0.5 then
                let recs1 = recs @
                      [\<lparr>rec_type = ''single_swap'', swap_type = Some ''1-for-1'',
                        trade_partner = None,
                        drop_players =
                          [listed_player roster_player (Some (py_round_nd roster_value 1))],
                        add_players = [listed_player fa (Some (py_round_nd fa_value 1))],
                        impact_score = py_round_nd improvement 1,
                        all_categories = Some (cc_all_categories category_changes),
                        category_improvements = cc_improvements category_changes,
                        category_declines = cc_declines category_changes,
                        priority = (if improvement > 10.0 then ''high'' else ''medium'')\<rparr>]
                in if length recs1 \<ge> 60 then Inr (True, recs1)
                   else single_swaps_inner roster_player roster_value fas recs1
              else single_swaps_inner roster_player roster_value fas recs)
          else single_swaps_inner roster_player roster_value fas recs)"

fun single_swaps_outer ::
  "player list \<Rightarrow> player list \<Rightarrow> recommendation list \<Rightarrow> error + recommendation list" where
  "single_swaps_outer [] sorted_free_agents recs = Inr recs"
| "single_swaps_outer (roster_player # rest) sorted_free_agents recs =
     bind_e (calculate_player_value roster_player) (\<lambda>roster_value.
     bind_e (single_swaps_inner roster_player roster_value sorted_free_agents recs)
       (\<lambda>(returned, recs1).
          if returned then Inr recs1 else single_swaps_outer rest sorted_free_agents recs1))"

definition analyze_single_swaps ::
  "player list \<Rightarrow> player list \<Rightarrow> error + recommendation list" where
  "analyze_single_swaps current_roster free_agents =
     bind_e (map_e calculate_player_value current_roster) (\<lambda>roster_keys.
       let sorted_roster = sorted_by_key roster_keys current_roster in
       bind_e (map_e calculate_player_value free_agents) (\<lambda>fa_keys.
         let sorted_free_agents = take 80 (sorted_by_key_reverse fa_keys free_agents)
         in single_swaps_outer sorted_roster sorted_free_agents []))"

subsection \<open>\<open>_analyze_multi_player_swaps\<close>\<close>

text \<open>
  \<open>list_of_set\<close> stands for \<open>list(set(xs))\<close>: the members of a set of strings in the
  iteration order of the set, which the hash seed decides; it is a parameter.
\<close>

definition swap_label :: "nat \<Rightarrow> string" where
  "swap_label swap_size = (if swap_size = 2 then ''2-for-2'' else ''3-for-3'')"

text \<open>The loop over the positions of a combination, collecting the pairwise changes.\<close>

definition pairwise_changes ::
  "player list \<Rightarrow> player list \<Rightarrow> error + category_str list \<times> category_str list" where
  "pairwise_changes drop_combo add_combo =
     fold_e (\<lambda>(d, a) (all_improvements, all_declines).
               bind_e (analyze_category_improvements d a) (\<lambda>cat_changes.
                 Inr (all_improvements @ cc_improvements cat_changes,
                      all_declines @ cc_declines cat_changes)))
       (zip drop_combo add_combo) ([], [])"

text \<open>
  The loop over the free-agent combinations, for one roster combination. The position
  balance is computed and not read by the condition. \<open>combined_changes\<close> has the keys
  \<open>improvements\<close>, \<open>declines\<close> and \<open>combined\<close> only, so
  \<open>combined_changes.get('all_categories', [])\<close> is the empty list.
\<close>

fun multi_swaps_inner ::
  "(category_str list \<Rightarrow> category_str list) \<Rightarrow> nat \<Rightarrow> real \<Rightarrow> player list \<Rightarrow> real
     \<Rightarrow> player list list \<Rightarrow> recommendation list \<Rightarrow> error + bool \<times> recommendation list" where
  "multi_swaps_inner list_of_set swap_size threshold drop_combo drop_value_total [] recs =
     Inr (False, recs)"
| "multi_swaps_inner list_of_set swap_size threshold drop_combo drop_value_total
     (add_combo # rest) recs =
     bind_e (sum_values add_combo) (\<lambda>add_value_total.
       let drop_positions = map (position_or []) drop_combo;
           add_positions = map (position_or []) add_combo;
           value_change = fl (add_value_total - drop_value_total);
           position_balanced = check_multi_position_balance drop_positions add_positions
       in if value_change > threshold then
            bind_e (pairwise_changes drop_combo add_combo) (\<lambda>(all_improvements, all_declines).
              let improvements = take 5 (list_of_set all_improvements);
                  declines = take 3 (list_of_set all_declines);
                  recs1 = recs @
                    [\<lparr>rec_type = ''multi_swap'', swap_type = Some (swap_label swap_size),
                      trade_partner = None,
                      drop_players = map (\<lambda>p. listed_player p None) drop_combo,
                      add_players = map (\<lambda>p. listed_player p None) add_combo,
                      impact_score = py_round_nd value_change 1,
                      all_categories = Some [],
                      category_improvements = improvements,
                      category_declines = declines,
                      priority = (if value_change > fl (threshold * 2) then ''high''
                                  else ''medium'')\<rparr>]
              in if length recs1 \<ge> 30 then Inr (True, recs1)
                 else multi_swaps_inner list_of_set swap_size threshold drop_combo
                        drop_value_total rest recs1)
          else multi_swaps_inner list_of_set swap_size threshold drop_combo
                 drop_value_total rest recs)"

fun multi_swaps_outer ::
  "(category_str list \<Rightarrow> category_str list) \<Rightarrow> nat \<Rightarrow> real \<Rightarrow> player list list
     \<Rightarrow> player list list \<Rightarrow> recommendation list \<Rightarrow> error + bool \<times> recommendation list" where
  "multi_swaps_outer list_of_set swap_size threshold [] fa_combos recs = Inr (False, recs)"
| "multi_swaps_outer list_of_set swap_size threshold (drop_combo # rest) fa_combos recs =
     bind_e (sum_values drop_combo) (\<lambda>drop_value_total.
     bind_e (multi_swaps_inner list_of_set swap_size threshold drop_combo drop_value_total
               fa_combos recs)
       (\<lambda>(returned, recs1).
          if returned then Inr (True, recs1)
          else multi_swaps_outer list_of_set swap_size threshold rest fa_combos recs1))"

fun multi_swaps_sizes ::
  "(category_str list \<Rightarrow> category_str list) \<Rightarrow> player list \<Rightarrow> player list \<Rightarrow> nat list
     \<Rightarrow> recommendation list \<Rightarrow> error + recommendation list" where
  "multi_swaps_sizes list_of_set current_roster free_agents [] recs = Inr recs"
| "multi_swaps_sizes list_of_set current_roster free_agents (swap_size # rest) recs =
     (let max_combo = dict_get [(2, 50), (3, 30)] swap_size (10 :: nat);
          roster_combos = take max_combo (combinations current_roster swap_size);
          fa_combos = take max_combo (combinations (take 50 free_agents) swap_size);
          threshold = dict_get [(2, 0.5), (3, 1.0)] swap_size (0.5 :: real)
      in bind_e (multi_swaps_outer list_of_set swap_size threshold roster_combos fa_combos recs)
           (\<lambda>(returned, recs1).
              if returned then Inr recs1
              else multi_swaps_sizes list_of_set current_roster free_agents rest recs1))"

definition analyze_multi_player_swaps ::
  "(category_str list \<Rightarrow> category_str list) \<Rightarrow> player list \<Rightarrow> player list
     \<Rightarrow> error + recommendation list" where
  "analyze_multi_player_swaps list_of_set current_roster free_agents =
     multi_swaps_sizes list_of_set current_roster free_agents [2, 3] []"

subsection \<open>\<open>_find_budget_upgrades\<close>\<close>

text \<open>
  The reasoning text divides the free agent's value by the roster player's value: a roster
  value of 0 raises \<open>ZeroDivisionError\<close>; the text itself is not modelled. The dictionary
  has no \<open>all_categories\<close> key.
\<close>

definition budget_upgrade_step ::
  "player \<Rightarrow> real \<Rightarrow> player \<Rightarrow> recommendation list \<Rightarrow> error + recommendation list" where
  "budget_upgrade_step roster_player roster_value fa recs =
     bind_e (calculate_player_value fa) (\<lambda>fa_value.
       let position_compatible =
             check_position_compatibility (position_or [] roster_player) (position_or [] fa)
       in if fa_value > fl (roster_value * fl 1.05) \<and> position_compatible then
            let improvement = fl (fa_value - roster_value) in
            bind_e (analyze_category_improvements roster_player fa) (\<lambda>category_changes.
              if roster_value = 0 then Inl ZeroDivisionError
              else Inr (recs @
                     [\<lparr>rec_type = ''budget_upgrade'', swap_type = Some ''value-play'',
                       trade_partner = None,
                       drop_players = [listed_player roster_player None],
                       add_players = [listed_player fa None],
                       impact_score = py_round_nd improvement 1,
                       all_categories = None,
                       category_improvements = cc_improvements category_changes,
                       category_declines = cc_declines category_changes,
                       priority = ''high''\<rparr>]))
          else Inr recs)"

definition find_budget_upgrades ::
  "player list \<Rightarrow> player list \<Rightarrow> error + recommendation list" where
  "find_budget_upgrades current_roster free_agents =
     bind_e (fold_e (\<lambda>roster_player recs.
                       bind_e (calculate_player_value roster_player) (\<lambda>roster_value.
                         fold_e (budget_upgrade_step roster_player roster_value)
                           free_agents recs))
               current_roster [])
       (\<lambda>recs. Inr (take 20 recs))"

subsection \<open>\<open>_sum_player_stats\<close> and \<open>_compare_stat_totals\<close>\<close>

definition sum_stat_keys :: "string list" where
  "sum_stat_keys =
     [''points'', ''rebounds'', ''assists'', ''steals'', ''blocks'', ''three_pointers_made'',
      ''field_goals'', ''field_goal_attempts'', ''free_throws'', ''free_throw_attempts'',
      ''turnovers'']"

definition sum_player_stats :: "player list \<Rightarrow> error + (string \<Rightarrow> real)" where
  "sum_player_stats players =
     fold_e (\<lambda>p totals.
               fold_e (\<lambda>key totals1.
                         bind_e (num (dict_get (stats p) key (PyNum 0)))
                           (\<lambda>v. Inr (totals1(key := fl (totals1 key + v)))))
                 sum_stat_keys totals)
       players (\<lambda>_. 0)"

definition compare_stat_totals ::
  "(string \<Rightarrow> real) \<Rightarrow> (string \<Rightarrow> real) \<Rightarrow> category_changes" where
  "compare_stat_totals my_stats other_stats =
     (let my_fg_pct = (if my_stats ''field_goal_attempts'' > 0
                       then fl (my_stats ''field_goals'' / my_stats ''field_goal_attempts'')
                       else 0);
          other_fg_pct = (if other_stats ''field_goal_attempts'' > 0
                          then fl (other_stats ''field_goals''
                                     / other_stats ''field_goal_attempts'')
                          else 0);
          my_ft_pct = (if my_stats ''free_throw_attempts'' > 0
                       then fl (my_stats ''free_throws'' / my_stats ''free_throw_attempts'')
                       else 0);
          other_ft_pct = (if other_stats ''free_throw_attempts'' > 0
                          then fl (other_stats ''free_throws''
                                     / other_stats ''free_throw_attempts'')
                          else 0);
          categories =
            [(''points'', ''PTS'', False, my_stats ''points'', other_stats ''points''),
             (''rebounds'', ''REB'', False, my_stats ''rebounds'', other_stats ''rebounds''),
             (''assists'', ''AST'', False, my_stats ''assists'', other_stats ''assists''),
             (''steals'', ''STL'', False, my_stats ''steals'', other_stats ''steals''),
             (''blocks'', ''BLK'', False, my_stats ''blocks'', other_stats ''blocks''),
             (''three_pointers_made'', ''3PM'', False, my_stats ''three_pointers_made'',
                other_stats ''three_pointers_made''),
             (''fg_percentage'', ''FG%'', True, my_fg_pct, other_fg_pct),
             (''ft_percentage'', ''FT%'', True, my_ft_pct, other_ft_pct),
             (''turnovers'', ''TO'', False, my_stats ''turnovers'', other_stats ''turnovers'')]
      in foldl (\<lambda>cc (stat_key, display_name, is_percentage, my_val, other_val).
                  compare_values stat_key display_name is_percentage my_val other_val cc)
           category_changes_init categories)"

subsection \<open>\<open>_analyze_multi_player_trades\<close>\<close>

text \<open>
  The loop over the other team's combinations, for one of my combinations; the 2-for-2 and
  the 3-for-3 loops are the same text up to the label, the ratio band, the priority
  threshold and the cap at which the loop breaks. The other total is summed before the test
  of my total against 0.
\<close>

fun multi_trades_inner ::
  "string \<Rightarrow> real \<Rightarrow> real \<Rightarrow> real \<Rightarrow> nat \<Rightarrow> string \<Rightarrow> player list \<Rightarrow> real
     \<Rightarrow> player list list \<Rightarrow> recommendation list \<Rightarrow> error + recommendation list" where
  "multi_trades_inner label lo hi high_from cap partner my_combo my_total_value [] recs =
     Inr recs"
| "multi_trades_inner label lo hi high_from cap partner my_combo my_total_value
     (other_combo # rest) recs =
     bind_e (sum_values other_combo) (\<lambda>other_total_value.
       if my_total_value = 0
       then multi_trades_inner label lo hi high_from cap partner my_combo my_total_value
              rest recs
       else
         let value_ratio = fl (other_total_value / my_total_value) in
         if lo \<le> value_ratio \<and> value_ratio \<le> hi then
           let improvement = fl (other_total_value - my_total_value) in
           bind_e (sum_player_stats my_combo) (\<lambda>my_stats_total.
           bind_e (sum_player_stats other_combo) (\<lambda>other_stats_total.
             let category_changes = compare_stat_totals my_stats_total other_stats_total;
                 recs1 = recs @
                   [\<lparr>rec_type = ''trade'', swap_type = Some label,
                     trade_partner = Some partner,
                     drop_players = map (\<lambda>p. listed_player p None) my_combo,
                     add_players = map (\<lambda>p. listed_player p None) other_combo,
                     impact_score = py_round_nd improvement 1,
                     all_categories = Some (cc_all_categories category_changes),
                     category_improvements = cc_improvements category_changes,
                     category_declines = cc_declines category_changes,
                     priority = (if improvement > high_from then ''high'' else ''medium'')\<rparr>]
             in if length (filter (\<lambda>r. trade_partner r = Some partner
                                         \<and> swap_type r = Some label) recs1) \<ge> cap
                then Inr recs1
                else multi_trades_inner label lo hi high_from cap partner my_combo
                       my_total_value rest recs1))
         else multi_trades_inner label lo hi high_from cap partner my_combo my_total_value
                rest recs)"

definition multi_trades_combos ::
  "string \<Rightarrow> real \<Rightarrow> real \<Rightarrow> real \<Rightarrow> nat \<Rightarrow> string \<Rightarrow> player list list
     \<Rightarrow> player list list \<Rightarrow> recommendation list \<Rightarrow> error + recommendation list" where
  "multi_trades_combos label lo hi high_from cap partner my_combos other_combos recs =
     fold_e (\<lambda>my_combo recs1.
               bind_e (sum_values my_combo) (\<lambda>my_total_value.
                 multi_trades_inner label lo hi high_from cap partner my_combo
                   my_total_value other_combos recs1))
       my_combos recs"

definition multi_trades_team ::
  "player list \<Rightarrow> team \<Rightarrow> recommendation list \<Rightarrow> error + recommendation list" where
  "multi_trades_team current_roster team_data recs =
     (let partner = team_name team_data; other_roster = team_roster team_data in
      if length other_roster < 2 then Inr recs
      else
        bind_e (multi_trades_combos ''trade-2-for-2'' (fl 1.1) (fl 1.3) 10.0 3 partner
                  (combinations current_roster 2) (combinations other_roster 2) recs)
          (\<lambda>recs1.
             if length current_roster \<ge> 3 \<and> length other_roster \<ge> 3
             then multi_trades_combos ''trade-3-for-3'' (fl 1.15) (fl 1.35) 15.0 2 partner
                    (take 15 (combinations current_roster 3))
                    (take 15 (combinations other_roster 3)) recs1
             else Inr recs1))"

definition analyze_multi_player_trades ::
  "player list \<Rightarrow> team list \<Rightarrow> error + recommendation list" where
  "analyze_multi_player_trades current_roster other_teams_rosters =
     bind_e (fold_e (multi_trades_team current_roster) other_teams_rosters [])
       (\<lambda>recs. Inr (take 20 (sort_key (\<lambda>r. - impact_score r) recs)))"

subsection \<open>\<open>_analyze_trade_opportunities\<close>\<close>

text \<open>The loop over one other team's roster, for one of my players, with its \<open>break\<close>.\<close>

fun trades_inner ::
  "player \<Rightarrow> real \<Rightarrow> string \<Rightarrow> player list \<Rightarrow> recommendation list
     \<Rightarrow> error + recommendation list" where
  "trades_inner my_player my_value partner [] recs = Inr recs"
| "trades_inner my_player my_value partner (other_player # rest) recs =
     bind_e (calculate_player_value other_player) (\<lambda>other_value.
       let value_ratio = (if my_value > 0 then fl (other_value / my_value) else 0) in
       if fl 1.1 \<le> value_ratio \<and> value_ratio \<le> 1.25
          \<and> check_position_compatibility (position_or [] my_player)
                (position_or [] other_player)
       then
         let improvement = fl (other_value - my_value) in
         bind_e (analyze_category_improvements my_player other_player) (\<lambda>category_changes.
           let recs1 = recs @
                 [\<lparr>rec_type = ''trade'', swap_type = Some ''trade-1-for-1'',
                   trade_partner = Some partner,
                   drop_players = [listed_player my_player (Some (py_round_nd my_value 1))],
                   add_players =
                     [listed_player other_player (Some (py_round_nd other_value 1))],
                   impact_score = py_round_nd improvement 1,
                   all_categories = Some (cc_all_categories category_changes),
                   category_improvements = cc_improvements category_changes,
                   category_declines = cc_declines category_changes,
                   priority = (if improvement > 5.0 then ''high'' else ''medium'')\<rparr>]
           in if length (filter (\<lambda>r. map rp_name (take 1 (drop_players r)) = [name my_player])
                           recs1) \<ge> 3
              then Inr recs1
              else trades_inner my_player my_value partner rest recs1)
       else trades_inner my_player my_value partner rest recs)"

definition analyze_trade_opportunities ::
  "player list \<Rightarrow> team list \<Rightarrow> error + recommendation list" where
  "analyze_trade_opportunities current_roster other_teams_rosters =
     bind_e (fold_e (\<lambda>my_player recs.
                       bind_e (calculate_player_value my_player) (\<lambda>my_value.
                         fold_e (\<lambda>team_data recs1.
                                   trades_inner my_player my_value (team_name team_data)
                                     (team_roster team_data) recs1)
                           other_teams_rosters recs))
               current_roster [])
       (\<lambda>recs.
          let one_for_one_trades = take 20 recs in
          bind_e (analyze_multi_player_trades current_roster other_teams_rosters)
            (\<lambda>multi_trades. Inr (take 40 (one_for_one_trades @ multi_trades))))"

subsection \<open>\<open>get_recommendations_for_roster\<close>\<close>

text \<open>The loop that appends the recommendations whose key has not been seen.\<close>

definition add_unique ::
  "recommendation list \<Rightarrow> recommendation list \<times> (string list \<times> string list) set
     \<Rightarrow> recommendation list \<times> (string list \<times> string list) set" where
  "add_unique recs acc =
     foldl (\<lambda>(recommendations, seen_recommendations) r.
              let rec_key = get_recommendation_key r in
              if rec_key \<notin> seen_recommendations
              then (recommendations @ [r], insert rec_key seen_recommendations)
              else (recommendations, seen_recommendations))
       acc recs"

text \<open>
  The body of the \<open>try\<close>, given the other teams' rosters the engine holds after the
  assignment; then the entry point, which returns the fallback when the body raises. The
  first component of the result is the new value of \<open>self.other_teams_rosters\<close>. The
  requested maximum is a Python integer.
\<close>

definition recommendations_body ::
  "(category_str list \<Rightarrow> category_str list) \<Rightarrow> team list \<Rightarrow> player list \<Rightarrow> player list
     \<Rightarrow> int \<Rightarrow> error + recommendation list" where
  "recommendations_body list_of_set stored current_roster free_agents max_recommendations =
     bind_e (analyze_single_swaps current_roster free_agents) (\<lambda>single_swap_recs.
       let acc1 = add_unique single_swap_recs ([], {}) in
       bind_e (analyze_multi_player_swaps list_of_set current_roster free_agents)
         (\<lambda>multi_swap_recs.
            let acc2 = add_unique multi_swap_recs acc1 in
            bind_e (find_budget_upgrades current_roster free_agents) (\<lambda>budget_upgrades.
              let acc3 = add_unique budget_upgrades acc2 in
              bind_e (if stored \<noteq> []
                      then analyze_trade_opportunities current_roster stored else Inr [])
                (\<lambda>trade_suggestions.
                   let acc4 = add_unique trade_suggestions acc3;
                       recommendations = sort_key (\<lambda>r. - impact_score r) (fst acc4)
                   in Inr (slice_to recommendations max_recommendations)))))"

definition get_recommendations_for_roster ::
  "(category_str list \<Rightarrow> category_str list) \<Rightarrow> team list \<Rightarrow> player list \<Rightarrow> player list
     \<Rightarrow> player list \<Rightarrow> int \<Rightarrow> team list option \<Rightarrow> team list \<times> recommendation list" where
  "get_recommendations_for_roster list_of_set self_other_teams_rosters current_roster
     free_agents all_players max_recommendations other_teams_rosters =
     (let stored = (case other_teams_rosters of
                      None \<Rightarrow> self_other_teams_rosters
                    | Some [] \<Rightarrow> self_other_teams_rosters
                    | Some (t # ts) \<Rightarrow> t # ts)
      in (stored,
          case recommendations_body list_of_set stored current_roster free_agents
                 max_recommendations of
            Inl e \<Rightarrow> get_sample_recommendations
          | Inr recs \<Rightarrow> recs))"

section \<open>Specification vocabulary for the simulator\<close>

text \<open>The value a player's projection holds under a key (0 for a key it does not hold).\<close>

definition proj :: "player \<Rightarrow> string \<Rightarrow> real" where
  "proj p k = dict_get (get_sample_player_projections p) k 0"

text \<open>
  Weighted makes over weighted attempts, over the (rate, attempts) pairs with positive rate
  and positive attempts; 0 when the attempts sum to 0.
\<close>

definition weighted_percentage :: "(real \<times> real) list \<Rightarrow> real" where
  "weighted_percentage xs =
     (let qs = filter (\<lambda>(rate, att). rate > 0 \<and> att > 0) xs;
          attempts = sum_list (map snd qs)
      in if attempts = 0 then 0 else sum_list (map (\<lambda>(rate, att). rate * att) qs) / attempts)"

text \<open>The same in floats: the sums run from left to right, every operation rounds.\<close>

definition float_sum :: "real list \<Rightarrow> real" where
  "float_sum xs = foldl (\<lambda>s x. fl (s + x)) 0 xs"

definition float_weighted_percentage :: "(real \<times> real) list \<Rightarrow> real" where
  "float_weighted_percentage xs =
     (let qs = filter (\<lambda>(rate, att). rate > 0 \<and> att > 0) xs;
          makes = float_sum (map (\<lambda>(rate, att). fl (rate * att)) qs);
          attempts = float_sum (map snd qs)
      in if attempts > 0 then fl (makes / attempts) else 0)"

text \<open>The number a player record holds under a key (0 when there is none).\<close>

definition recorded :: "player \<Rightarrow> string \<Rightarrow> real" where
  "recorded p key = (case dict_get (stats p) key PyNone of PyNone \<Rightarrow> 0 | PyNum v \<Rightarrow> v)"

text \<open>
  The stat line a player is simulated with, read off the player record: the float stored
  under a key, or a default when the key is absent or holds \<open>None\<close>; the fixed default line
  when the stats mapping is empty.
\<close>

definition stored_or :: "(string \<times> pyval) list \<Rightarrow> string \<Rightarrow> real \<Rightarrow> real" where
  "stored_or st key dflt = (case map_of st key of Some (PyNum v) \<Rightarrow> fl v | _ \<Rightarrow> dflt)"

definition default_line :: "string \<Rightarrow> real" where
  "default_line c =
     (if c = ''points'' then 10 else if c = ''rebounds'' then 4 else if c = ''assists'' then 3
      else if c = ''steals'' then fl 0.8 else if c = ''blocks'' then 0.5
      else if c = ''three_pointers_made'' then 1 else if c = ''fg_percentage'' then fl 0.45
      else if c = ''ft_percentage'' then 0.75 else if c = ''turnovers'' then 1.5
      else if c = ''fg_attempts'' then 8 else if c = ''ft_attempts'' then 3 else 0)"

definition stat_line :: "player \<Rightarrow> string \<Rightarrow> real" where
  "stat_line p c =
     (if stats p = [] then default_line c
      else if c \<in> set counting_stats then stored_or (stats p) c 0
      else if c = ''fg_percentage'' then stored_or (stats p) c (fl 0.45)
      else if c = ''ft_percentage'' then stored_or (stats p) c 0.75
      else if c = ''fg_attempts'' then stored_or (stats p) ''field_goals_attempted'' 10
      else if c = ''ft_attempts'' then stored_or (stats p) ''free_throws_attempted'' 3
      else 0)"

text \<open>Who wins a category: the lower value for turnovers, the higher value otherwise.\<close>

definition beats :: "string \<Rightarrow> real \<Rightarrow> real \<Rightarrow> bool" where
  "beats category mine theirs =
     (if category = ''turnovers'' then mine < theirs else mine > theirs)"

text \<open>The stats a team is given in a trial whose simulation returned.\<close>

definition sampled :: "(string \<Rightarrow> real) \<Rightarrow> (string \<Rightarrow> real) \<Rightarrow> string \<Rightarrow> real" where
  "sampled draw projections =
     (case simulate_team_performance draw projections of Inl e \<Rightarrow> (\<lambda>_. 0) | Inr s \<Rightarrow> s)"

text \<open>The number of categories the first team wins against the second.\<close>

definition won_by :: "(string \<Rightarrow> real) \<Rightarrow> (string \<Rightarrow> real) \<Rightarrow> nat" where
  "won_by mine theirs = length (filter (\<lambda>c. beats c (mine c) (theirs c)) stat_categories)"

text \<open>The credit of one trial: 1 for strictly more categories, 0 for fewer, one half for a tie.\<close>

definition trial_credit :: "(string \<Rightarrow> real) \<Rightarrow> (string \<Rightarrow> real) \<Rightarrow> real" where
  "trial_credit mine theirs =
     (if won_by mine theirs > won_by theirs mine then 1
      else if won_by theirs mine > won_by mine theirs then 0 else 1 / 2)"

definition trial_winner :: "(string \<Rightarrow> real) \<Rightarrow> (string \<Rightarrow> real) \<Rightarrow> string" where
  "trial_winner mine theirs =
     (if won_by mine theirs > won_by theirs mine then ''me''
      else if won_by theirs mine > won_by mine theirs then ''opponent'' else ''tie'')"

definition trial_detail :: "nat \<Rightarrow> (string \<Rightarrow> real) \<Rightarrow> (string \<Rightarrow> real) \<Rightarrow> sim_detail" where
  "trial_detail i mine theirs =
     \<lparr>simulation = i + 1, detail_categories_won = won_by mine theirs,
      detail_categories_lost = won_by theirs mine, winner = trial_winner mine theirs\<rparr>"

text \<open>The trials among the first \<open>n\<close> that my team wins, loses and ties in category \<open>c\<close>.\<close>

definition wins_count ::
  "(nat \<Rightarrow> (string \<Rightarrow> real) \<times> (string \<Rightarrow> real)) \<Rightarrow> (string \<Rightarrow> real) \<Rightarrow> (string \<Rightarrow> real)
     \<Rightarrow> nat \<Rightarrow> string \<Rightarrow> nat" where
  "wins_count rng my opp n c =
     length (filter (\<lambda>i. beats c (sampled (fst (rng i)) my c) (sampled (snd (rng i)) opp c))
       [0..<n])"

definition losses_count ::
  "(nat \<Rightarrow> (string \<Rightarrow> real) \<times> (string \<Rightarrow> real)) \<Rightarrow> (string \<Rightarrow> real) \<Rightarrow> (string \<Rightarrow> real)
     \<Rightarrow> nat \<Rightarrow> string \<Rightarrow> nat" where
  "losses_count rng my opp n c =
     length (filter (\<lambda>i. beats c (sampled (snd (rng i)) opp c) (sampled (fst (rng i)) my c))
       [0..<n])"

definition ties_count ::
  "(nat \<Rightarrow> (string \<Rightarrow> real) \<times> (string \<Rightarrow> real)) \<Rightarrow> (string \<Rightarrow> real) \<Rightarrow> (string \<Rightarrow> real)
     \<Rightarrow> nat \<Rightarrow> string \<Rightarrow> nat" where
  "ties_count rng my opp n c =
     length (filter (\<lambda>i. sampled (fst (rng i)) my c = sampled (snd (rng i)) opp c) [0..<n])"

text \<open>The sum of the trial credits of the first \<open>n\<close> trials.\<close>

definition credit_sum ::
  "(nat \<Rightarrow> (string \<Rightarrow> real) \<times> (string \<Rightarrow> real)) \<Rightarrow> (string \<Rightarrow> real) \<Rightarrow> (string \<Rightarrow> real)
     \<Rightarrow> nat \<Rightarrow> real" where
  "credit_sum rng my opp n =
     sum_list (map (\<lambda>i. trial_credit (sampled (fst (rng i)) my) (sampled (snd (rng i)) opp))
       [0..<n])"

text \<open>A part of \<open>n\<close> as an exact percentage, and that percentage rounded to one decimal.\<close>

definition percentage :: "real \<Rightarrow> nat \<Rightarrow> real" where
  "percentage x n = x / real n * 100"

definition rounded_percentage :: "real \<Rightarrow> nat \<Rightarrow> real" where
  "rounded_percentage x n = round_decimal (percentage x n) 1"

subsection \<open>Example inputs\<close>

definition example_my_projections :: "string \<Rightarrow> real" where
  "example_my_projections = (\<lambda>_. 0)(''points'' := 100, ''turnovers'' := 10)"

definition example_opponent_projections :: "string \<Rightarrow> real" where
  "example_opponent_projections = (\<lambda>_. 0)(''points'' := 90, ''turnovers'' := 12)"

definition example_rng :: "nat \<Rightarrow> (string \<Rightarrow> real) \<times> (string \<Rightarrow> real)" where
  "example_rng i =
     ((\<lambda>_. 0)(''points'' := 105, ''turnovers'' := 9),
      (\<lambda>_. 0)(''points'' := 95, ''turnovers'' := 13))"

text \<open>Draws with which my team wins the first 5015 trials and loses every later one.\<close>

definition example_split_rng :: "nat \<Rightarrow> (string \<Rightarrow> real) \<times> (string \<Rightarrow> real)" where
  "example_split_rng i =
     (if i < 5015
      then ((\<lambda>_. 0)(''points'' := 105, ''turnovers'' := 9),
            (\<lambda>_. 0)(''points'' := 95, ''turnovers'' := 13))
      else ((\<lambda>_. 0)(''points'' := 95, ''turnovers'' := 13),
            (\<lambda>_. 0)(''points'' := 105, ''turnovers'' := 9)))"

definition example_no_stats_player :: player where
  "example_no_stats_player = \<lparr>name = ''Rookie'', position = None, stats = []\<rparr>"

text \<open>
  Two players in the shape the data layer gives them: one make on one attempt, and nine
  makes on twenty attempts.
\<close>

definition example_sure_shooter :: player where
  "example_sure_shooter =
     \<lparr>name = ''Shooter'', position = Some ''SG'',
      stats = [(''fg_percentage'', PyNum 1.0), (''field_goals'', PyNum 1.0),
               (''field_goal_attempts'', PyNum 1.0)]\<rparr>"

definition example_volume_shooter :: player where
  "example_volume_shooter =
     \<lparr>name = ''Volume'', position = Some ''PF'',
      stats = [(''fg_percentage'', PyNum (fl 0.45)), (''field_goals'', PyNum 9.0),
               (''field_goal_attempts'', PyNum 20.0)]\<rparr>"

text \<open>A player of whom only the points are known.\<close>

definition example_scorer :: player where
  "example_scorer =
     \<lparr>name = ''Scorer'', position = Some ''SF'', stats = [(''points'', PyNum 20.0)]\<rparr>"

section \<open>Specification vocabulary for the credit\<close>

text \<open>
  The tier function as the specification words it, on the reals: six bands of (threshold,
  base, slope), the first band whose threshold the score reaches giving base + slope *
  excess, the elite band capped at 70, and below every band the larger of 1 and 0.4 * score.
\<close>

definition tier_bands :: "(real \<times> real \<times> real) list" where
  "tier_bands =
     [(55, 50, 1.5), (45, 35, 1.4), (35, 25, 1.0), (25, 15, 1.0), (15, 8, 0.7), (5, 3, 0.4)]"

fun tier_lookup :: "(real \<times> real \<times> real) list \<Rightarrow> real \<Rightarrow> real" where
  "tier_lookup [] score = max 1 (0.4 * score)"
| "tier_lookup ((threshold, base, slope) # bands) score =
     (if score \<ge> threshold then base + slope * (score - threshold)
      else tier_lookup bands score)"

definition tier_function :: "real \<Rightarrow> real" where
  "tier_function score =
     (if score \<ge> 55 then min 70 (tier_lookup tier_bands score) else tier_lookup tier_bands score)"

definition minutes_multiplier :: "real \<Rightarrow> real" where
  "minutes_multiplier minutes = (if minutes < 28 then 0.6 + (minutes / 28) * 0.4 else 1)"

text \<open>Every value read by the credit formula is a number.\<close>

definition credit_keys :: "string list" where
  "credit_keys =
     [''points'', ''rebounds'', ''assists'', ''steals'', ''blocks'', ''three_pointers_made'',
      ''turnovers'', ''fg_percentage'', ''ft_percentage'']"

definition numeric_stats :: "(string \<times> pyval) list \<Rightarrow> bool" where
  "numeric_stats st = list_all (\<lambda>k. map_of st k \<noteq> Some PyNone) credit_keys"

text \<open>The number stored under a key (0 when absent).\<close>

definition stat_value :: "(string \<times> pyval) list \<Rightarrow> string \<Rightarrow> real" where
  "stat_value st k = (case dict_get st k (PyNum 0) of PyNone \<Rightarrow> 0 | PyNum v \<Rightarrow> v)"

subsection \<open>Example inputs\<close>

definition example_null_ft_stats :: "(string \<times> pyval) list" where
  "example_null_ft_stats =
     [(''points'', PyNum 12), (''rebounds'', PyNum 5), (''assists'', PyNum 2),
      (''fg_percentage'', PyNum 0.5), (''ft_percentage'', PyNone)]"

text \<open>A bench player of whom only the points are known.\<close>

definition example_bench_stats :: "(string \<times> pyval) list" where
  "example_bench_stats = [(''points'', PyNum 27.5)]"

section \<open>Specification vocabulary for the recommendations\<close>

text \<open>The invariant of the loops that append the recommendations not seen before.\<close>

definition unique_keys :: "recommendation list \<times> (string list \<times> string list) set \<Rightarrow> bool" where
  "unique_keys acc =
     (distinct (map get_recommendation_key (fst acc))
      \<and> get_recommendation_key ` set (fst acc) \<subseteq> snd acc)"

text \<open>Every recommendation of a list carries an empty \<open>all_categories\<close> list.\<close>

definition bare :: "recommendation list \<Rightarrow> bool" where
  "bare recs = list_all (\<lambda>r. all_categories r = Some []) recs"

text \<open>
  The category a formatted string is about, the nine display names in their order, and the
  lists whose recommendations each carry one entry per category, in that order.
\<close>

fun category_name :: "category_str \<Rightarrow> string" where
  "category_name (Plus n x) = n"
| "category_name (Signed n x) = n"
| "category_name (PlusPct n x) = n"
| "category_name (SignedPct n x) = n"
| "category_name (Down n x) = n"
| "category_name (Up n x) = n"
| "category_name (NoChange n) = n"

definition category_names :: "string list" where
  "category_names = [''PTS'', ''REB'', ''AST'', ''STL'', ''BLK'', ''3PM'', ''FG%'', ''FT%'', ''TO'']"

definition carries_all :: "recommendation list \<Rightarrow> bool" where
  "carries_all recs =
     list_all (\<lambda>r. case all_categories r of None \<Rightarrow> False
                    | Some cs \<Rightarrow> map category_name cs = category_names) recs"

subsection \<open>Example inputs and results\<close>

definition example_center_a :: player where
  "example_center_a = \<lparr>name = ''Center A'', position = Some ''C'', stats = [(''points'', PyNum 5)]\<rparr>"

definition example_center_b :: player where
  "example_center_b = \<lparr>name = ''Center B'', position = Some ''C'', stats = [(''points'', PyNum 6)]\<rparr>"

definition example_guard_a :: player where
  "example_guard_a = \<lparr>name = ''Guard A'', position = Some ''PG'', stats = [(''points'', PyNum 10)]\<rparr>"

definition example_guard_b :: player where
  "example_guard_b = \<lparr>name = ''Guard B'', position = Some ''PG'', stats = [(''points'', PyNum 12)]\<rparr>"

definition example_statless :: player where
  "example_statless = \<lparr>name = ''Statless'', position = None, stats = []\<rparr>"

text \<open>A player whose value is close to 0: an FG% of 0.46 and half a turnover.\<close>

definition example_marginal :: player where
  "example_marginal =
     \<lparr>name = ''Marginal'', position = None,
      stats = [(''fg_percentage'', PyNum (fl 0.46)), (''turnovers'', PyNum 0.5)]\<rparr>"

definition example_unbalanced_swap :: recommendation where
  "example_unbalanced_swap =
     \<lparr>rec_type = ''multi_swap'', swap_type = Some ''2-for-2'', trade_partner = None,
      drop_players =
        [\<lparr>rp_name = ''Center A'', rp_position = ''C'', rp_value = None\<rparr>,
         \<lparr>rp_name = ''Center B'', rp_position = ''C'', rp_value = None\<rparr>],
      add_players =
        [\<lparr>rp_name = ''Guard A'', rp_position = ''PG'', rp_value = None\<rparr>,
         \<lparr>rp_name = ''Guard B'', rp_position = ''PG'', rp_value = None\<rparr>],
      impact_score = 11, all_categories = Some [],
      category_improvements = [Plus ''PTS'' 5, Plus ''PTS'' 6],
      category_declines = [], priority = ''high''\<rparr>"

definition example_single_swap :: recommendation where
  "example_single_swap =
     \<lparr>rec_type = ''single_swap'', swap_type = Some ''1-for-1'', trade_partner = None,
      drop_players = [\<lparr>rp_name = ''Center A'', rp_position = ''C'', rp_value = Some 5\<rparr>],
      add_players = [\<lparr>rp_name = ''Center B'', rp_position = ''C'', rp_value = Some 6\<rparr>],
      impact_score = 1,
      all_categories =
        Some [Plus ''PTS'' 1, NoChange ''REB'', NoChange ''AST'', NoChange ''STL'',
              NoChange ''BLK'', NoChange ''3PM'', NoChange ''FG%'', NoChange ''FT%'',
              NoChange ''TO''],
      category_improvements = [Plus ''PTS'' 1], category_declines = [],
      priority = ''medium''\<rparr>"

definition example_value_play :: recommendation where
  "example_value_play =
     \<lparr>rec_type = ''budget_upgrade'', swap_type = Some ''value-play'', trade_partner = None,
      drop_players = [\<lparr>rp_name = ''Center A'', rp_position = ''C'', rp_value = None\<rparr>],
      add_players = [\<lparr>rp_name = ''Center B'', rp_position = ''C'', rp_value = None\<rparr>],
      impact_score = 1, all_categories = None,
      category_improvements = [Plus ''PTS'' 1], category_declines = [],
      priority = ''high''\<rparr>"

section \<open>Lemmas about rounding\<close>


lemma py_round_close: "\<bar>of_int (py_round y) - y\<bar> \<le> 1 / 2"
  unfolding py_round_def Let_def by (auto; linarith)

lemma py_round_of_int: "py_round (of_int i) = i"
  unfolding py_round_def Let_def by simp

lemma py_round_nonneg: "0 \<le> y \<Longrightarrow> 0 \<le> py_round y"
  unfolding py_round_def Let_def by (auto; linarith)

lemma scale_up_le: "scale_up fuel m \<le> fuel"
  by (induction fuel arbitrary: m) auto

lemma scale_up_below: "j < scale_up fuel m \<Longrightarrow> m * 2 ^ j < 2 ^ 52"
proof (induction fuel arbitrary: m j)
  case 0
  then show ?case by simp
next
  case (Suc fuel)
  show ?case
  proof (cases "m < 2 ^ 52")
    case True
    show ?thesis
    proof (cases j)
      case 0
      with True show ?thesis by simp
    next
      case (Suc j')
      with Suc.prems True have "j' < scale_up fuel (2 * m)" by simp
      from Suc.IH [OF this] show ?thesis using Suc by (simp add: mult.assoc mult.left_commute)
    qed
  next
    case False
    with Suc.prems show ?thesis by simp
  qed
qed

lemma scale_up_reached: "scale_up fuel m < fuel \<Longrightarrow> 2 ^ 52 \<le> m * 2 ^ scale_up fuel m"
proof (induction fuel arbitrary: m)
  case 0
  then show ?case by simp
next
  case (Suc fuel)
  show ?case
  proof (cases "m < 2 ^ 52")
    case True
    with Suc.prems have "scale_up fuel (2 * m) < fuel" by simp
    from Suc.IH [OF this] show ?thesis using True by (simp add: mult.assoc mult.left_commute)
  next
    case False
    then show ?thesis by simp
  qed
qed

lemma scale_up_eq:
  assumes lo: "2 ^ 52 \<le> x * 2 ^ i" and hi: "x * 2 ^ i < 2 ^ 53" and fuel: "i \<le> fuel"
  shows "scale_up fuel x = i"
proof -
  have xpos: "0 < x"
  proof (rule ccontr)
    assume "\<not> 0 < x"
    then have "x * 2 ^ i \<le> 0" by (simp add: mult_le_0_iff)
    with lo show False by simp
  qed
  define k where "k = scale_up fuel x"
  have "\<not> k < i"
  proof
    assume lt: "k < i"
    then have "scale_up fuel x < fuel" using fuel by (simp add: k_def)
    then have a: "2 ^ 52 \<le> x * 2 ^ k" unfolding k_def by (rule scale_up_reached)
    from lt obtain d where d: "i = Suc (k + d)" using less_iff_Suc_add by auto
    have "(1 :: real) \<le> 2 ^ d" by simp
    have "(x * 2 ^ k) * 2 = (x * 2 ^ k) * 2 * 1" by simp
    also have "\<dots> \<le> (x * 2 ^ k) * 2 * 2 ^ d"
      using xpos \<open>1 \<le> 2 ^ d\<close> by (intro mult_left_mono) auto
    also have "\<dots> = x * 2 ^ i" unfolding d by (simp add: power_add)
    finally have "(x * 2 ^ k) * 2 \<le> x * 2 ^ i" .
    with a hi show False by simp
  qed
  moreover have "\<not> i < k"
  proof
    assume "i < k"
    then have "x * 2 ^ i < 2 ^ 52" unfolding k_def by (rule scale_up_below)
    with lo show False by simp
  qed
  ultimately show ?thesis by (simp add: k_def)
qed

lemma fl_zero: "fl 0 = 0"
  by (simp add: fl_def)

lemma fl_minus: "fl (- x) = - fl x"
  by (simp add: fl_def)

lemma fl_eval:
  assumes "2 ^ 52 \<le> x * 2 ^ i" and "x * 2 ^ i < 2 ^ 53" and "i \<le> 1074"
  shows "fl x = of_int (py_round (x * 2 ^ i)) / 2 ^ i"
proof -
  have xpos: "0 < x"
  proof (rule ccontr)
    assume "\<not> 0 < x"
    then have "x * 2 ^ i \<le> 0" by (simp add: mult_le_0_iff)
    with assms(1) show False by simp
  qed
  have "x * 1 \<le> x * 2 ^ i" using xpos by (intro mult_left_mono) auto
  then have small: "x < 2 ^ 53" using assms(2) by simp
  have "scale_up 1074 x = i" using assms by (rule scale_up_eq)
  then show ?thesis using xpos small by (simp add: fl_def fl_pos_def)
qed

lemma fl_pos_nonneg: "0 \<le> x \<Longrightarrow> 0 \<le> fl_pos x"
  unfolding fl_pos_def Let_def
  by (auto intro!: divide_nonneg_nonneg mult_nonneg_nonneg py_round_nonneg)

lemma fl_nonneg: "0 \<le> x \<Longrightarrow> 0 \<le> fl x"
  unfolding fl_def using fl_pos_nonneg [of x] by auto

lemma fl_nonpos: "x \<le> 0 \<Longrightarrow> fl x \<le> 0"
  using fl_nonneg [of "- x"] by (simp add: fl_minus)

lemma fl_not_neg: "0 \<le> x \<Longrightarrow> \<not> fl x < 0"
  using fl_nonneg [of x] by simp

text \<open>A dyadic rational with a mantissa below \<open>2 ^ 53\<close> is a double.\<close>

lemma fl_pos_dyadic:
  assumes "0 < i" and "i < 2 ^ 53" and "k \<le> 1074"
  shows "fl_pos (of_int i / 2 ^ k) = of_int i / 2 ^ k"
proof -
  define x :: real where "x = of_int i / 2 ^ k"
  define K where "K = scale_up 1074 x"
  have ipos: "(0 :: real) < of_int i" using assms(1) by simp
  have "(1 :: real) \<le> 2 ^ k" by simp
  then have "of_int i / 2 ^ k \<le> (of_int i :: real) / 1"
    using ipos by (intro divide_left_mono) auto
  then have xle: "x \<le> of_int i" by (simp add: x_def)
  have ismall: "(of_int i :: real) < 2 ^ 53"
    using assms(2) by (metis of_int_less_numeral_power_cancel_iff)
  then have small: "x < 2 ^ 53" using xle by simp
  have kK: "k \<le> K"
  proof (rule ccontr)
    assume "\<not> k \<le> K"
    then have lt: "K < k" by simp
    then have "scale_up 1074 x < 1074" using assms(3) by (simp add: K_def)
    then have a: "2 ^ 52 \<le> x * 2 ^ K" unfolding K_def by (rule scale_up_reached)
    from lt obtain d where d: "k = Suc (K + d)" using less_iff_Suc_add by auto
    have "(1 :: real) \<le> 2 ^ d" by simp
    then have "of_int i / (2 * 2 ^ d) \<le> (of_int i :: real) / (2 * 1)"
      using ipos by (intro divide_left_mono) auto
    moreover have "x * 2 ^ K = of_int i / (2 * 2 ^ d)" unfolding x_def d by (simp add: power_add)
    ultimately have "x * 2 ^ K \<le> of_int i / 2" by simp
    with ismall a show False by simp
  qed
  then obtain d where d: "K = k + d" using le_Suc_ex by blast
  have "x * 2 ^ K = of_int (i * 2 ^ d)" unfolding x_def d by (simp add: power_add)
  then have "py_round (x * 2 ^ K) = i * 2 ^ d" by (simp only: py_round_of_int)
  then have "of_int (py_round (x * 2 ^ K)) / 2 ^ K = (of_int (i * 2 ^ d) :: real) / 2 ^ (k + d)"
    using d by simp
  also have "\<dots> = x" by (simp add: power_add x_def)
  finally have "fl_pos x = x" using small by (simp add: fl_pos_def Let_def K_def)
  then show ?thesis by (simp add: x_def)
qed

lemma fl_dyadic:
  assumes "\<bar>i\<bar> < 2 ^ 53" and "k \<le> 1074"
  shows "fl (of_int i / 2 ^ k) = of_int i / 2 ^ k"
proof -
  consider "i = 0" | "0 < i" | "i < 0" by linarith
  then show ?thesis
  proof cases
    case 1
    then show ?thesis by (simp add: fl_def)
  next
    case 2
    then have "fl_pos (of_int i / 2 ^ k) = of_int i / 2 ^ k"
      using assms by (intro fl_pos_dyadic) auto
    then show ?thesis using 2 by (simp add: fl_def)
  next
    case 3
    then have "fl_pos (of_int (- i) / 2 ^ k) = of_int (- i) / 2 ^ k"
      using assms by (intro fl_pos_dyadic) auto
    moreover have "(of_int i :: real) / 2 ^ k < 0" using 3 by (simp add: divide_less_0_iff)
    ultimately show ?thesis by (simp add: fl_def)
  qed
qed

lemma fl_of_int: "\<bar>i\<bar> < 2 ^ 53 \<Longrightarrow> fl (of_int i) = of_int i"
  using fl_dyadic [of i 0] by simp

lemma fl_numeral: "(numeral n :: int) < 2 ^ 53 \<Longrightarrow> fl (numeral n) = numeral n"
  using fl_of_int [of "numeral n"] by simp

lemma fl_one: "fl 1 = 1"
  using fl_of_int [of 1] by simp

lemma fl_of_nat: "n < 2 ^ 53 \<Longrightarrow> fl (of_nat n) = of_nat n"
  using fl_of_int [of "int n"] by simp

text \<open>The relative error of one rounding.\<close>

lemma scale_down_above: "j < scale_down fuel m \<Longrightarrow> 2 ^ 53 \<le> m / 2 ^ j"
proof (induction fuel arbitrary: m j)
  case 0
  then show ?case by simp
next
  case (Suc fuel)
  show ?case
  proof (cases "2 ^ 53 \<le> m")
    case True
    show ?thesis
    proof (cases j)
      case 0
      with True show ?thesis by simp
    next
      case (Suc j')
      with Suc.prems True have "j' < scale_down fuel (m / 2)" by simp
      from Suc.IH [OF this] show ?thesis using Suc by (simp add: field_simps)
    qed
  next
    case False
    with Suc.prems show ?thesis by simp
  qed
qed

lemma fl_pos_close:
  assumes "0 < x"
  shows "\<bar>fl_pos x - x\<bar> \<le> x / 2 ^ 53 + 1 / 2 ^ 1075"
proof (cases "x < 2 ^ 53")
  case True
  define K where "K = scale_up 1074 x"
  have eq: "fl_pos x = of_int (py_round (x * 2 ^ K)) / 2 ^ K"
    using True by (simp add: fl_pos_def Let_def K_def)
  have "\<bar>fl_pos x - x\<bar> = \<bar>of_int (py_round (x * 2 ^ K)) - x * 2 ^ K\<bar> / 2 ^ K"
    unfolding eq by (simp add: field_simps)
  also have "\<dots> \<le> (1 / 2) / 2 ^ K"
    by (intro divide_right_mono py_round_close) simp
  finally have err: "\<bar>fl_pos x - x\<bar> \<le> (1 / 2) / 2 ^ K" .
  show ?thesis
  proof (cases "K < 1074")
    case True
    then have "2 ^ 52 \<le> x * 2 ^ K" unfolding K_def by (rule scale_up_reached)
    then have "(1 / 2) / 2 ^ K \<le> x / 2 ^ 53" by (simp add: field_simps)
    then show ?thesis using err by simp
  next
    case False
    then have "K = 1074" using scale_up_le [of 1074 x] by (simp add: K_def)
    then have "(1 / 2) / 2 ^ K = (1 :: real) / 2 ^ 1075" by simp
    then show ?thesis using err assms by simp
  qed
next
  case False
  define K where "K = scale_down 971 x"
  have eq: "fl_pos x = of_int (py_round (x / 2 ^ K)) * 2 ^ K"
    using False by (simp add: fl_pos_def Let_def K_def)
  have "scale_down 971 x = Suc (scale_down 970 (x / 2))"
    using False by (simp add: eval_nat_numeral)
  then obtain K' where K': "K = Suc K'" by (simp add: K_def)
  then have "K' < scale_down 971 x" by (simp add: K_def)
  then have "2 ^ 53 \<le> x / 2 ^ K'" by (rule scale_down_above)
  then have big: "2 ^ 52 \<le> x / 2 ^ K" by (simp add: K' field_simps)
  have "\<bar>fl_pos x - x\<bar> = \<bar>of_int (py_round (x / 2 ^ K)) - x / 2 ^ K\<bar> * 2 ^ K"
    unfolding eq by (simp add: field_simps abs_mult flip: abs_mult_pos)
  also have "\<dots> \<le> (1 / 2) * 2 ^ K"
    by (intro mult_right_mono py_round_close) simp
  also have "\<dots> \<le> x / 2 ^ 53" using big by (simp add: field_simps)
  finally show ?thesis by simp
qed

lemma fl_close: "\<bar>fl x - x\<bar> \<le> \<bar>x\<bar> / 2 ^ 53 + 1 / 2 ^ 1075"
proof -
  consider "x = 0" | "0 < x" | "x < 0" by linarith
  then show ?thesis
  proof cases
    case 1
    then show ?thesis by (simp add: fl_def)
  next
    case 2
    then show ?thesis using fl_pos_close [of x] by (simp add: fl_def)
  next
    case 3
    then show ?thesis using fl_pos_close [of "- x"] by (simp add: fl_def)
  qed
qed

lemma round_decimal_close: "\<bar>round_decimal x 1 - x\<bar> \<le> 1 / 20"
  using py_round_close [of "x * 10"] by (simp add: round_decimal_def field_simps)

lemma round_decimal_nonneg: "0 \<le> x \<Longrightarrow> 0 \<le> round_decimal x n"
  by (simp add: round_decimal_def py_round_nonneg)

lemma fl_near: "\<bar>x\<bar> \<le> 1024 \<Longrightarrow> \<bar>fl x - x\<bar> \<le> 1 / 2 ^ 42"
proof -
  assume x: "\<bar>x\<bar> \<le> 1024"
  have "\<bar>fl x - x\<bar> \<le> \<bar>x\<bar> / 2 ^ 53 + 1 / 2 ^ 1075" by (rule fl_close)
  moreover have "\<bar>x\<bar> / 2 ^ 53 \<le> 1024 / 2 ^ 53" using x by (rule divide_right_mono) simp
  moreover have "(1024 :: real) / 2 ^ 53 + 1 / 2 ^ 1075 \<le> 1 / 2 ^ 42" by simp
  ultimately show ?thesis by linarith
qed

text \<open>A percentage computed and rounded in floats is close to the exact percentage.\<close>

lemma reported_close:
  assumes "0 \<le> q" and "q \<le> 1"
  shows "\<bar>py_round_nd (fl (fl q * 100)) 1 - q * 100\<bar> \<le> 1 / 16"
proof -
  define a where "a = fl q"
  define b where "b = fl (a * 100)"
  define r where "r = round_decimal b 1"
  have e: "(1 :: real) / 2 ^ 42 \<le> 1 / 100000" by simp
  have a0: "0 \<le> a" unfolding a_def using assms(1) by (rule fl_nonneg)
  have a1: "\<bar>a - q\<bar> \<le> 1 / 2 ^ 42" unfolding a_def using assms by (intro fl_near) simp
  have a2: "a \<le> 2" using a1 e assms by linarith
  have b0: "0 \<le> b" unfolding b_def using a0 by (intro fl_nonneg) simp
  have b1: "\<bar>b - a * 100\<bar> \<le> 1 / 2 ^ 42" unfolding b_def using a0 a2 by (intro fl_near) simp
  have r0: "0 \<le> r" unfolding r_def using b0 by (rule round_decimal_nonneg)
  have r1: "\<bar>r - b\<bar> \<le> 1 / 20" unfolding r_def by (rule round_decimal_close)
  have r2: "r \<le> 1024" using r1 b1 a1 e assms by linarith
  have f1: "\<bar>fl r - r\<bar> \<le> 1 / 2 ^ 42" using r0 r2 by (intro fl_near) simp
  have "\<bar>fl r - q * 100\<bar> \<le> 1 / 16" using f1 r1 b1 a1 e by linarith
  then show ?thesis unfolding py_round_nd_def r_def b_def a_def .
qed

text \<open>Rounding the small integers and halves that the examples meet.\<close>

lemma fl_neg_numeral: "(numeral n :: int) < 2 ^ 53 \<Longrightarrow> fl (- numeral n) = - numeral n"
  by (simp add: fl_minus fl_numeral)

lemma fl_half: "\<bar>i\<bar> < 2 ^ 53 \<Longrightarrow> fl (of_int i / 2) = of_int i / 2"
  using fl_dyadic [of i 1] by simp

lemma fl_numeral_half: "(numeral n :: int) < 2 ^ 53 \<Longrightarrow> fl (numeral n / 2) = numeral n / 2"
  using fl_half [of "numeral n"] by simp

lemma fl_one_half: "fl (1 / 2) = 1 / 2"
  using fl_half [of 1] by simp

lemma round_decimal_of_int: "round_decimal (of_int k) 1 = of_int k"
  by (simp add: round_decimal_def py_round_def Let_def)

lemma py_round_nd_of_int: "\<bar>k\<bar> < 2 ^ 53 \<Longrightarrow> py_round_nd (of_int k) 1 = of_int k"
  by (simp only: py_round_nd_def round_decimal_of_int fl_of_int)

lemma py_round_nd_numeral: "(numeral n :: int) < 2 ^ 53 \<Longrightarrow> py_round_nd (numeral n) 1 = numeral n"
  using py_round_nd_of_int [of "numeral n"] by simp

lemma py_round_nd_zero: "py_round_nd 0 1 = 0"
  using py_round_nd_of_int [of 0] by simp

lemmas fl_simps = fl_zero fl_one fl_numeral fl_neg_numeral fl_numeral_half fl_one_half
  py_round_nd_numeral py_round_nd_zero

section \<open>Lemmas about the simulator\<close>

lemma gspp_nonempty: "get_sample_player_projections p \<noteq> []"
  by (simp add: get_sample_player_projections_def default_projections_def Let_def)

lemma gspp_keys:
  "map_of (get_sample_player_projections p) ''fg_percentage'' = Some (proj p ''fg_percentage'')"
  "map_of (get_sample_player_projections p) ''fg_attempts'' = Some (proj p ''fg_attempts'')"
  "map_of (get_sample_player_projections p) ''ft_percentage'' = Some (proj p ''ft_percentage'')"
  "map_of (get_sample_player_projections p) ''ft_attempts'' = Some (proj p ''ft_attempts'')"
  by (simp_all add: proj_def dict_get_def get_sample_player_projections_def
        default_projections_def Let_def)

lemma aggregate_player_fields:
  "fg_makes (aggregate_player acc p) =
     (if proj p ''fg_percentage'' > 0 \<and> proj p ''fg_attempts'' > 0
      then fl (fg_makes acc + fl (proj p ''fg_percentage'' * proj p ''fg_attempts''))
      else fg_makes acc)"
  "fg_attempts (aggregate_player acc p) =
     (if proj p ''fg_percentage'' > 0 \<and> proj p ''fg_attempts'' > 0
      then fl (fg_attempts acc + proj p ''fg_attempts'') else fg_attempts acc)"
  "ft_makes (aggregate_player acc p) =
     (if proj p ''ft_percentage'' > 0 \<and> proj p ''ft_attempts'' > 0
      then fl (ft_makes acc + fl (proj p ''ft_percentage'' * proj p ''ft_attempts''))
      else ft_makes acc)"
  "ft_attempts (aggregate_player acc p) =
     (if proj p ''ft_percentage'' > 0 \<and> proj p ''ft_attempts'' > 0
      then fl (ft_attempts acc + proj p ''ft_attempts'') else ft_attempts acc)"
  by (simp_all add: aggregate_player_def gspp_nonempty gspp_keys Let_def)

lemma aggregate_player_tp:
  "team_projections (aggregate_player acc p) c =
     (if c \<in> set counting_stats then fl (team_projections acc c + proj p c)
      else team_projections acc c)"
  by (simp add: aggregate_player_def gspp_nonempty gspp_keys Let_def counting_stats_def proj_def)

lemma foldl_aggregate_player_fields:
  "fg_makes (foldl aggregate_player acc roster) =
     foldl (\<lambda>s p. if proj p ''fg_percentage'' > 0 \<and> proj p ''fg_attempts'' > 0
                   then fl (s + fl (proj p ''fg_percentage'' * proj p ''fg_attempts'')) else s)
       (fg_makes acc) roster"
  "fg_attempts (foldl aggregate_player acc roster) =
     foldl (\<lambda>s p. if proj p ''fg_percentage'' > 0 \<and> proj p ''fg_attempts'' > 0
                   then fl (s + proj p ''fg_attempts'') else s)
       (fg_attempts acc) roster"
  "ft_makes (foldl aggregate_player acc roster) =
     foldl (\<lambda>s p. if proj p ''ft_percentage'' > 0 \<and> proj p ''ft_attempts'' > 0
                   then fl (s + fl (proj p ''ft_percentage'' * proj p ''ft_attempts'')) else s)
       (ft_makes acc) roster"
  "ft_attempts (foldl aggregate_player acc roster) =
     foldl (\<lambda>s p. if proj p ''ft_percentage'' > 0 \<and> proj p ''ft_attempts'' > 0
                   then fl (s + proj p ''ft_attempts'') else s)
       (ft_attempts acc) roster"
  by (induction roster arbitrary: acc; simp add: aggregate_player_fields)+

lemma foldl_aggregate_player_tp:
  "team_projections (foldl aggregate_player acc roster) c =
     (if c \<in> set counting_stats
      then foldl (\<lambda>s p. fl (s + proj p c)) (team_projections acc c) roster
      else team_projections acc c)"
  by (induction roster arbitrary: acc) (simp_all add: aggregate_player_tp)

lemma foldl_filter_map:
  "foldl (\<lambda>s x. fl (s + x)) s0 (map f (filter P xs)) =
     foldl (\<lambda>s x. if P x then fl (s + f x) else s) s0 xs"
  by (induction xs arbitrary: s0) simp_all

lemma float_sum_makes:
  "float_sum (map (\<lambda>(rate, att). fl (rate * att))
       (filter (\<lambda>(rate, att). rate > 0 \<and> att > 0) (map (\<lambda>p. (f p, g p)) roster))) =
     foldl (\<lambda>s p. if f p > 0 \<and> g p > 0 then fl (s + fl (f p * g p)) else s) 0 roster"
  by (simp add: float_sum_def filter_map comp_def foldl_filter_map)

lemma float_sum_attempts:
  "float_sum (map snd
       (filter (\<lambda>(rate, att). rate > 0 \<and> att > 0) (map (\<lambda>p. (f p, g p)) roster))) =
     foldl (\<lambda>s p. if f p > 0 \<and> g p > 0 then fl (s + g p) else s) 0 roster"
  by (simp add: float_sum_def filter_map comp_def foldl_filter_map)

lemma team_fg:
  "get_team_projections roster ''fg_percentage'' =
     float_weighted_percentage
       (map (\<lambda>p. (proj p ''fg_percentage'', proj p ''fg_attempts'')) roster)"
  unfolding get_team_projections_def float_weighted_percentage_def Let_def
    float_sum_makes float_sum_attempts
  by (simp add: foldl_aggregate_player_fields foldl_aggregate_player_tp team_acc_init_def
        counting_stats_def)

lemma team_ft:
  "get_team_projections roster ''ft_percentage'' =
     float_weighted_percentage
       (map (\<lambda>p. (proj p ''ft_percentage'', proj p ''ft_attempts'')) roster)"
  unfolding get_team_projections_def float_weighted_percentage_def Let_def
    float_sum_makes float_sum_attempts
  by (simp add: foldl_aggregate_player_fields foldl_aggregate_player_tp team_acc_init_def
        counting_stats_def)

lemma team_counting:
  "c \<in> set counting_stats \<Longrightarrow>
     get_team_projections roster c = float_sum (map (\<lambda>p. proj p c) roster)"
  unfolding get_team_projections_def Let_def float_sum_def
  by (auto simp add: foldl_aggregate_player_tp team_acc_init_def counting_stats_def foldl_map)

lemma team_empty: "get_team_projections [] c = 0"
  by (simp add: get_team_projections_def team_acc_init_def)

lemma compare_category_beats:
  "compare_category m o' a c =
     (if beats c (m c) (o' c) then record_win c a
      else if beats c (o' c) (m c) then record_loss c a else record_tie c a)"
  by (simp add: compare_category_def beats_def Let_def)

lemma beats_asym: "beats c x y \<Longrightarrow> \<not> beats c y x"
  by (simp add: beats_def split: if_splits)

lemma beats_neq: "beats c x y \<Longrightarrow> x \<noteq> y"
  by (simp add: beats_def split: if_splits)

lemma beats_total: "\<not> beats c x y \<Longrightarrow> \<not> beats c y x \<Longrightarrow> x = y"
  by (simp add: beats_def split: if_splits)

lemma beats_irrefl: "\<not> beats c x x"
  by (simp add: beats_def)

lemma compare_category_fields:
  "categories_won (compare_category m o' a c) = categories_won a + (if beats c (m c) (o' c) then 1 else 0)"
  "categories_lost (compare_category m o' a c) = categories_lost a + (if beats c (o' c) (m c) then 1 else 0)"
  "category_wins (tally (compare_category m o' a c)) x = category_wins (tally a) x + (if c = x \<and> beats x (m x) (o' x) then 1 else 0)"
  "category_losses (tally (compare_category m o' a c)) x = category_losses (tally a) x + (if c = x \<and> beats x (o' x) (m x) then 1 else 0)"
  "category_ties (tally (compare_category m o' a c)) x = category_ties (tally a) x + (if c = x \<and> m x = o' x then 1 else 0)"
  "my_wins (tally (compare_category m o' a c)) = my_wins (tally a)"
  "simulation_details (tally (compare_category m o' a c)) = simulation_details (tally a)"
proof -
  consider (w) "beats c (m c) (o' c)" | (l) "beats c (o' c) (m c)" | (t) "m c = o' c"
    using beats_total by blast
  then have
    "categories_won (compare_category m o' a c) = categories_won a + (if beats c (m c) (o' c) then 1 else 0)
     \<and> categories_lost (compare_category m o' a c) = categories_lost a + (if beats c (o' c) (m c) then 1 else 0)
     \<and> category_wins (tally (compare_category m o' a c)) x = category_wins (tally a) x + (if c = x \<and> beats x (m x) (o' x) then 1 else 0)
     \<and> category_losses (tally (compare_category m o' a c)) x = category_losses (tally a) x + (if c = x \<and> beats x (o' x) (m x) then 1 else 0)
     \<and> category_ties (tally (compare_category m o' a c)) x = category_ties (tally a) x + (if c = x \<and> m x = o' x then 1 else 0)
     \<and> my_wins (tally (compare_category m o' a c)) = my_wins (tally a)
     \<and> simulation_details (tally (compare_category m o' a c)) = simulation_details (tally a)"
  proof cases
    case w
    with beats_asym [OF w] beats_neq [OF w] show ?thesis
      by (simp add: compare_category_beats record_win_def)
  next
    case l
    with beats_asym [OF l] beats_neq [OF l] show ?thesis
      by (simp add: compare_category_beats record_loss_def)
  next
    case t
    then show ?thesis
      by (simp add: compare_category_beats record_tie_def beats_irrefl)
  qed
  then show
    "categories_won (compare_category m o' a c) = categories_won a + (if beats c (m c) (o' c) then 1 else 0)"
    "categories_lost (compare_category m o' a c) = categories_lost a + (if beats c (o' c) (m c) then 1 else 0)"
    "category_wins (tally (compare_category m o' a c)) x = category_wins (tally a) x + (if c = x \<and> beats x (m x) (o' x) then 1 else 0)"
    "category_losses (tally (compare_category m o' a c)) x = category_losses (tally a) x + (if c = x \<and> beats x (o' x) (m x) then 1 else 0)"
    "category_ties (tally (compare_category m o' a c)) x = category_ties (tally a) x + (if c = x \<and> m x = o' x then 1 else 0)"
    "my_wins (tally (compare_category m o' a c)) = my_wins (tally a)"
    "simulation_details (tally (compare_category m o' a c)) = simulation_details (tally a)"
    by blast+
qed

lemma foldl_compare_fields:
  "categories_won (foldl (compare_category m o') a cs) =
     categories_won a + length (filter (\<lambda>c. beats c (m c) (o' c)) cs)"
  "categories_lost (foldl (compare_category m o') a cs) =
     categories_lost a + length (filter (\<lambda>c. beats c (o' c) (m c)) cs)"
  "category_wins (tally (foldl (compare_category m o') a cs)) x =
     category_wins (tally a) x + length (filter (\<lambda>c. c = x \<and> beats x (m x) (o' x)) cs)"
  "category_losses (tally (foldl (compare_category m o') a cs)) x =
     category_losses (tally a) x + length (filter (\<lambda>c. c = x \<and> beats x (o' x) (m x)) cs)"
  "category_ties (tally (foldl (compare_category m o') a cs)) x =
     category_ties (tally a) x + length (filter (\<lambda>c. c = x \<and> m x = o' x) cs)"
  "my_wins (tally (foldl (compare_category m o') a cs)) = my_wins (tally a)"
  "simulation_details (tally (foldl (compare_category m o') a cs)) = simulation_details (tally a)"
  by (induction cs arbitrary: a; simp add: compare_category_fields)+

lemma distinct_stat_categories: "distinct stat_categories"
  by (simp add: stat_categories_def)

lemma count_single:
  "distinct xs \<Longrightarrow> c \<in> set xs \<Longrightarrow> length (filter (\<lambda>x. x = c \<and> P) xs) = (if P then 1 else 0)"
  by (induction xs) (auto simp: filter_empty_conv)

lemma count_in_categories:
  "c \<in> set stat_categories \<Longrightarrow>
     length (filter (\<lambda>x. x = c \<and> P) stat_categories) = (if P then 1 else 0)"
  by (rule count_single [OF distinct_stat_categories])

lemma run_trial_Inr:
  assumes "run_trial rng my opp s i = Inr s'"
  shows "simulate_team_performance (fst (rng i)) my = Inr (sampled (fst (rng i)) my)"
    and "simulate_team_performance (snd (rng i)) opp = Inr (sampled (snd (rng i)) opp)"
    and "c \<in> set stat_categories \<Longrightarrow> category_wins s' c = category_wins s c +
           (if beats c (sampled (fst (rng i)) my c) (sampled (snd (rng i)) opp c) then 1 else 0)"
    and "c \<in> set stat_categories \<Longrightarrow> category_losses s' c = category_losses s c +
           (if beats c (sampled (snd (rng i)) opp c) (sampled (fst (rng i)) my c) then 1 else 0)"
    and "c \<in> set stat_categories \<Longrightarrow> category_ties s' c = category_ties s c +
           (if sampled (fst (rng i)) my c = sampled (snd (rng i)) opp c then 1 else 0)"
    and "my_wins s' = my_wins s + trial_credit (sampled (fst (rng i)) my) (sampled (snd (rng i)) opp)"
    and "simulation_details s' = simulation_details s @
           (if i < 100 then [trial_detail i (sampled (fst (rng i)) my) (sampled (snd (rng i)) opp)] else [])"
proof -
  obtain ms where ms: "simulate_team_performance (fst (rng i)) my = Inr ms"
    using assms by (cases "simulate_team_performance (fst (rng i)) my") (simp_all add: run_trial_def)
  obtain os where os: "simulate_team_performance (snd (rng i)) opp = Inr os"
    using assms ms by (cases "simulate_team_performance (snd (rng i)) opp") (simp_all add: run_trial_def)
  have sm: "sampled (fst (rng i)) my = ms" and so: "sampled (snd (rng i)) opp = os"
    by (simp_all add: sampled_def ms os)
  show "simulate_team_performance (fst (rng i)) my = Inr (sampled (fst (rng i)) my)"
    and "simulate_team_performance (snd (rng i)) opp = Inr (sampled (snd (rng i)) opp)"
    by (simp_all add: sm so ms os)
  define a where "a = foldl (compare_category ms os)
       \<lparr>categories_won = 0, categories_lost = 0, tally = s\<rparr> stat_categories"
  have won: "categories_won a = won_by ms os" and lost: "categories_lost a = won_by os ms"
    by (simp_all add: a_def foldl_compare_fields won_by_def)
  have s': "s' = projr (run_trial rng my opp s i)"
    using assms by simp
  have aw: "c \<in> set stat_categories \<Longrightarrow> category_wins (tally a) c =
      category_wins s c + (if beats c (ms c) (os c) then 1 else 0)"
    unfolding a_def foldl_compare_fields by (simp only: count_in_categories) simp
  have al: "c \<in> set stat_categories \<Longrightarrow> category_losses (tally a) c =
      category_losses s c + (if beats c (os c) (ms c) then 1 else 0)"
    unfolding a_def foldl_compare_fields by (simp only: count_in_categories) simp
  have at: "c \<in> set stat_categories \<Longrightarrow> category_ties (tally a) c =
      category_ties s c + (if ms c = os c then 1 else 0)"
    unfolding a_def foldl_compare_fields by (simp only: count_in_categories) simp
  have am: "my_wins (tally a) = my_wins s" and ad: "simulation_details (tally a) = simulation_details s"
    unfolding a_def foldl_compare_fields by simp_all
  note ev = s' run_trial_def ms os Let_def sm so a_def [symmetric] won lost
  show "c \<in> set stat_categories \<Longrightarrow> category_wins s' c = category_wins s c +
           (if beats c (sampled (fst (rng i)) my c) (sampled (snd (rng i)) opp c) then 1 else 0)"
    by (simp add: ev aw)
  show "c \<in> set stat_categories \<Longrightarrow> category_losses s' c = category_losses s c +
           (if beats c (sampled (snd (rng i)) opp c) (sampled (fst (rng i)) my c) then 1 else 0)"
    by (simp add: ev al)
  show "c \<in> set stat_categories \<Longrightarrow> category_ties s' c = category_ties s c +
           (if sampled (fst (rng i)) my c = sampled (snd (rng i)) opp c then 1 else 0)"
    by (simp add: ev at)
  show "my_wins s' = my_wins s + trial_credit (sampled (fst (rng i)) my) (sampled (snd (rng i)) opp)"
    by (simp add: ev trial_credit_def am)
  show "simulation_details s' = simulation_details s @
           (if i < 100 then [trial_detail i (sampled (fst (rng i)) my) (sampled (snd (rng i)) opp)] else [])"
    by (simp add: ev trial_detail_def trial_winner_def ad)
qed

lemma run_trials_Inr:
  assumes "run_trials rng my opp xs s = Inr s'"
  shows "\<forall>i\<in>set xs. simulate_team_performance (fst (rng i)) my = Inr (sampled (fst (rng i)) my)
           \<and> simulate_team_performance (snd (rng i)) opp = Inr (sampled (snd (rng i)) opp)"
    and "c \<in> set stat_categories \<Longrightarrow> category_wins s' c = category_wins s c +
           length (filter (\<lambda>i. beats c (sampled (fst (rng i)) my c) (sampled (snd (rng i)) opp c)) xs)"
    and "c \<in> set stat_categories \<Longrightarrow> category_losses s' c = category_losses s c +
           length (filter (\<lambda>i. beats c (sampled (snd (rng i)) opp c) (sampled (fst (rng i)) my c)) xs)"
    and "c \<in> set stat_categories \<Longrightarrow> category_ties s' c = category_ties s c +
           length (filter (\<lambda>i. sampled (fst (rng i)) my c = sampled (snd (rng i)) opp c) xs)"
    and "my_wins s' = my_wins s +
           sum_list (map (\<lambda>i. trial_credit (sampled (fst (rng i)) my) (sampled (snd (rng i)) opp)) xs)"
    and "simulation_details s' = simulation_details s @
           map (\<lambda>i. trial_detail i (sampled (fst (rng i)) my) (sampled (snd (rng i)) opp))
             (filter (\<lambda>i. i < 100) xs)"
  using assms
proof (induction xs arbitrary: s)
  case Nil
  {
    case 1 show ?case by simp
  next
    case 2 then show ?case by simp
  next
    case 3 then show ?case by simp
  next
    case 4 then show ?case by simp
  next
    case 5 then show ?case by simp
  next
    case 6 then show ?case by simp
  }
next
  case (Cons x xs)
  {
    case 1
    then obtain s1 where s1: "run_trial rng my opp s x = Inr s1"
      and rest: "run_trials rng my opp xs s1 = Inr s'"
      by (cases "run_trial rng my opp s x") simp_all
    show ?case using run_trial_Inr(1,2) [OF s1] Cons.IH(1) [OF rest] by simp
  next
    case 2
    then obtain s1 where s1: "run_trial rng my opp s x = Inr s1"
      and rest: "run_trials rng my opp xs s1 = Inr s'"
      by (cases "run_trial rng my opp s x") simp_all
    show ?case using run_trial_Inr(3) [OF s1 2(1)] Cons.IH(2) [OF 2(1) rest] by simp
  next
    case 3
    then obtain s1 where s1: "run_trial rng my opp s x = Inr s1"
      and rest: "run_trials rng my opp xs s1 = Inr s'"
      by (cases "run_trial rng my opp s x") simp_all
    show ?case using run_trial_Inr(4) [OF s1 3(1)] Cons.IH(3) [OF 3(1) rest] by simp
  next
    case 4
    then obtain s1 where s1: "run_trial rng my opp s x = Inr s1"
      and rest: "run_trials rng my opp xs s1 = Inr s'"
      by (cases "run_trial rng my opp s x") simp_all
    show ?case using run_trial_Inr(5) [OF s1 4(1)] Cons.IH(4) [OF 4(1) rest] by simp
  next
    case 5
    then obtain s1 where s1: "run_trial rng my opp s x = Inr s1"
      and rest: "run_trials rng my opp xs s1 = Inr s'"
      by (cases "run_trial rng my opp s x") simp_all
    show ?case using run_trial_Inr(6) [OF s1] Cons.IH(5) [OF rest] by simp
  next
    case 6
    then obtain s1 where s1: "run_trial rng my opp s x = Inr s1"
      and rest: "run_trials rng my opp xs s1 = Inr s'"
      by (cases "run_trial rng my opp s x") simp_all
    show ?case using run_trial_Inr(7) [OF s1] Cons.IH(6) [OF rest] by simp
  }
qed

lemma outcome_partition:
  "length (filter (\<lambda>i. beats c (f i) (g i)) xs) + length (filter (\<lambda>i. beats c (g i) (f i)) xs)
     + length (filter (\<lambda>i. f i = g i) xs) = length xs"
proof (induction xs)
  case Nil
  show ?case by simp
next
  case (Cons x xs)
  consider "beats c (f x) (g x)" | "beats c (g x) (f x)" | "f x = g x"
    using beats_total by blast
  then show ?case
  proof cases
    case 1
    with beats_asym [OF 1] beats_neq [OF 1] Cons show ?thesis by simp
  next
    case 2
    with beats_asym [OF 2] beats_neq [OF 2] Cons show ?thesis by simp
  next
    case 3
    with Cons show ?thesis by (simp add: beats_irrefl)
  qed
qed

lemma filter_lt_upt: "filter (\<lambda>i. i < k) [0..<n] = [0..<min n k]"
proof (induction n)
  case 0
  show ?case by simp
next
  case (Suc n)
  show ?case
  proof (cases "n < k")
    case True
    with Suc show ?thesis by (simp add: min_def)
  next
    case False
    then have "min n k = k" "min (Suc n) k = k" by simp_all
    with Suc False show ?thesis by simp
  qed
qed

lemma volatility_nonneg: "0 \<le> dict_get stat_volatility stat 0.25"
  by (simp add: dict_get_def stat_volatility_def fl_nonneg)

lemma simulate_stat_returns:
  "0 \<le> p \<Longrightarrow> \<exists>v. simulate_stat draw stat p = Inr v"
proof -
  assume "0 \<le> p"
  then have "0 \<le> p * dict_get stat_volatility stat 0.25"
    using volatility_nonneg [of stat] by simp
  then have "\<not> fl (p * dict_get stat_volatility stat 0.25) < 0"
    using fl_nonneg by (simp add: not_less)
  then have "np_random_normal (draw stat) p (fl (p * dict_get stat_volatility stat 0.25)) = Inr (draw stat)"
    by (simp only: np_random_normal_def if_False)
  then show ?thesis
    by (simp only: simulate_stat_def Let_def bind_e.simps split: if_split) blast
qed

lemma simulate_loop_returns:
  "\<forall>c\<in>set cs. 0 \<le> pr c \<Longrightarrow> \<exists>s. simulate_loop draw pr cs acc = Inr s"
proof (induction cs arbitrary: acc)
  case Nil
  show ?case by simp
next
  case (Cons c cs)
  then obtain v where "simulate_stat draw c (pr c) = Inr v"
    using simulate_stat_returns [of "pr c" draw c] by auto
  with Cons show ?case by simp
qed

lemma simulate_team_performance_returns:
  "\<forall>c\<in>set stat_categories. 0 \<le> pr c \<Longrightarrow> \<exists>s. simulate_team_performance draw pr = Inr s"
  unfolding simulate_team_performance_def by (rule simulate_loop_returns)

lemma run_trial_returns:
  assumes "\<forall>c\<in>set stat_categories. 0 \<le> my c" "\<forall>c\<in>set stat_categories. 0 \<le> opp c"
  shows "\<exists>s'. run_trial rng my opp s i = Inr s'"
proof -
  obtain ms where ms: "simulate_team_performance (fst (rng i)) my = Inr ms"
    using simulate_team_performance_returns [OF assms(1)] by blast
  obtain os where os: "simulate_team_performance (snd (rng i)) opp = Inr os"
    using simulate_team_performance_returns [OF assms(2)] by blast
  show ?thesis by (simp add: run_trial_def ms os Let_def)
qed

lemma run_trials_returns:
  assumes "\<forall>c\<in>set stat_categories. 0 \<le> my c" "\<forall>c\<in>set stat_categories. 0 \<le> opp c"
  shows "\<exists>s'. run_trials rng my opp xs s = Inr s'"
proof (induction xs arbitrary: s)
  case Nil
  show ?case by simp
next
  case (Cons x xs)
  obtain s1 where "run_trial rng my opp s x = Inr s1"
    using run_trial_returns [OF assms] by blast
  with Cons show ?case by simp
qed

lemma run_simulations_returns:
  assumes "0 < n" "\<forall>c\<in>set stat_categories. 0 \<le> my c" "\<forall>c\<in>set stat_categories. 0 \<le> opp c"
  shows "\<exists>r. run_simulations n rng my opp = Inr r"
proof -
  obtain s where "run_trials rng my opp [0..<n] sim_state_init = Inr s"
    using run_trials_returns [OF assms(2,3)] by blast
  with assms(1) show ?thesis by (simp add: run_simulations_def Let_def)
qed

lemma run_simulations_Inr:
  assumes "run_simulations n rng my opp = Inr r"
  obtains s where "run_trials rng my opp [0..<n] sim_state_init = Inr s" and "0 < n"
    and "win_probability r = py_round_nd (fl (fl (my_wins s / real n) * 100)) 1"
    and "category_breakdown r = map (category_report n s) stat_categories"
    and "details r = simulation_details s"
proof -
  obtain s where s: "run_trials rng my opp [0..<n] sim_state_init = Inr s"
    using assms by (cases "run_trials rng my opp [0..<n] sim_state_init") (simp_all add: run_simulations_def)
  have n: "0 < n" using assms s by (cases "n = 0") (simp_all add: run_simulations_def)
  have r: "r = projr (run_simulations n rng my opp)" using assms by simp
  show thesis
  proof (rule that [OF s n])
    show "win_probability r = py_round_nd (fl (fl (my_wins s / real n) * 100)) 1"
      using n by (simp add: r run_simulations_def s Let_def)
    show "category_breakdown r = map (category_report n s) stat_categories"
      using n by (simp add: r run_simulations_def s Let_def)
    show "details r = simulation_details s"
      using n by (simp add: r run_simulations_def s Let_def)
  qed
qed

lemma counts_partition:
  "wins_count rng my opp n c + losses_count rng my opp n c + ties_count rng my opp n c = n"
  unfolding wins_count_def losses_count_def ties_count_def
  using outcome_partition [of c "\<lambda>i. sampled (fst (rng i)) my c" "\<lambda>i. sampled (snd (rng i)) opp c" "[0..<n]"]
  by simp

lemma map_of_map_key:
  "c \<in> set xs \<Longrightarrow> (\<And>x. fst (f x) = x) \<Longrightarrow> map_of (map f xs) c = Some (snd (f c))"
proof (induction xs)
  case Nil
  then show ?case by simp
next
  case (Cons x xs)
  obtain k v where kv: "f x = (k, v)" by (cases "f x")
  with Cons(3) [of x] have k: "k = x" by simp
  show ?case
  proof (cases "c = x")
    case True
    with kv k show ?thesis by simp
  next
    case False
    with Cons kv k show ?thesis by simp
  qed
qed

lemma category_report_fst: "fst (category_report n s c) = c"
  by (simp add: category_report_def Let_def)

text \<open>The percentages a category reports are close to the exact ones.\<close>

lemma count_percentage_close:
  assumes "0 < n" "k \<le> n"
  shows "\<bar>py_round_nd (fl (fl (real k / real n) * 100)) 1 - percentage (real k) n\<bar> \<le> 1 / 16"
  unfolding percentage_def using assms by (intro reported_close) simp_all

lemma percentage_sum:
  assumes "0 < n" "a + b + c = n"
  shows "percentage (real a) n + percentage (real b) n + percentage (real c) n = 100"
proof -
  have "real a + real b + real c = real n" using assms(2) by (metis of_nat_add)
  moreover have "real n \<noteq> 0" using assms(1) by simp
  ultimately show ?thesis by (simp add: percentage_def field_simps)
qed

lemma team_projections_empty: "get_team_projections [] = (\<lambda>_. 0)"
  by (simp add: get_team_projections_def team_acc_init_def)

lemma simulate_loop_zero: "simulate_loop draw (\<lambda>_. 0) cs (\<lambda>_. 0) = Inr (\<lambda>_. 0)"
  by (induction cs) (simp_all add: simulate_stat_def fun_upd_idem)

lemma sampled_zero: "sampled draw (\<lambda>_. 0) = (\<lambda>_. 0)"
  by (simp add: sampled_def simulate_team_performance_def simulate_loop_zero)

lemma won_by_equal: "won_by f f = 0"
  by (simp add: won_by_def beats_irrefl)

lemma trial_credit_equal: "trial_credit f f = 1 / 2"
  by (simp add: trial_credit_def won_by_equal)

lemma zero_run:
  assumes "0 < n"
  shows "\<exists>r. run_simulations n rng (\<lambda>_. 0) (\<lambda>_. 0) = Inr r
           \<and> win_probability r = 50
           \<and> category_breakdown r =
               map (\<lambda>c. (c, \<lparr>win_pct = 0, loss_pct = 0, tie_pct = 100, strength = ''weak''\<rparr>))
                 stat_categories
           \<and> expected_categories_won r = 0 \<and> expected_categories_lost r = 9
           \<and> expected_categories_tied r = 0"
proof -
  obtain r where r: "run_simulations n rng (\<lambda>_. 0) (\<lambda>_. 0) = Inr r"
    using run_simulations_returns [OF assms, of "\<lambda>_. 0" "\<lambda>_. 0" rng] by auto
  obtain s where s: "run_trials rng (\<lambda>_. 0) (\<lambda>_. 0) [0..<n] sim_state_init = Inr s"
    and wp: "win_probability r = py_round_nd (fl (fl (my_wins s / real n) * 100)) 1"
    and bd: "category_breakdown r = map (category_report n s) stat_categories"
    using r by (rule run_simulations_Inr)
  have n0: "real n \<noteq> 0" using assms by simp
  have "my_wins s = real n * (1 / 2)"
    using run_trials_Inr(5) [OF s]
    by (simp add: sampled_zero trial_credit_equal sim_state_init_def sum_list_triv)
  then have "my_wins s / real n = real n * (1 / 2) / real n"
    by (simp only:)
  also have "\<dots> = 1 / 2"
    using n0 by simp
  finally have "my_wins s / real n = 1 / 2" .
  then have "fl (fl (my_wins s / real n) * 100) = 50"
    by (simp add: fl_simps)
  then have p: "win_probability r = 50"
    by (simp add: wp fl_simps [unfolded One_nat_def])
  have cr: "category_report n s c = (c, \<lparr>win_pct = 0, loss_pct = 0, tie_pct = 100, strength = ''weak''\<rparr>)"
    if c: "c \<in> set stat_categories" for c
    using run_trials_Inr(2,3,4) [OF s c] n0
    by (simp add: category_report_def sampled_zero beats_irrefl sim_state_init_def
        fl_simps fl_simps [unfolded One_nat_def])
  have b: "category_breakdown r =
      map (\<lambda>c. (c, \<lparr>win_pct = 0, loss_pct = 0, tie_pct = 100, strength = ''weak''\<rparr>)) stat_categories"
    unfolding bd by (rule map_cong [OF refl]) (rule cr)
  have rr: "r = projr (run_simulations n rng (\<lambda>_. 0) (\<lambda>_. 0))" using r by simp
  have e: "expected_categories_won r = length (filter (\<lambda>(cat, data). win_pct data > 50) (category_breakdown r))"
    "expected_categories_lost r = length (filter (\<lambda>(cat, data). win_pct data < 50) (category_breakdown r))"
    "expected_categories_tied r = length (filter (\<lambda>(cat, data). win_pct data = 50) (category_breakdown r))"
    using assms by (simp_all add: rr run_simulations_def s Let_def)
  have "expected_categories_won r = 0" "expected_categories_lost r = 9" "expected_categories_tied r = 0"
    unfolding e b by (simp_all add: stat_categories_def)
  with r p b show ?thesis by blast
qed

lemma proj_default:
  "stats p = [] \<Longrightarrow> proj p c = dict_get default_projections c 0"
  by (simp add: proj_def get_sample_player_projections_def)

lemma proj_stats:
  assumes "stats p \<noteq> []"
  shows "proj p ''points'' = safe_get (stats p) ''points'' 0"
    and "proj p ''rebounds'' = safe_get (stats p) ''rebounds'' 0"
    and "proj p ''assists'' = safe_get (stats p) ''assists'' 0"
    and "proj p ''steals'' = safe_get (stats p) ''steals'' 0"
    and "proj p ''blocks'' = safe_get (stats p) ''blocks'' 0"
    and "proj p ''three_pointers_made'' = safe_get (stats p) ''three_pointers_made'' 0"
    and "proj p ''turnovers'' = safe_get (stats p) ''turnovers'' 0"
  using assms
  by (simp_all add: proj_def get_sample_player_projections_def Let_def dict_get_def [of "_ # _"])

lemma proj_counting:
  assumes "c \<in> set counting_stats"
  shows "proj p c = (if stats p = [] then dict_get default_projections c 0 else safe_get (stats p) c 0)"
proof (cases "stats p = []")
  case True
  then show ?thesis by (simp add: proj_default)
next
  case False
  from assms have "c = ''points'' \<or> c = ''rebounds'' \<or> c = ''assists'' \<or> c = ''steals''
    \<or> c = ''blocks'' \<or> c = ''three_pointers_made'' \<or> c = ''turnovers''"
    by (simp add: counting_stats_def)
  with proj_stats [OF False] False show ?thesis by auto
qed

lemma example_sim:
  "sampled (fst (example_rng i)) example_my_projections = (\<lambda>_. 0)(''points'' := 105, ''turnovers'' := 9)"
  "sampled (snd (example_rng i)) example_opponent_projections = (\<lambda>_. 0)(''points'' := 95, ''turnovers'' := 13)"
  by (simp_all add: sampled_def simulate_team_performance_def stat_categories_def simulate_stat_def
        example_rng_def example_my_projections_def example_opponent_projections_def
        np_random_normal_def dict_get_def stat_volatility_def fun_eq_iff fl_simps
        fl_nonneg fl_not_neg)

lemma example_returns:
  "\<exists>r. run_simulations 1 example_rng example_my_projections example_opponent_projections = Inr r"
  by (rule run_simulations_returns)
     (simp_all add: example_my_projections_def example_opponent_projections_def)

text \<open>
  What a team is given in a category when the simulation returns: 0 for a projection of 0,
  and otherwise the normal sample, clamped to [0.2, 1] for the two percentages and to
  [0, \<infinity>) for the counting categories.
\<close>

lemma simulate_loop_lookup:
  assumes "simulate_loop draw pr cs acc = Inr s"
  shows "c \<in> set cs \<Longrightarrow> simulate_stat draw c (pr c) = Inr (s c)"
    and "c \<notin> set cs \<Longrightarrow> s c = acc c"
  using assms
proof (induction cs arbitrary: acc)
  case Nil
  {
    case 1 then show ?case by simp
  next
    case 2 then show ?case by simp
  }
next
  case (Cons x cs)
  {
    case 1
    from 1(2) obtain v where v: "simulate_stat draw x (pr x) = Inr v"
      and rest: "simulate_loop draw pr cs (acc(x := v)) = Inr s"
      by (cases "simulate_stat draw x (pr x)") simp_all
    show ?case
    proof (cases "c \<in> set cs")
      case True
      then show ?thesis using Cons.IH(1) [OF _ rest] by simp
    next
      case False
      with 1(1) have cx: "c = x" by simp
      from Cons.IH(2) [OF False rest] have "s c = v" by (simp add: cx)
      with v cx show ?thesis by simp
    qed
  next
    case 2
    from 2(2) obtain v where v: "simulate_stat draw x (pr x) = Inr v"
      and rest: "simulate_loop draw pr cs (acc(x := v)) = Inr s"
      by (cases "simulate_stat draw x (pr x)") simp_all
    from 2(1) have "c \<notin> set cs" "c \<noteq> x" by simp_all
    with Cons.IH(2) [OF _ rest] show ?case by simp
  }
qed

lemma sampled_value:
  assumes "simulate_team_performance draw pr = Inr s" "c \<in> set stat_categories"
  shows "sampled draw pr c =
           (if pr c = 0 then 0
            else if c = ''fg_percentage'' \<or> c = ''ft_percentage''
                 then max (fl 0.2) (min 1 (draw c)) else max 0 (draw c))"
proof -
  have "simulate_stat draw c (pr c) = Inr (s c)"
    using assms simulate_loop_lookup(1) [of draw pr stat_categories "\<lambda>_. 0" s c]
    by (simp add: simulate_team_performance_def)
  then have "s c = (if pr c = 0 then 0
            else if c = ''fg_percentage'' \<or> c = ''ft_percentage''
                 then max (fl 0.2) (min 1 (draw c)) else max 0 (draw c))"
    by (auto simp add: simulate_stat_def np_random_normal_def Let_def split: if_splits)
  then show ?thesis by (simp add: sampled_def assms(1))
qed

subsection \<open>The stat line of a player\<close>

lemma fl_0_45: "fl (9 / 20) = 8106479329266893 / 18014398509481984"
  by (rule trans [OF fl_eval [where i = 54]]) (simp_all add: py_round_def)

lemma fl_0_45_double: "fl (fl (9 / 20)) = fl (9 / 20)"
  using fl_dyadic [of 8106479329266893 54] by (simp add: fl_0_45)

lemma fl_three_quarters: "fl (3 / 4) = 3 / 4"
  using fl_dyadic [of 3 2] by simp

lemma safe_get_stored: "fl d = d \<Longrightarrow> safe_get st key d = stored_or st key d"
  by (simp add: safe_get_def stored_or_def dict_get_def split: option.splits pyval.splits)

lemma default_line: "dict_get default_projections c 0 = default_line c"
  by (simp add: dict_get_def default_projections_def default_line_def)

lemma proj_stat_line: "proj p c = stat_line p c"
proof (cases "stats p = []")
  case True
  then show ?thesis by (simp add: proj_default default_line stat_line_def)
next
  case False
  have s: "safe_get (stats p) k 0 = stored_or (stats p) k 0"
    "safe_get (stats p) k (fl (9 / 20)) = stored_or (stats p) k (fl (9 / 20))"
    "safe_get (stats p) k (3 / 4) = stored_or (stats p) k (3 / 4)"
    "safe_get (stats p) k 10 = stored_or (stats p) k 10"
    "safe_get (stats p) k 3 = stored_or (stats p) k 3" for k
    by (rule safe_get_stored, simp add: fl_simps fl_0_45_double fl_three_quarters)+
  show ?thesis
    using False
    by (simp add: proj_def get_sample_player_projections_def Let_def dict_get_def [of "_ # _"]
          stat_line_def counting_stats_def s)
qed

subsection \<open>The trial credits\<close>

lemma trial_credit_bounds: "0 \<le> trial_credit a b" "trial_credit a b \<le> 1"
  by (simp_all add: trial_credit_def)

lemma sum_list_unit_bounds:
  "(\<And>x. 0 \<le> f x \<and> f x \<le> 1) \<Longrightarrow>
     0 \<le> sum_list (map f xs) \<and> sum_list (map f xs) \<le> real (length xs)"
proof (induction xs)
  case Nil
  show ?case by simp
next
  case (Cons x xs)
  from Cons.prems [of x] Cons.IH [OF Cons.prems] show ?case by simp
qed

lemma credit_sum_bounds:
  "0 \<le> credit_sum rng my opp n" "credit_sum rng my opp n \<le> real n"
  unfolding credit_sum_def
  using sum_list_unit_bounds
    [of "\<lambda>i. trial_credit (sampled (fst (rng i)) my) (sampled (snd (rng i)) opp)" "[0..<n]"]
  by (simp_all add: trial_credit_bounds)

lemma credit_percentage_close:
  assumes "0 < n"
  shows "\<bar>py_round_nd (fl (fl (credit_sum rng my opp n / real n) * 100)) 1
           - percentage (credit_sum rng my opp n) n\<bar> \<le> 1 / 16"
  unfolding percentage_def
  using assms credit_sum_bounds [of rng my opp n] by (intro reported_close) simp_all

lemma win_probability_credits:
  assumes "run_simulations n rng my opp = Inr r"
  shows "win_probability r = py_round_nd (fl (fl (credit_sum rng my opp n / real n) * 100)) 1"
    and "0 < n"
proof -
  obtain s where s: "run_trials rng my opp [0..<n] sim_state_init = Inr s" and n: "0 < n"
    and wp: "win_probability r = py_round_nd (fl (fl (my_wins s / real n) * 100)) 1"
    using assms by (rule run_simulations_Inr)
  have "my_wins s = credit_sum rng my opp n"
    using run_trials_Inr(5) [OF s] by (simp add: sim_state_init_def credit_sum_def)
  with wp show "win_probability r = py_round_nd (fl (fl (credit_sum rng my opp n / real n) * 100)) 1"
    by simp
  show "0 < n" by (rule n)
qed

subsection \<open>The example with 5015 wins in 10000 trials\<close>

lemma example_split_sim:
  "sampled (fst (example_split_rng i)) example_my_projections =
     (if i < 5015 then (\<lambda>_. 0)(''points'' := 105, ''turnovers'' := 9)
      else (\<lambda>_. 0)(''points'' := 95, ''turnovers'' := 13))"
  "sampled (snd (example_split_rng i)) example_opponent_projections =
     (if i < 5015 then (\<lambda>_. 0)(''points'' := 95, ''turnovers'' := 13)
      else (\<lambda>_. 0)(''points'' := 105, ''turnovers'' := 9))"
  by (simp_all add: sampled_def simulate_team_performance_def stat_categories_def simulate_stat_def
        example_split_rng_def example_my_projections_def example_opponent_projections_def
        np_random_normal_def dict_get_def stat_volatility_def fun_eq_iff fl_simps
        fl_nonneg fl_not_neg)

lemma example_won_by:
  "won_by ((\<lambda>_. 0)(''points'' := 105, ''turnovers'' := 9)) ((\<lambda>_. 0)(''points'' := 95, ''turnovers'' := 13)) = 2"
  "won_by ((\<lambda>_. 0)(''points'' := 95, ''turnovers'' := 13)) ((\<lambda>_. 0)(''points'' := 105, ''turnovers'' := 9)) = 0"
  by (simp_all add: won_by_def beats_def stat_categories_def)

lemma sum_list_threshold:
  "sum_list (map (\<lambda>i. if i < k then 1 else 0) [0..<n]) = real (min k n)"
  by (induction n) (simp_all add: min_def)

lemma example_split_credits:
  "credit_sum example_split_rng example_my_projections example_opponent_projections 10000 = 5015"
proof -
  have "trial_credit (sampled (fst (example_split_rng i)) example_my_projections)
          (sampled (snd (example_split_rng i)) example_opponent_projections) =
        (if i < 5015 then 1 else 0)" for i
    by (simp add: example_split_sim trial_credit_def example_won_by)
  then show ?thesis
    by (simp add: credit_sum_def sum_list_threshold)
qed

lemma example_split_returns:
  "\<exists>r. run_simulations 10000 example_split_rng example_my_projections
          example_opponent_projections = Inr r"
  by (rule run_simulations_returns)
     (simp_all add: example_my_projections_def example_opponent_projections_def)

lemma fl_5015: "fl (5015 / 10000) = 4517110426252607 / 9007199254740992"
  by (rule trans [OF fl_eval [where i = 53]]) (simp_all add: py_round_def)

lemma fl_5015_percent: "fl (4517110426252607 / 9007199254740992 * 100) = 3528992520509849 / 70368744177664"
  by (rule trans [OF fl_eval [where i = 47]]) (simp_all add: py_round_def)

lemma round_5015_percent: "round_decimal (3528992520509849 / 70368744177664) 1 = 501 / 10"
  by (simp add: round_decimal_def py_round_def)

lemma example_split_reported:
  "py_round_nd (fl (fl (5015 / 10000) * 100)) 1 = fl (501 / 10)"
  by (simp only: py_round_nd_def fl_5015 fl_5015_percent round_5015_percent)

lemma example_split_exact: "rounded_percentage 5015 10000 = 502 / 10"
  by (simp add: rounded_percentage_def percentage_def round_decimal_def py_round_def)

lemma fl_50_1: "fl (501 / 10) \<noteq> 502 / 10"
proof
  assume "fl (501 / 10) = 502 / 10"
  with fl_near [of "501 / 10"] have "\<bar>502 / 10 - 501 / 10\<bar> \<le> (1 :: real) / 2 ^ 42" by simp
  then show False by simp
qed

subsection \<open>The example of the two shooters\<close>

lemma example_shooters_proj:
  "proj example_sure_shooter ''fg_percentage'' = 1"
  "proj example_sure_shooter ''fg_attempts'' = 10"
  "proj example_volume_shooter ''fg_percentage'' = fl 0.45"
  "proj example_volume_shooter ''fg_attempts'' = 10"
  by (simp_all add: proj_stat_line stat_line_def stored_or_def example_sure_shooter_def
        example_volume_shooter_def counting_stats_def fl_simps fl_0_45_double)

lemma fl_4_5: "fl (40532396646334465 / 9007199254740992) = 9 / 2"
  by (rule trans [OF fl_eval [where i = 50]]) (simp_all add: py_round_def)

lemma fl_0_45_times_10: "fl (fl (9 / 20) * 10) = 9 / 2"
  by (simp add: fl_0_45 fl_4_5)

lemma fl_0_725: "fl (29 / 40) = 6530219459687219 / 9007199254740992"
  by (rule trans [OF fl_eval [where i = 53]]) (simp_all add: py_round_def)

lemma fl_1_45: "fl (26120877838748877 / 18014398509481984) = 6530219459687219 / 4503599627370496"
  by (rule trans [OF fl_eval [where i = 52]]) (simp_all add: py_round_def)

lemma fl_mean_0_725: "fl (fl (1 + fl 0.45) / 2) = fl 0.725"
  using fl_dyadic [of 6530219459687219 53] by (simp add: fl_0_45 fl_1_45 fl_0_725)

lemma example_shooters_team:
  "get_team_projections [example_sure_shooter, example_volume_shooter] ''fg_percentage'' = fl 0.725"
proof -
  have pos: "0 < fl (9 / 20)" by (simp add: fl_0_45)
  have "fl (29 / 2 / 20) = fl (29 / 40)" by simp
  then show ?thesis
    using pos
    by (simp add: team_fg float_weighted_percentage_def float_sum_def example_shooters_proj
          fl_0_45_times_10 fl_simps)
qed

lemma example_shooters_recorded:
  "map (\<lambda>p. (recorded p ''fg_percentage'', recorded p ''field_goal_attempts''))
     [example_sure_shooter, example_volume_shooter] = [(1, 1), (fl 0.45, 20)]"
  by (simp add: recorded_def dict_get_def example_sure_shooter_def example_volume_shooter_def)

lemma example_shooters_weighted:
  "\<bar>weighted_percentage [(1, 1), (fl 0.45, 20)] - 10 / 21\<bar> \<le> 1 / 10 ^ 15"
  by (simp add: weighted_percentage_def fl_0_45)

lemma example_shooters_gap: "1 / 5 < \<bar>fl 0.725 - weighted_percentage [(1, 1), (fl 0.45, 20)]\<bar>"
  by (simp add: weighted_percentage_def fl_0_45 fl_0_725)

subsection \<open>The example of a player without stats\<close>

lemma fl_0_45_times_8: "fl (fl (9 / 20) * 8) = fl (9 / 20) * 8"
  using fl_dyadic [of 8106479329266893 51] by (simp add: fl_0_45)

lemma example_no_stats_team:
  "get_team_projections [example_no_stats_player] ''points'' = 10"
  "get_team_projections [example_no_stats_player] ''fg_percentage'' = fl 0.45"
proof -
  have p: "''points'' \<in> set counting_stats" by (simp add: counting_stats_def)
  show "get_team_projections [example_no_stats_player] ''points'' = 10"
    by (simp add: team_counting [OF p] float_sum_def proj_stat_line stat_line_def
          default_line_def example_no_stats_player_def fl_simps)
  have l: "stat_line example_no_stats_player ''fg_percentage'' = fl 0.45"
    "stat_line example_no_stats_player ''fg_attempts'' = 8"
    by (simp_all add: stat_line_def default_line_def example_no_stats_player_def)
  have pos: "0 < fl (9 / 20)" by (simp add: fl_0_45)
  have "fl (fl (9 / 20) * 8 / 8) = fl (9 / 20)" by (simp add: fl_0_45_double)
  then show "get_team_projections [example_no_stats_player] ''fg_percentage'' = fl 0.45"
    using pos
    by (simp add: team_fg float_weighted_percentage_def float_sum_def proj_stat_line l
          fl_0_45_times_8 fl_simps)
qed

subsection \<open>The example of a scorer and a player without stats\<close>

lemma fl_3_6: "fl (8106479329266893 / 2251799813685248) = 8106479329266893 / 2251799813685248"
  using fl_dyadic [of 8106479329266893 51] by simp

lemma example_scorer_makes: "fl (18239578490850509 / 2251799813685248) = 4559894622712627 / 562949953421312"
  by (rule trans [OF fl_eval [where i = 49]]) (simp_all add: py_round_def)

lemma example_scorer_team: "fl (4559894622712627 / 10133099161583616) = 2026619832316723 / 4503599627370496"
  by (rule trans [OF fl_eval [where i = 54]]) (simp_all add: py_round_def)
section \<open>Lemmas about the credit\<close>

lemma num_stat_value:
  "map_of st k \<noteq> Some PyNone \<Longrightarrow> num (dict_get st k (PyNum 0)) = Inr (stat_value st k)"
  by (cases "map_of st k"; cases "the (map_of st k)")
     (simp_all add: dict_get_def stat_value_def)

lemma composite_score_numeric:
  assumes "numeric_stats st"
  shows "\<exists>score. composite_score st = Inr score"
proof -
  have k: "map_of st ''points'' \<noteq> Some PyNone" "map_of st ''rebounds'' \<noteq> Some PyNone"
    "map_of st ''assists'' \<noteq> Some PyNone" "map_of st ''steals'' \<noteq> Some PyNone"
    "map_of st ''blocks'' \<noteq> Some PyNone" "map_of st ''three_pointers_made'' \<noteq> Some PyNone"
    "map_of st ''turnovers'' \<noteq> Some PyNone" "map_of st ''fg_percentage'' \<noteq> Some PyNone"
    "map_of st ''ft_percentage'' \<noteq> Some PyNone"
    using assms by (simp_all add: numeric_stats_def credit_keys_def)
  show ?thesis
    unfolding composite_score_def Let_def
    by (simp only: k [THEN num_stat_value] bind_e.simps) blast
qed

text \<open>
  On stats whose values are all numbers the credit is returned and lies in [1, 70], whatever
  the numbers and the minutes.
\<close>

lemma credit_in_range_for_numeric_stats:
  assumes "numeric_stats st"
  shows "\<exists>c. calculate_player_credit st minutes = Inr c \<and> 1 \<le> c \<and> c \<le> 70"
proof -
  obtain score where "composite_score st = Inr score"
    using composite_score_numeric [OF assms] by blast
  then show ?thesis
    by (simp add: calculate_player_credit_def Let_def)
qed

text \<open>
  The credit is computed in floats. For 27.5 points at 12 minutes the tier value is 17.5 and
  the minutes multiplier 27/35; their product is 13.5 on the reals, which rounds to 14, and
  13.499999999999998 in floats, which rounds to the credit 13.
\<close>

lemma example_bench_score: "composite_score example_bench_stats = Inr (55 / 2)"
  by (simp add: composite_score_def example_bench_stats_def dict_get_def Let_def fl_simps)

lemma example_bench_tier: "tier_credit (55 / 2) = 35 / 2"
  by (simp add: tier_credit_def fl_simps)

lemma fl_bench_1: "fl (3 / 5) = 5404319552844595 / 9007199254740992"
  by (rule trans [OF fl_eval [where i = 53]]) (simp_all add: py_round_def)

lemma fl_bench_2: "fl (3 / 7) = 7720456504063707 / 18014398509481984"
  by (rule trans [OF fl_eval [where i = 54]]) (simp_all add: py_round_def)

lemma fl_bench_3: "fl (2 / 5) = 3602879701896397 / 9007199254740992"
  by (rule trans [OF fl_eval [where i = 54]]) (simp_all add: py_round_def)

lemma fl_bench_4: "fl (27815876027865148009984801763679 / 162259276829213363391578010288128) = 3088182601625483 / 18014398509481984"
  by (rule trans [OF fl_eval [where i = 55]]) (simp_all add: py_round_def)

lemma fl_bench_5: "fl (13896821707314673 / 18014398509481984) = 868551356707167 / 1125899906842624"
  by (rule trans [OF fl_eval [where i = 53]]) (simp_all add: py_round_def)

lemma fl_bench_6: "fl (30399297484750845 / 2251799813685248) = 7599824371187711 / 562949953421312"
  by (rule trans [OF fl_eval [where i = 49]]) (simp_all add: py_round_def)

lemma example_bench_credit: "calculate_player_credit example_bench_stats 12 = Inr 13"
  by (simp add: calculate_player_credit_def example_bench_score example_bench_tier Let_def
        fl_bench_1 fl_bench_2 fl_bench_3 fl_bench_4 fl_bench_5 fl_bench_6 py_round_def)
     (simp add: example_bench_stats_def)

lemma example_bench_exact:
  "max 1 (min 70 (py_round (tier_function (55 / 2) * minutes_multiplier 12))) = 14"
  by (simp add: tier_function_def tier_bands_def minutes_multiplier_def py_round_def)
section \<open>Lemmas about the recommendations\<close>

lemma bind_e_Inr: "bind_e m f = Inr y \<Longrightarrow> \<exists>x. m = Inr x \<and> f x = Inr y"
  by (cases m) simp_all

lemmas ex_defs = example_center_a_def example_center_b_def example_guard_a_def example_guard_b_def example_statless_def

text \<open>The float literals and products that the examples meet.\<close>

lemma fl_rec_1: "fl (1 / 100) = 5764607523034235 / 576460752303423488"
  by (rule trans [OF fl_eval [where i = 59]]) (simp_all add: py_round_def)

lemma fl_rec_2: "fl (21 / 20) = 4728779608739021 / 4503599627370496"
  by (rule trans [OF fl_eval [where i = 52]]) (simp_all add: py_round_def)

lemma fl_rec_3: "fl (23643898043695105 / 4503599627370496) = 21 / 4"
  by (rule trans [OF fl_eval [where i = 50]]) (simp_all add: py_round_def)

lemma fl_rec_4: "fl (14186338826217063 / 2251799813685248) = 1773292353277133 / 281474976710656"
  by (rule trans [OF fl_eval [where i = 50]]) (simp_all add: py_round_def)

lemmas fl_rec = fl_rec_1 fl_rec_2 fl_rec_3 fl_rec_4

lemma ex_values:
  "calculate_player_value example_center_a = Inr 5"
  "calculate_player_value example_center_b = Inr 6"
  "calculate_player_value example_guard_a = Inr 10"
  "calculate_player_value example_guard_b = Inr 12"
  "calculate_player_value example_statless = Inr 0"
  by (simp_all add: calculate_player_value_def ex_defs dict_get_def percentage_value_def Let_def
        fl_simps)

lemma py_round_nd_of_int1: "\<bar>k\<bar> < 2 ^ 53 \<Longrightarrow> py_round_nd (of_int k) (Suc 0) = of_int k"
  using py_round_nd_of_int [of k] by simp

lemma rounds: "py_round_nd 5 (Suc 0) = 5" "py_round_nd 6 (Suc 0) = 6" "py_round_nd 10 (Suc 0) = 10" "py_round_nd 11 (Suc 0) = 11"
 "py_round_nd 0 (Suc 0) = 0" "py_round_nd 1 (Suc 0) = 1"
  using py_round_nd_of_int1 [of 5] py_round_nd_of_int1 [of 6] py_round_nd_of_int1 [of 10] py_round_nd_of_int1 [of 11] py_round_nd_of_int1 [of 0] py_round_nd_of_int1 [of 1]
  by simp_all

lemma add_unique_Nil: "add_unique [] acc = acc"
  by (simp add: add_unique_def)

lemma add_unique_Cons:
  "add_unique (r # recs) acc =
     add_unique recs
       (if get_recommendation_key r \<notin> snd acc
        then (fst acc @ [r], insert (get_recommendation_key r) (snd acc)) else acc)"
  by (cases acc) (simp add: add_unique_def Let_def)

lemma add_unique_keeps: "unique_keys acc \<Longrightarrow> unique_keys (add_unique recs acc)"
proof (induction recs arbitrary: acc)
  case Nil
  then show ?case by (simp add: add_unique_Nil)
next
  case (Cons r recs)
  have "unique_keys (if get_recommendation_key r \<notin> snd acc
        then (fst acc @ [r], insert (get_recommendation_key r) (snd acc)) else acc)"
    using Cons.prems by (auto simp add: unique_keys_def)
  then show ?case
    unfolding add_unique_Cons by (rule Cons.IH)
qed

lemma unique_keys_init: "unique_keys ([], {})"
  by (simp add: unique_keys_def)

lemma distinct_map_insort_key:
  "distinct (map g (insort_key f x xs)) = (g x \<notin> g ` set xs \<and> distinct (map g xs))"
  by (induction xs) (auto simp add: set_insort_key)

lemma distinct_map_sort_key: "distinct (map g (sort_key f xs)) = distinct (map g xs)"
  by (induction xs) (simp_all add: distinct_map_insort_key)

lemma sorted_descending:
  fixes f :: "'a \<Rightarrow> real"
  shows "sorted_wrt (\<lambda>a b. a \<ge> b) (map f (sort_key (\<lambda>x. - f x) xs))"
proof -
  have "sorted (map (\<lambda>x. - f x) (sort_key (\<lambda>x. - f x) xs))" by (rule sorted_sort_key)
  then show ?thesis by (simp add: sorted_wrt_map)
qed

lemma slice_to_take: "\<exists>j. slice_to xs m = take j xs"
  by (auto simp add: slice_to_def)

lemma ranked_list:
  assumes "unique_keys acc"
  shows "distinct (map get_recommendation_key (slice_to (sort_key (\<lambda>r. - impact_score r) (fst acc)) m))"
    and "sorted_wrt (\<lambda>a b. a \<ge> b) (map impact_score (slice_to (sort_key (\<lambda>r. - impact_score r) (fst acc)) m))"
    and "0 \<le> m \<Longrightarrow> int (length (slice_to (sort_key (\<lambda>r. - impact_score r) (fst acc)) m)) \<le> m"
proof -
  obtain j where j: "slice_to (sort_key (\<lambda>r. - impact_score r) (fst acc)) m =
      take j (sort_key (\<lambda>r. - impact_score r) (fst acc))"
    using slice_to_take by blast
  have "distinct (map get_recommendation_key (sort_key (\<lambda>r. - impact_score r) (fst acc)))"
    using assms by (simp add: distinct_map_sort_key unique_keys_def)
  then show "distinct (map get_recommendation_key (slice_to (sort_key (\<lambda>r. - impact_score r) (fst acc)) m))"
    unfolding j by (simp add: take_map [symmetric])
  show "sorted_wrt (\<lambda>a b. a \<ge> b) (map impact_score (slice_to (sort_key (\<lambda>r. - impact_score r) (fst acc)) m))"
    unfolding j using sorted_descending [of impact_score "fst acc"]
    by (simp add: take_map [symmetric])
  show "0 \<le> m \<Longrightarrow> int (length (slice_to (sort_key (\<lambda>r. - impact_score r) (fst acc)) m)) \<le> m"
    by (simp add: slice_to_def)
qed

lemma recommendations_body_Inr:
  assumes "recommendations_body los stored roster fas n = Inr recs"
  shows "\<exists>acc. unique_keys acc \<and> recs = slice_to (sort_key (\<lambda>r. - impact_score r) (fst acc)) n"
proof -
  obtain s where s: "analyze_single_swaps roster fas = Inr s"
    using assms by (cases "analyze_single_swaps roster fas") (simp_all add: recommendations_body_def)
  obtain m where m: "analyze_multi_player_swaps los roster fas = Inr m"
    using assms s by (cases "analyze_multi_player_swaps los roster fas")
      (simp_all add: recommendations_body_def Let_def)
  obtain b where b: "find_budget_upgrades roster fas = Inr b"
    using assms s m by (cases "find_budget_upgrades roster fas")
      (simp_all add: recommendations_body_def Let_def)
  obtain t where t: "(if stored \<noteq> [] then analyze_trade_opportunities roster stored else Inr []) = Inr t"
    using assms s m b
    by (cases "if stored \<noteq> [] then analyze_trade_opportunities roster stored else Inr []")
      (simp_all add: recommendations_body_def Let_def)
  let ?acc = "add_unique t (add_unique b (add_unique m (add_unique s ([], {}))))"
  have "unique_keys ?acc"
    by (intro add_unique_keeps unique_keys_init)
  moreover have "recs = slice_to (sort_key (\<lambda>r. - impact_score r) (fst ?acc)) n"
    using assms unfolding recommendations_body_def Let_def s m b t bind_e.simps by simp
  ultimately show ?thesis by blast
qed

lemma sample_ranked:
  "distinct (map get_recommendation_key get_sample_recommendations)"
  "sorted_wrt (\<lambda>a b. a \<ge> b) (map impact_score get_sample_recommendations)"
  "length get_sample_recommendations = 1"
  by (simp_all add: get_sample_recommendations_def)

lemma combinations_2: "combinations xs 2 = combinations xs (Suc (Suc 0))"
  by (simp add: numeral_2_eq_2)

lemma combinations_3: "combinations xs 3 = combinations xs (Suc (Suc (Suc 0)))"
  by (simp add: numeral_3_eq_3)

lemmas cat_defs = analyze_category_improvements_def rec_categories_def dict_get_def compare_values_def
     add_improvement_def add_decline_def add_no_change_def category_changes_init_def Let_def

lemma example_changes:
  "analyze_category_improvements example_center_a example_guard_a =
     Inr \<lparr>cc_all_categories =
            [Plus ''PTS'' 5, NoChange ''REB'', NoChange ''AST'', NoChange ''STL'',
             NoChange ''BLK'', NoChange ''3PM'', NoChange ''FG%'', NoChange ''FT%'',
             NoChange ''TO''],
          cc_improvements = [Plus ''PTS'' 5], cc_declines = []\<rparr>"
  "analyze_category_improvements example_center_b example_guard_b =
     Inr \<lparr>cc_all_categories =
            [Plus ''PTS'' 6, NoChange ''REB'', NoChange ''AST'', NoChange ''STL'',
             NoChange ''BLK'', NoChange ''3PM'', NoChange ''FG%'', NoChange ''FT%'',
             NoChange ''TO''],
          cc_improvements = [Plus ''PTS'' 6], cc_declines = []\<rparr>"
  "analyze_category_improvements example_center_a example_center_b =
     Inr \<lparr>cc_all_categories =
            [Plus ''PTS'' 1, NoChange ''REB'', NoChange ''AST'', NoChange ''STL'',
             NoChange ''BLK'', NoChange ''3PM'', NoChange ''FG%'', NoChange ''FT%'',
             NoChange ''TO''],
          cc_improvements = [Plus ''PTS'' 1], cc_declines = []\<rparr>"
  "\<exists>cc. analyze_category_improvements example_statless example_guard_a = Inr cc"
  by (simp_all add: cat_defs ex_defs rounds fl_simps fl_rec)

lemma example_sums:
  "sum_values [example_center_a, example_center_b] = Inr 11"
  "sum_values [example_guard_a, example_guard_b] = Inr 22"
  by (simp_all add: sum_values_def ex_values fl_simps)

lemma example_positions:
  "position_or d example_center_a = ''C''" "position_or d example_center_b = ''C''"
  "position_or d example_guard_a = ''PG''" "position_or d example_guard_b = ''PG''"
  "position_or d example_statless = d"
  "name example_center_a = ''Center A''" "name example_center_b = ''Center B''"
  "name example_guard_a = ''Guard A''" "name example_guard_b = ''Guard B''"
  by (simp_all add: position_or_def ex_defs)

lemma example_multi_swap:
  "analyze_multi_player_swaps remdups [example_center_a, example_center_b]
     [example_guard_a, example_guard_b] = Inr [example_unbalanced_swap]"
  by (simp add: analyze_multi_player_swaps_def combinations_2 combinations_3 dict_get_def
        example_sums pairwise_changes_def example_changes example_positions listed_player_def
        swap_label_def rounds example_unbalanced_swap_def Let_def fl_simps)

lemma example_no_multi_swap:
  "analyze_multi_player_swaps los [p] [q] = Inr []"
  by (simp add: analyze_multi_player_swaps_def combinations_2 combinations_3 dict_get_def Let_def)

lemma example_single:
  "analyze_single_swaps [example_center_a] [example_center_b] = Inr [example_single_swap]"
  by (simp add: analyze_single_swaps_def ex_values sorted_by_key_def sorted_by_key_reverse_def
        check_position_compatibility_def example_positions example_changes listed_player_def
        rounds example_single_swap_def Let_def fl_simps)

lemma example_budget:
  "find_budget_upgrades [example_center_a] [example_center_b] = Inr [example_value_play]"
  by (simp add: find_budget_upgrades_def budget_upgrade_step_def ex_values
        check_position_compatibility_def example_positions example_changes listed_player_def
        rounds example_value_play_def Let_def fl_simps fl_rec)

lemma example_budget_raises:
  "find_budget_upgrades [example_statless] [example_guard_a] = Inl ZeroDivisionError"
proof -
  obtain cc where "analyze_category_improvements example_statless example_guard_a = Inr cc"
    using example_changes(4) by blast
  then show ?thesis
    by (simp add: find_budget_upgrades_def budget_upgrade_step_def ex_values
        check_position_compatibility_def example_positions Let_def fl_simps)
qed

lemma body_raises:
  assumes "find_budget_upgrades roster fas = Inl e"
  shows "\<exists>e'. recommendations_body los stored roster fas n = Inl e'"
proof (cases "analyze_single_swaps roster fas")
  case (Inl a)
  then show ?thesis by (simp add: recommendations_body_def)
next
  case s: (Inr a)
  show ?thesis
  proof (cases "analyze_multi_player_swaps los roster fas")
    case (Inl b)
    with s show ?thesis by (simp add: recommendations_body_def Let_def)
  next
    case (Inr b)
    with s assms show ?thesis by (simp add: recommendations_body_def Let_def)
  qed
qed

lemma example_keys:
  "get_recommendation_key example_single_swap = ([''Center A''], [''Center B''])"
  "get_recommendation_key example_value_play = ([''Center A''], [''Center B''])"
  by (simp_all add: get_recommendation_key_def example_single_swap_def example_value_play_def)

lemma example_entry:
  "snd (get_recommendations_for_roster remdups [] [example_center_a] [example_center_b] [] 5 None)
     = [example_single_swap]"
  by (simp add: get_recommendations_for_roster_def recommendations_body_def example_single
        example_no_multi_swap example_budget add_unique_Cons add_unique_Nil example_keys Let_def
        slice_to_def)

lemma multi_swaps_inner_bare:
  "multi_swaps_inner los k th dc dv fcs recs = Inr (b, recs') \<Longrightarrow> bare recs \<Longrightarrow> bare recs'"
proof (induction fcs arbitrary: recs)
  case Nil
  then show ?case by simp
next
  case (Cons ac fcs)
  from Cons.prems(1) obtain av where av: "sum_values ac = Inr av"
    by (auto dest: bind_e_Inr)
  show ?case
  proof (cases "fl (av - dv) > th")
    case False
    with Cons.prems av have "multi_swaps_inner los k th dc dv fcs recs = Inr (b, recs')"
      by (simp add: Let_def)
    then show ?thesis using Cons.IH Cons.prems(2) by blast
  next
    case True
    with Cons.prems(1) av obtain ai ad where pc: "pairwise_changes dc ac = Inr (ai, ad)"
      by (cases "pairwise_changes dc ac") (auto simp add: Let_def)
    define r where "r = \<lparr>rec_type = ''multi_swap'', swap_type = Some (swap_label k),
                      trade_partner = None,
                      drop_players = map (\<lambda>p. listed_player p None) dc,
                      add_players = map (\<lambda>p. listed_player p None) ac,
                      impact_score = py_round_nd (fl (av - dv)) 1,
                      all_categories = Some [],
                      category_improvements = take 5 (los ai),
                      category_declines = take 3 (los ad),
                      priority = (if fl (av - dv) > fl (th * 2) then ''high'' else ''medium'')\<rparr>"
    have br: "bare (recs @ [r])" using Cons.prems(2) by (simp add: bare_def r_def)
    show ?thesis
    proof (cases "length (recs @ [r]) \<ge> 30")
      case l: True
      with Cons.prems(1) av True pc have "recs' = recs @ [r]"
        by (simp add: Let_def r_def)
      with br show ?thesis by simp
    next
      case l: False
      with Cons.prems(1) av True pc
      have "multi_swaps_inner los k th dc dv fcs (recs @ [r]) = Inr (b, recs')"
        by (simp add: Let_def r_def)
      then show ?thesis using Cons.IH br by blast
    qed
  qed
qed

lemma multi_swaps_outer_bare:
  "multi_swaps_outer los k th rcs fcs recs = Inr (b, recs') \<Longrightarrow> bare recs \<Longrightarrow> bare recs'"
proof (induction rcs arbitrary: recs)
  case Nil
  then show ?case by simp
next
  case (Cons dc rcs)
  from Cons.prems(1) obtain dv where dv: "sum_values dc = Inr dv"
    by (auto dest: bind_e_Inr)
  with Cons.prems(1) obtain b1 recs1 where
    i: "multi_swaps_inner los k th dc dv fcs recs = Inr (b1, recs1)"
    by (cases "multi_swaps_inner los k th dc dv fcs recs") auto
  have b1: "bare recs1" using multi_swaps_inner_bare [OF i Cons.prems(2)] .
  show ?case
  proof (cases b1)
    case True
    with Cons.prems(1) dv i have "recs' = recs1" by simp
    with b1 show ?thesis by simp
  next
    case False
    with Cons.prems(1) dv i have "multi_swaps_outer los k th rcs fcs recs1 = Inr (b, recs')"
      by simp
    then show ?thesis using Cons.IH b1 by blast
  qed
qed

lemma multi_swaps_sizes_bare:
  "multi_swaps_sizes los roster fas ks recs = Inr recs' \<Longrightarrow> bare recs \<Longrightarrow> bare recs'"
proof (induction ks arbitrary: recs)
  case Nil
  then show ?case by simp
next
  case (Cons k ks)
  let ?mc = "dict_get [(2, 50), (3, 30)] k (10 :: nat)"
  let ?th = "dict_get [(2, 0.5), (3, 1.0)] k (0.5 :: real)"
  from Cons.prems(1) obtain b1 recs1 where
    o: "multi_swaps_outer los k ?th (take ?mc (combinations roster k))
          (take ?mc (combinations (take 50 fas) k)) recs = Inr (b1, recs1)"
    by (cases "multi_swaps_outer los k ?th (take ?mc (combinations roster k))
          (take ?mc (combinations (take 50 fas) k)) recs") (auto simp add: Let_def)
  have b1: "bare recs1" using multi_swaps_outer_bare [OF o Cons.prems(2)] .
  show ?case
  proof (cases b1)
    case True
    with Cons.prems(1) o have "recs' = recs1" by (simp add: Let_def)
    with b1 show ?thesis by simp
  next
    case False
    with Cons.prems(1) o have "multi_swaps_sizes los roster fas ks recs1 = Inr recs'"
      by (simp add: Let_def)
    then show ?thesis using Cons.IH b1 by blast
  qed
qed

lemma multi_swaps_all_bare:
  "analyze_multi_player_swaps los roster fas = Inr recs \<Longrightarrow> bare recs"
proof -
  assume "analyze_multi_player_swaps los roster fas = Inr recs"
  then have "multi_swaps_sizes los roster fas [2, 3] [] = Inr recs"
    by (simp only: analyze_multi_player_swaps_def)
  moreover have "bare []" by (simp add: bare_def)
  ultimately show ?thesis by (rule multi_swaps_sizes_bare)
qed

lemma compare_values_names:
  "map category_name (cc_all_categories (compare_values k n ip d a cc)) =
     map category_name (cc_all_categories cc) @ [n]"
  by (simp add: compare_values_def add_improvement_def add_decline_def add_no_change_def Let_def)

lemma fold_e_appends:
  assumes "\<And>x s s'. f x s = Inr s' \<Longrightarrow> g s' = g s @ [h x]"
  shows "fold_e f xs s = Inr s' \<Longrightarrow> g s' = g s @ map h xs"
proof (induction xs arbitrary: s)
  case Nil
  then show ?case by simp
next
  case (Cons x xs)
  then obtain s1 where s1: "f x s = Inr s1" and r: "fold_e f xs s1 = Inr s'"
    by (cases "f x s") simp_all
  from Cons.IH [OF r] assms [OF s1] show ?case by simp
qed

lemma analyze_category_improvements_names:
  assumes "analyze_category_improvements d a = Inr cc"
  shows "map category_name (cc_all_categories cc) = category_names"
proof -
  let ?f = "\<lambda>(stat_key, stat_name, multiplier, is_percentage) cc.
                bind_e (num (dict_get (stats d) stat_key (PyNum 0))) (\<lambda>drop_val.
                bind_e (num (dict_get (stats a) stat_key (PyNum 0))) (\<lambda>add_val.
                  Inr (compare_values stat_key stat_name is_percentage drop_val add_val cc)))"
  have step: "map category_name (cc_all_categories s') =
      map category_name (cc_all_categories s) @ [fst (snd x)]" if "?f x s = Inr s'"
    for x :: "string \<times> string \<times> real \<times> bool" and s s'
  proof -
    obtain k n m ip where x: "x = (k, n, m, ip)" by (cases x) auto
    from that obtain dv where dv: "num (dict_get (stats d) k (PyNum 0)) = Inr dv"
      unfolding x by (cases "num (dict_get (stats d) k (PyNum 0))") simp_all
    from that dv obtain av where av: "num (dict_get (stats a) k (PyNum 0)) = Inr av"
      unfolding x by (cases "num (dict_get (stats a) k (PyNum 0))") simp_all
    from that have "s' = compare_values k n ip dv av s"
      unfolding x by (simp add: dv av)
    then show ?thesis by (simp add: compare_values_names x)
  qed
  have "fold_e ?f rec_categories category_changes_init = Inr cc"
    using assms by (simp add: analyze_category_improvements_def Let_def)
  from fold_e_appends [where g = "\<lambda>s. map category_name (cc_all_categories s)"
      and h = "\<lambda>x. fst (snd x)", OF step this]
  show ?thesis
    by (simp add: category_changes_init_def rec_categories_def category_names_def)
qed

lemma single_swaps_inner_carries_all:
  "single_swaps_inner rp rv fas recs = Inr (b, recs') \<Longrightarrow> carries_all recs \<Longrightarrow> carries_all recs'"
proof (induction fas arbitrary: recs)
  case Nil
  then show ?case by simp
next
  case (Cons fa fas)
  from Cons.prems(1) obtain fv where fv: "calculate_player_value fa = Inr fv"
    by (auto dest: bind_e_Inr)
  let ?ok = "fv > rv \<and> check_position_compatibility (position_or [] rp) (position_or [] fa)"
  show ?case
  proof (cases ?ok)
    case False
    with Cons.prems(1) fv have "single_swaps_inner rp rv fas recs = Inr (b, recs')"
      by (auto simp add: Let_def)
    then show ?thesis using Cons.IH Cons.prems(2) by blast
  next
    case True
    with Cons.prems(1) fv obtain cc where cc: "analyze_category_improvements rp fa = Inr cc"
      by (cases "analyze_category_improvements rp fa") (auto simp add: Let_def)
    show ?thesis
    proof (cases "fl (fv - rv) > 0.5")
      case False
      with Cons.prems(1) fv True cc have "single_swaps_inner rp rv fas recs = Inr (b, recs')"
        by (auto simp add: Let_def)
      then show ?thesis using Cons.IH Cons.prems(2) by blast
    next
      case i: True
      define r where "r = \<lparr>rec_type = ''single_swap'', swap_type = Some ''1-for-1'',
                        trade_partner = None,
                        drop_players = [listed_player rp (Some (py_round_nd rv 1))],
                        add_players = [listed_player fa (Some (py_round_nd fv 1))],
                        impact_score = py_round_nd (fl (fv - rv)) 1,
                        all_categories = Some (cc_all_categories cc),
                        category_improvements = cc_improvements cc,
                        category_declines = cc_declines cc,
                        priority = (if fl (fv - rv) > 10.0 then ''high'' else ''medium'')\<rparr>"
      have cr: "carries_all (recs @ [r])"
        using Cons.prems(2) analyze_category_improvements_names [OF cc]
        by (simp add: carries_all_def r_def)
      show ?thesis
      proof (cases "length (recs @ [r]) \<ge> 60")
        case l: True
        with Cons.prems(1) fv True cc i have "recs' = recs @ [r]"
          by (auto simp add: Let_def r_def)
        with cr show ?thesis by simp
      next
        case l: False
        with Cons.prems(1) fv True cc i
        have "single_swaps_inner rp rv fas (recs @ [r]) = Inr (b, recs')"
          by (auto simp add: Let_def r_def)
        then show ?thesis using Cons.IH cr by blast
      qed
    qed
  qed
qed

lemma single_swaps_outer_carries_all:
  "single_swaps_outer rps fas recs = Inr recs' \<Longrightarrow> carries_all recs \<Longrightarrow> carries_all recs'"
proof (induction rps arbitrary: recs)
  case Nil
  then show ?case by simp
next
  case (Cons rp rps)
  from Cons.prems(1) obtain rv where rv: "calculate_player_value rp = Inr rv"
    by (auto dest: bind_e_Inr)
  with Cons.prems(1) obtain b1 recs1 where
    i: "single_swaps_inner rp rv fas recs = Inr (b1, recs1)"
    by (cases "single_swaps_inner rp rv fas recs") auto
  have c1: "carries_all recs1" using single_swaps_inner_carries_all [OF i Cons.prems(2)] .
  show ?case
  proof (cases b1)
    case True
    with Cons.prems(1) rv i have "recs' = recs1" by simp
    with c1 show ?thesis by simp
  next
    case False
    with Cons.prems(1) rv i have "single_swaps_outer rps fas recs1 = Inr recs'" by simp
    then show ?thesis using Cons.IH c1 by blast
  qed
qed

lemma single_swaps_all_carries_all:
  assumes "analyze_single_swaps roster fas = Inr recs"
  shows "carries_all recs"
proof -
  from assms obtain rk where rk: "map_e calculate_player_value roster = Inr rk"
    by (auto simp add: analyze_single_swaps_def dest: bind_e_Inr)
  with assms obtain fk where fk: "map_e calculate_player_value fas = Inr fk"
    by (cases "map_e calculate_player_value fas") (auto simp add: analyze_single_swaps_def Let_def)
  from assms have "single_swaps_outer (sorted_by_key rk roster)
      (take 80 (sorted_by_key_reverse fk fas)) [] = Inr recs"
    by (simp add: analyze_single_swaps_def rk fk Let_def)
  moreover have "carries_all []" by (simp add: carries_all_def)
  ultimately show ?thesis by (rule single_swaps_outer_carries_all)
qed

lemma center_guard_incompatible: "check_position_compatibility ''C'' ''PG'' = False"
  by (simp add: check_position_compatibility_def)

lemma example_no_single:
  "analyze_single_swaps [example_center_a, example_center_b] [example_guard_a, example_guard_b] = Inr []"
  by (simp add: analyze_single_swaps_def ex_values sorted_by_key_def sorted_by_key_reverse_def
        center_guard_incompatible example_positions Let_def)

lemma example_no_budget:
  "find_budget_upgrades [example_center_a, example_center_b] [example_guard_a, example_guard_b] = Inr []"
  by (simp add: find_budget_upgrades_def budget_upgrade_step_def ex_values
        center_guard_incompatible example_positions Let_def fl_simps fl_rec)

lemma example_entry_unbalanced:
  "snd (get_recommendations_for_roster remdups [] [example_center_a, example_center_b]
     [example_guard_a, example_guard_b] [] 100 None) = [example_unbalanced_swap]"
  by (simp add: get_recommendations_for_roster_def recommendations_body_def example_no_single
        example_multi_swap example_no_budget add_unique_Cons add_unique_Nil Let_def slice_to_def)

text \<open>
  When the search raises nothing, the returned list has no two entries with the same key,
  is sorted by impact score, descending, and is no longer than a non-negative maximum;
  when it raises, the one-entry fallback list is returned whatever the maximum.
\<close>

lemma returned_list_ranked:
  "distinct (map get_recommendation_key
      (snd (get_recommendations_for_roster los self_other roster fas all_players n other)))
   \<and> sorted_wrt (\<lambda>a b. a \<ge> b) (map impact_score
      (snd (get_recommendations_for_roster los self_other roster fas all_players n other)))
   \<and> (0 \<le> n \<longrightarrow>
        int (length (snd (get_recommendations_for_roster los self_other roster fas all_players
                            n other))) \<le> n
        \<or> snd (get_recommendations_for_roster los self_other roster fas all_players n other)
            = get_sample_recommendations)"
proof -
  define stored where "stored = (case other of None \<Rightarrow> self_other | Some [] \<Rightarrow> self_other
                    | Some (t # ts) \<Rightarrow> t # ts)"
  have r: "snd (get_recommendations_for_roster los self_other roster fas all_players n other) =
      (case recommendations_body los stored roster fas n of
         Inl e \<Rightarrow> get_sample_recommendations | Inr recs \<Rightarrow> recs)"
    by (simp add: get_recommendations_for_roster_def stored_def Let_def)
  show ?thesis
  proof (cases "recommendations_body los stored roster fas n")
    case (Inl e)
    then show ?thesis unfolding r by (simp add: sample_ranked)
  next
    case (Inr recs)
    then obtain acc where "unique_keys acc"
      and "recs = slice_to (sort_key (\<lambda>r. - impact_score r) (fst acc)) n"
      using recommendations_body_Inr by blast
    then show ?thesis unfolding r Inr using ranked_list [of acc n] by simp
  qed
qed

subsection \<open>Values close to a threshold\<close>

text \<open>
  The tests against 0 and against 0.01 are made on the float results: a player with an FG%
  of 0.46 and half a turnover has the value \<open>2 ^ - 50\<close>, not 0, and the difference of 1.01
  and 1.0 points is above 0.01 and is listed as a change of 0.0.
\<close>

lemma fl_thr_1: "fl (23 / 50) = 8286623314361713 / 18014398509481984"
  by (rule trans [OF fl_eval [where i = 54]]) (simp_all add: py_round_def)

lemma fl_thr_3: "fl (45035996273705 / 4503599627370496) = 45035996273705 / 4503599627370496"
  using fl_dyadic [of 45035996273705 52] by simp

lemma fl_thr_4: "fl (1125899906842625 / 1125899906842624) = 1125899906842625 / 1125899906842624"
  using fl_dyadic [of 1125899906842625 50] by simp

lemma fl_thr_5: "fl (1 / 1125899906842624) = 1 / 1125899906842624"
  using fl_dyadic [of 1 50] by simp

lemma fl_thr_6: "fl (101 / 100) = 4548635623644201 / 4503599627370496"
  by (rule trans [OF fl_eval [where i = 52]]) (simp_all add: py_round_def)

lemma example_marginal_value: "calculate_player_value example_marginal = Inr (1 / 2 ^ 50)"
  by (simp add: calculate_player_value_def example_marginal_def dict_get_def
        percentage_value_def Let_def fl_simps fl_minus fl_0_45 fl_thr_1 fl_thr_3 fl_thr_4 fl_thr_5)

lemma example_small_change:
  "compare_values ''points'' ''PTS'' False 1.0 (fl 1.01) category_changes_init =
     \<lparr>cc_all_categories = [Plus ''PTS'' 0], cc_improvements = [Plus ''PTS'' 0],
      cc_declines = []\<rparr>"
  by (simp add: compare_values_def add_improvement_def category_changes_init_def Let_def
        fl_simps fl_minus fl_rec fl_thr_3 fl_thr_6 py_round_nd_def round_decimal_def py_round_def)
section \<open>The claims about the simulator\<close>

text \<open>
  C1. In every trial and for every one of the nine categories exactly one of the win, loss
  and tie counters of that category grows by one: the win counter when my sampled value
  beats the opponent's (lower for turnovers, higher otherwise), the loss counter when the
  opponent's beats mine, the tie counter when they are equal. So in a report over \<open>n\<close>
  trials the three counts of a category add up to \<open>n\<close>, each reported percentage is within
  1/16 of the exact percentage of its count, and the reported win, loss and tie percentages
  add up to 100 within 3/16.
\<close>

theorem category_counters_partition:
  assumes "run_simulations n rng my opp = Inr r"
  shows "(\<forall>i s s'. run_trial rng my opp s i = Inr s' \<longrightarrow>
            (\<forall>c\<in>set stat_categories.
               (category_wins s' c, category_losses s' c, category_ties s' c) =
               (if beats c (sampled (fst (rng i)) my c) (sampled (snd (rng i)) opp c)
                then (category_wins s c + 1, category_losses s c, category_ties s c)
                else if beats c (sampled (snd (rng i)) opp c) (sampled (fst (rng i)) my c)
                then (category_wins s c, category_losses s c + 1, category_ties s c)
                else (category_wins s c, category_losses s c, category_ties s c + 1))))
       \<and> map fst (category_breakdown r) = stat_categories
       \<and> (\<forall>c\<in>set stat_categories.
            wins_count rng my opp n c + losses_count rng my opp n c + ties_count rng my opp n c = n
            \<and> (\<exists>b. map_of (category_breakdown r) c = Some b
                 \<and> \<bar>win_pct b - percentage (real (wins_count rng my opp n c)) n\<bar> \<le> 1 / 16
                 \<and> \<bar>loss_pct b - percentage (real (losses_count rng my opp n c)) n\<bar> \<le> 1 / 16
                 \<and> \<bar>tie_pct b - percentage (real (ties_count rng my opp n c)) n\<bar> \<le> 1 / 16
                 \<and> \<bar>win_pct b + loss_pct b + tie_pct b - 100\<bar> \<le> 3 / 16))"
proof (intro conjI allI impI ballI)
  fix i s s' c
  assume t: "run_trial rng my opp s i = Inr s'" and c: "c \<in> set stat_categories"
  let ?m = "sampled (fst (rng i)) my c" and ?o = "sampled (snd (rng i)) opp c"
  consider "beats c ?m ?o" | "beats c ?o ?m" | "?m = ?o"
    using beats_total by blast
  then show "(category_wins s' c, category_losses s' c, category_ties s' c) =
               (if beats c ?m ?o
                then (category_wins s c + 1, category_losses s c, category_ties s c)
                else if beats c ?o ?m
                then (category_wins s c, category_losses s c + 1, category_ties s c)
                else (category_wins s c, category_losses s c, category_ties s c + 1))"
  proof cases
    case 1
    with beats_asym [OF 1] beats_neq [OF 1] show ?thesis
      by (simp add: run_trial_Inr(3,4,5) [OF t c])
  next
    case 2
    with beats_asym [OF 2] beats_neq [OF 2] show ?thesis
      by (simp add: run_trial_Inr(3,4,5) [OF t c])
  next
    case 3
    then show ?thesis
      by (simp add: run_trial_Inr(3,4,5) [OF t c] beats_irrefl)
  qed
next
  obtain s where s: "run_trials rng my opp [0..<n] sim_state_init = Inr s" and n: "0 < n"
    and bd: "category_breakdown r = map (category_report n s) stat_categories"
    using assms by (rule run_simulations_Inr)
  show "map fst (category_breakdown r) = stat_categories"
    by (simp add: bd category_report_fst map_idI)
  fix c assume c: "c \<in> set stat_categories"
  let ?W = "wins_count rng my opp n c" and ?L = "losses_count rng my opp n c"
    and ?T = "ties_count rng my opp n c"
  show part: "?W + ?L + ?T = n"
    by (rule counts_partition)
  have w: "category_wins s c = ?W"
    and l: "category_losses s c = ?L"
    and t: "category_ties s c = ?T"
    using run_trials_Inr(2,3,4) [OF s c]
    by (simp_all add: sim_state_init_def wins_count_def losses_count_def ties_count_def)
  let ?b = "snd (category_report n s c)"
  have m: "map_of (category_breakdown r) c = Some ?b"
    unfolding bd by (rule map_of_map_key [OF c]) (rule category_report_fst)
  have f: "win_pct ?b = py_round_nd (fl (fl (real ?W / real n) * 100)) 1"
    "loss_pct ?b = py_round_nd (fl (fl (real ?L / real n) * 100)) 1"
    "tie_pct ?b = py_round_nd (fl (fl (real ?T / real n) * 100)) 1"
    by (simp_all add: category_report_def Let_def w l t)
  have le: "?W \<le> n" "?L \<le> n" "?T \<le> n" using part by simp_all
  have cw: "\<bar>win_pct ?b - percentage (real ?W) n\<bar> \<le> 1 / 16"
    unfolding f by (rule count_percentage_close [OF n le(1)])
  have cl: "\<bar>loss_pct ?b - percentage (real ?L) n\<bar> \<le> 1 / 16"
    unfolding f by (rule count_percentage_close [OF n le(2)])
  have ct: "\<bar>tie_pct ?b - percentage (real ?T) n\<bar> \<le> 1 / 16"
    unfolding f by (rule count_percentage_close [OF n le(3)])
  have "\<bar>win_pct ?b + loss_pct ?b + tie_pct ?b - 100\<bar> \<le> 3 / 16"
    using cw cl ct percentage_sum [OF n part] by linarith
  with m cw cl ct show "\<exists>b. map_of (category_breakdown r) c = Some b
                 \<and> \<bar>win_pct b - percentage (real ?W) n\<bar> \<le> 1 / 16
                 \<and> \<bar>loss_pct b - percentage (real ?L) n\<bar> \<le> 1 / 16
                 \<and> \<bar>tie_pct b - percentage (real ?T) n\<bar> \<le> 1 / 16
                 \<and> \<bar>win_pct b + loss_pct b + tie_pct b - 100\<bar> \<le> 3 / 16"
    by blast
qed

text \<open>C1, at one trial of the example projections: turnovers 9 against 13 is a win.\<close>

theorem category_counters_partition_witness:
  "\<exists>r. run_simulations 1 example_rng example_my_projections example_opponent_projections = Inr r
      \<and> map fst (category_breakdown r) = stat_categories
      \<and> (\<exists>b. map_of (category_breakdown r) ''turnovers'' = Some b
            \<and> \<bar>win_pct b - 100\<bar> \<le> 1 / 16 \<and> \<bar>loss_pct b\<bar> \<le> 1 / 16 \<and> \<bar>tie_pct b\<bar> \<le> 1 / 16
            \<and> \<bar>win_pct b + loss_pct b + tie_pct b - 100\<bar> \<le> 3 / 16)"
proof -
  obtain r where r: "run_simulations 1 example_rng example_my_projections example_opponent_projections = Inr r"
    using example_returns by blast
  note t = category_counters_partition [OF r]
  have m: "''turnovers'' \<in> set stat_categories" by (simp add: stat_categories_def)
  have c: "wins_count example_rng example_my_projections example_opponent_projections 1 ''turnovers'' = 1"
    "losses_count example_rng example_my_projections example_opponent_projections 1 ''turnovers'' = 0"
    "ties_count example_rng example_my_projections example_opponent_projections 1 ''turnovers'' = 0"
    by (simp_all add: wins_count_def losses_count_def ties_count_def example_sim beats_def)
  have p: "percentage (real 1) 1 = 100" "percentage (real 0) 1 = 0"
    by (simp_all add: percentage_def)
  from t m obtain b where b: "map_of (category_breakdown r) ''turnovers'' = Some b"
    "\<bar>win_pct b - percentage (real (wins_count example_rng example_my_projections example_opponent_projections 1 ''turnovers'')) 1\<bar> \<le> 1 / 16"
    "\<bar>loss_pct b - percentage (real (losses_count example_rng example_my_projections example_opponent_projections 1 ''turnovers'')) 1\<bar> \<le> 1 / 16"
    "\<bar>tie_pct b - percentage (real (ties_count example_rng example_my_projections example_opponent_projections 1 ''turnovers'')) 1\<bar> \<le> 1 / 16"
    "\<bar>win_pct b + loss_pct b + tie_pct b - 100\<bar> \<le> 3 / 16"
    by blast
  have "\<bar>win_pct b - 100\<bar> \<le> 1 / 16" "\<bar>loss_pct b\<bar> \<le> 1 / 16" "\<bar>tie_pct b\<bar> \<le> 1 / 16"
    using b(2-4) unfolding c p by simp_all
  with b(1,5) r t show ?thesis by blast
qed

text \<open>
  C2 as stated fails: the win probability is computed in floats. With 5015 credits in
  10000 trials the exact percentage is 50.15, which rounds to 50.2; the float quotient times
  100 lies below 50.15 and the reported value is the float 50.1.
\<close>

theorem win_probability_not_exact_rounding:
  "\<exists>r. run_simulations 10000 example_split_rng example_my_projections
          example_opponent_projections = Inr r
      \<and> credit_sum example_split_rng example_my_projections example_opponent_projections 10000
          = 5015
      \<and> rounded_percentage 5015 10000 = 50.2
      \<and> win_probability r = fl 50.1
      \<and> win_probability r \<noteq>
          rounded_percentage
            (credit_sum example_split_rng example_my_projections example_opponent_projections
               10000) 10000"
proof -
  obtain r where r: "run_simulations 10000 example_split_rng example_my_projections
      example_opponent_projections = Inr r"
    using example_split_returns by blast
  have "win_probability r = py_round_nd (fl (fl (5015 / 10000) * 100)) 1"
    using win_probability_credits(1) [OF r] by (simp add: example_split_credits)
  then have w: "win_probability r = fl (501 / 10)"
    by (simp only: example_split_reported)
  have e: "rounded_percentage 5015 10000 = 502 / 10" by (rule example_split_exact)
  have "win_probability r \<noteq> rounded_percentage 5015 10000"
    unfolding w e by (rule fl_50_1)
  with r w e show ?thesis by (simp add: example_split_credits)
qed

text \<open>
  C2, as amended. A trial adds 1 to the win tally when my team wins strictly more categories
  than the opponent, nothing when it wins strictly fewer, and one half on an equal count;
  the reported win probability is the sum of these credits over \<open>n\<close> trials divided by \<open>n\<close>,
  times 100, rounded to one decimal, each of the three steps in floats; it is within 1/16 of
  the exact percentage. The kept details name the winner of each of the first 100 trials
  accordingly.
\<close>

theorem win_probability_formula:
  assumes "run_simulations n rng my opp = Inr r"
  shows "(\<forall>i s s'. run_trial rng my opp s i = Inr s' \<longrightarrow>
            my_wins s' = my_wins s + trial_credit (sampled (fst (rng i)) my) (sampled (snd (rng i)) opp))
       \<and> win_probability r =
           py_round_nd (fl (fl (credit_sum rng my opp n / real n) * 100)) 1
       \<and> \<bar>win_probability r - percentage (credit_sum rng my opp n) n\<bar> \<le> 1 / 16
       \<and> details r =
           map (\<lambda>i. trial_detail i (sampled (fst (rng i)) my) (sampled (snd (rng i)) opp))
             [0..<min n 100]"
proof (intro conjI allI impI)
  fix i s s'
  assume "run_trial rng my opp s i = Inr s'"
  then show "my_wins s' = my_wins s + trial_credit (sampled (fst (rng i)) my) (sampled (snd (rng i)) opp)"
    by (rule run_trial_Inr(6))
next
  obtain s where s: "run_trials rng my opp [0..<n] sim_state_init = Inr s"
    and d: "details r = simulation_details s"
    using assms by (rule run_simulations_Inr)
  show wp: "win_probability r =
      py_round_nd (fl (fl (credit_sum rng my opp n / real n) * 100)) 1"
    by (rule win_probability_credits(1) [OF assms])
  show "\<bar>win_probability r - percentage (credit_sum rng my opp n) n\<bar> \<le> 1 / 16"
    unfolding wp by (rule credit_percentage_close [OF win_probability_credits(2) [OF assms]])
  show "details r =
           map (\<lambda>i. trial_detail i (sampled (fst (rng i)) my) (sampled (snd (rng i)) opp))
             [0..<min n 100]"
    using run_trials_Inr(6) [OF s] by (simp add: d sim_state_init_def filter_lt_upt)
qed

text \<open>C2 as amended, at one trial of the example projections: two categories to none, credit 1.\<close>

theorem win_probability_formula_witness:
  "\<exists>r. run_simulations 1 example_rng example_my_projections example_opponent_projections = Inr r
      \<and> win_probability r = 100
      \<and> details r = [\<lparr>simulation = 1, detail_categories_won = 2, detail_categories_lost = 0,
                       winner = ''me''\<rparr>]"
proof -
  obtain r where r: "run_simulations 1 example_rng example_my_projections example_opponent_projections = Inr r"
    using example_returns by blast
  note t = win_probability_formula [OF r]
  have c: "credit_sum example_rng example_my_projections example_opponent_projections 1 = 1"
    by (simp add: credit_sum_def example_sim trial_credit_def example_won_by)
  from t have "win_probability r = 100"
    by (simp add: c c [unfolded One_nat_def] fl_simps fl_simps [unfolded One_nat_def])
  moreover from t have "details r = [\<lparr>simulation = 1, detail_categories_won = 2, detail_categories_lost = 0,
                       winner = ''me''\<rparr>]"
    by (simp add: example_sim trial_detail_def trial_winner_def example_won_by)
  ultimately show ?thesis using r by blast
qed

text \<open>
  C3 fails on a roster as the data layer gives it. The player records hold one make on one
  attempt at 100% and nine makes on twenty attempts at 45%, under the keys
  \<open>field_goals\<close> and \<open>field_goal_attempts\<close>; weighted by these attempts the team FG% is
  10/21. The aggregation reads the attempts under \<open>field_goals_attempted\<close>, finds none,
  weights both players by the default 10 attempts, and returns 0.725, the arithmetic mean of
  the two percentages.
\<close>

theorem team_percentage_ignores_recorded_attempts:
  "map (\<lambda>p. (recorded p ''fg_percentage'', recorded p ''field_goal_attempts''))
     [example_sure_shooter, example_volume_shooter] = [(1, 1), (fl 0.45, 20)]
   \<and> \<bar>weighted_percentage [(1, 1), (fl 0.45, 20)] - 10 / 21\<bar> \<le> 1 / 10 ^ 15
   \<and> get_team_projections [example_sure_shooter, example_volume_shooter] ''fg_percentage''
       = fl 0.725
   \<and> fl (fl (1 + fl 0.45) / 2) = fl 0.725
   \<and> 1 / 5 < \<bar>get_team_projections [example_sure_shooter, example_volume_shooter]
                 ''fg_percentage''
               - weighted_percentage [(1, 1), (fl 0.45, 20)]\<bar>"
  using example_shooters_recorded example_shooters_weighted example_shooters_team
    fl_mean_0_725 example_shooters_gap
  by (simp only:)

text \<open>
  C9 as stated fails: a roster of one player whose stats mapping is empty is simulated with
  10 points and a field-goal percentage of 0.45, none of which is in the player record.
\<close>

theorem empty_stats_player_fabricated:
  "stats example_no_stats_player = []
   \<and> get_team_projections [example_no_stats_player] ''points'' = 10
   \<and> get_team_projections [example_no_stats_player] ''fg_percentage'' = fl 0.45"
  using example_no_stats_team by (simp add: example_no_stats_player_def)

text \<open>
  C9, as amended. The nine team projections are computed from the stat lines of the players
  of the roster and from nothing else: each counting projection is the float sum of the
  players' values, FG% and FT% are the float makes over the float attempts of the players
  with a positive rate and positive attempts, and 0 when there are none. The stat line of a
  player with a non-empty stats mapping holds, for a counting category, the stored value (0
  when absent or \<open>None\<close>), the stored FG% and FT% (0.45 and 0.75 when absent or \<open>None\<close>),
  and 10 field-goal and 3 free-throw attempts unless the keys \<open>field_goals_attempted\<close>
  and \<open>free_throws_attempted\<close> are stored; the stat line of a player whose stats mapping is
  empty is the fixed default line. An empty roster is treated as a no-op: all its
  projections are 0.
\<close>

theorem team_projection_sources:
  "get_team_projections [] = (\<lambda>_. 0)
   \<and> (\<forall>c\<in>set counting_stats.
        get_team_projections roster c = float_sum (map (\<lambda>p. stat_line p c) roster))
   \<and> get_team_projections roster ''fg_percentage'' =
        float_weighted_percentage
          (map (\<lambda>p. (stat_line p ''fg_percentage'', stat_line p ''fg_attempts'')) roster)
   \<and> get_team_projections roster ''ft_percentage'' =
        float_weighted_percentage
          (map (\<lambda>p. (stat_line p ''ft_percentage'', stat_line p ''ft_attempts'')) roster)"
proof (intro conjI ballI)
  show "get_team_projections [] = (\<lambda>_. 0)" by (rule team_projections_empty)
next
  fix c assume "c \<in> set counting_stats"
  then show "get_team_projections roster c = float_sum (map (\<lambda>p. stat_line p c) roster)"
    by (simp add: team_counting proj_stat_line)
next
  show "get_team_projections roster ''fg_percentage'' =
        float_weighted_percentage
          (map (\<lambda>p. (stat_line p ''fg_percentage'', stat_line p ''fg_attempts'')) roster)"
    by (simp add: team_fg proj_stat_line)
next
  show "get_team_projections roster ''ft_percentage'' =
        float_weighted_percentage
          (map (\<lambda>p. (stat_line p ''ft_percentage'', stat_line p ''ft_attempts'')) roster)"
    by (simp add: team_ft proj_stat_line)
qed

text \<open>
  C9 as amended, at a roster of a player of whom only 20 points are known and a player
  without stats: 30 points, and an FG% of 0.45 up to rounding, weighted by 10 and 8
  attempts.
\<close>

theorem team_projection_sources_witness:
  "get_team_projections [example_scorer, example_no_stats_player] ''points'' = 30
   \<and> get_team_projections [example_scorer, example_no_stats_player] ''fg_percentage''
       = 2026619832316723 / 4503599627370496"
proof -
  have m: "''points'' \<in> set counting_stats" by (simp add: counting_stats_def)
  note t = team_projection_sources [of "[example_scorer, example_no_stats_player]"]
  have l: "stat_line example_scorer ''points'' = 20"
    "stat_line example_no_stats_player ''points'' = 10"
    "stat_line example_scorer ''fg_percentage'' = fl (9 / 20)"
    "stat_line example_scorer ''fg_attempts'' = 10"
    "stat_line example_no_stats_player ''fg_percentage'' = fl (9 / 20)"
    "stat_line example_no_stats_player ''fg_attempts'' = 8"
    by (simp_all add: stat_line_def stored_or_def default_line_def counting_stats_def
          example_scorer_def example_no_stats_player_def fl_simps)
  from t m have "get_team_projections [example_scorer, example_no_stats_player] ''points'' =
      float_sum (map (\<lambda>p. stat_line p ''points'') [example_scorer, example_no_stats_player])"
    by blast
  then have a: "get_team_projections [example_scorer, example_no_stats_player] ''points'' = 30"
    by (simp add: float_sum_def l fl_simps)
  have pos: "0 < fl (9 / 20)" by (simp add: fl_0_45)
  from t have "get_team_projections [example_scorer, example_no_stats_player] ''fg_percentage'' =
      float_weighted_percentage
        (map (\<lambda>p. (stat_line p ''fg_percentage'', stat_line p ''fg_attempts''))
           [example_scorer, example_no_stats_player])"
    by blast
  then have "get_team_projections [example_scorer, example_no_stats_player] ''fg_percentage'' =
      2026619832316723 / 4503599627370496"
    using pos
    by (simp add: float_weighted_percentage_def float_sum_def l fl_simps fl_0_45 fl_4_5
          fl_3_6 example_scorer_makes example_scorer_team)
  with a show ?thesis by blast
qed

text \<open>
  C10 as stated fails at the trial count 0: the division by the trial count raises
  \<open>ZeroDivisionError\<close> and no report is produced.
\<close>

theorem empty_rosters_zero_trials:
  "simulate_matchup 0 example_rng [] [] = Inl ZeroDivisionError"
  by (simp add: simulate_matchup_def run_simulations_def)

text \<open>
  C10, as amended. For two empty rosters and every trial count \<open>n \<ge> 1\<close>, whatever the
  random draws, the win probability is 50, every category reports win 0, loss 0, tie 100 and
  strength weak, and the expected categories won, lost and tied are 0, 9 and 0.
\<close>

theorem empty_rosters_deterministic:
  assumes "0 < n"
  shows "\<exists>rep. simulate_matchup n rng [] [] = Inr rep
           \<and> win_probability (results rep) = 50
           \<and> category_breakdown (results rep) =
               map (\<lambda>c. (c, \<lparr>win_pct = 0, loss_pct = 0, tie_pct = 100, strength = ''weak''\<rparr>))
                 stat_categories
           \<and> expected_categories_won (results rep) = 0
           \<and> expected_categories_lost (results rep) = 9
           \<and> expected_categories_tied (results rep) = 0"
proof -
  from zero_run [OF assms, of rng] obtain r where
    "run_simulations n rng (\<lambda>_. 0) (\<lambda>_. 0) = Inr r" and
    "win_probability r = 50
           \<and> category_breakdown r =
               map (\<lambda>c. (c, \<lparr>win_pct = 0, loss_pct = 0, tie_pct = 100, strength = ''weak''\<rparr>))
                 stat_categories
           \<and> expected_categories_won r = 0 \<and> expected_categories_lost r = 9
           \<and> expected_categories_tied r = 0"
    by blast
  then show ?thesis
    by (simp add: simulate_matchup_def team_projections_empty Let_def)
qed

text \<open>C10 as amended, at the default 10000 trials.\<close>

theorem empty_rosters_deterministic_witness:
  "\<exists>rep. simulate_matchup 10000 example_rng [] [] = Inr rep
           \<and> win_probability (results rep) = 50
           \<and> expected_categories_lost (results rep) = 9"
  using empty_rosters_deterministic [of 10000 example_rng] by auto

section \<open>The claims about the credit\<close>

text \<open>
  C4. The claim asks for a credit in [1, 70] on every stats mapping. The data layer stores
  \<open>None\<close> for a missing free-throw percentage, and on such a mapping (with at least 10
  minutes) the comparison \<open>ft_pct > 0\<close> raises \<open>TypeError\<close>: no credit is returned.
\<close>

theorem credit_raises_on_null_percentage:
  "calculate_player_credit example_null_ft_stats 24 = Inl TypeError"
  by (simp add: calculate_player_credit_def composite_score_def example_null_ft_stats_def
        dict_get_def Let_def)

text \<open>
  C5. The claim gives every player with a non-empty stats mapping and at least 10 minutes
  the tier function of the composite score, times the minutes multiplier, and every player
  under 10 minutes the credit 1. For the player of C4, whose free-throw percentage is
  stored as \<open>None\<close>, the second half holds and the first does not: under 10 minutes the
  credit is 1, and from 10 minutes on, whatever the minutes, the composite score is not
  computed and \<open>TypeError\<close> is raised in place of a credit.
\<close>

theorem credit_undefined_for_null_percentage:
  "example_null_ft_stats \<noteq> []
   \<and> composite_score example_null_ft_stats = Inl TypeError
   \<and> calculate_player_credit example_null_ft_stats minutes =
       (if minutes < 10 then Inr 1 else Inl TypeError)"
  by (simp add: calculate_player_credit_def composite_score_def example_null_ft_stats_def
        dict_get_def Let_def)
section \<open>The claims about the recommendations\<close>

text \<open>
  C6. The claim asks every emitted multi-player swap to pass the position balance check.
  For a roster of two centers and a pool of two point guards of higher value the 2-for-2
  swap is emitted, and returned by the entry point, although the guard and the center
  counts of the two sides differ by 2.
\<close>

theorem unbalanced_swap_emitted:
  "analyze_multi_player_swaps remdups [example_center_a, example_center_b]
     [example_guard_a, example_guard_b] = Inr [example_unbalanced_swap]
   \<and> snd (get_recommendations_for_roster remdups [] [example_center_a, example_center_b]
          [example_guard_a, example_guard_b] [] 100 None) = [example_unbalanced_swap]
   \<and> \<not> check_multi_position_balance (map rp_position (drop_players example_unbalanced_swap))
         (map rp_position (add_players example_unbalanced_swap))"
  by (simp add: example_multi_swap example_entry_unbalanced)
     (simp add: example_unbalanced_swap_def check_multi_position_balance_def count_position_types_def)

text \<open>
  C7. The claim asks every move to carry the list of the nine per-category deltas. The
  2-for-2 swap of the example carries an empty list (as every multi-player swap does, by
  \<open>multi_swaps_all_bare\<close>), and a value play carries no such list at all; every single
  swap carries the nine entries (\<open>single_swaps_all_carries_all\<close>).
\<close>

theorem multi_swap_without_categories:
  "analyze_multi_player_swaps remdups [example_center_a, example_center_b]
     [example_guard_a, example_guard_b] = Inr [example_unbalanced_swap]
   \<and> all_categories example_unbalanced_swap = Some []
   \<and> find_budget_upgrades [example_center_a] [example_center_b] = Inr [example_value_play]
   \<and> all_categories example_value_play = None"
  by (simp add: example_multi_swap example_budget)
     (simp add: example_unbalanced_swap_def example_value_play_def)

text \<open>
  C8. The claim bounds the length of the returned list by the requested maximum. For a
  roster player without stats (value 0) and a better free agent the value-upgrade step
  divides by 0, the entry point returns its fallback list, and with a requested maximum of 0
  that list of one entry is longer than the maximum.
\<close>

theorem fallback_exceeds_zero_maximum:
  "snd (get_recommendations_for_roster remdups [] [example_statless] [example_guard_a] [] 0 None)
     = get_sample_recommendations
   \<and> \<not> int (length (snd (get_recommendations_for_roster remdups [] [example_statless]
                           [example_guard_a] [] 0 None))) \<le> 0"
proof -
  obtain e where "recommendations_body remdups [] [example_statless] [example_guard_a] 0 = Inl e"
    using body_raises [OF example_budget_raises] by blast
  then have "snd (get_recommendations_for_roster remdups [] [example_statless] [example_guard_a] [] 0 None)
     = get_sample_recommendations"
    by (simp add: get_recommendations_for_roster_def)
  then show ?thesis by (simp add: get_sample_recommendations_def)
qed

end
